theory Spec2Isabelle
  imports Complex_Main
begin

section \<open>Values, exceptions and data frames\<close>

text \<open>
  A cell of a pandas DataFrame is a float or a bool. Floats are modelled by the
  real numbers extended with the three non-finite values of IEEE arithmetic; rounding and
  the sign of zero are not modelled. \<open>NaN\<close> is pandas' null value.
\<close>

datatype cell = Num real | NaN | PInf | NInf | Bool bool

text \<open>Exceptions of the Python code, as values.\<close>

datatype exc = KeyboardInterrupt | KeyError | ValueError | IndexError | AttributeError | OtherError

text \<open>Mixed arithmetic reads a bool as 0 or 1.\<close>

fun as_float :: "cell \<Rightarrow> cell" where
  "as_float (Bool b) = Num (if b then 1 else 0)"
| "as_float c = c"

fun fneg :: "cell \<Rightarrow> cell" where
  "fneg (Num x) = Num (- x)"
| "fneg PInf = NInf"
| "fneg NInf = PInf"
| "fneg NaN = NaN"
| "fneg (Bool b) = Num (if b then - 1 else 0)"

fun fadd' :: "cell \<Rightarrow> cell \<Rightarrow> cell" where
  "fadd' (Num x) (Num y) = Num (x + y)"
| "fadd' NaN _ = NaN"
| "fadd' _ NaN = NaN"
| "fadd' PInf NInf = NaN"
| "fadd' NInf PInf = NaN"
| "fadd' PInf _ = PInf"
| "fadd' _ PInf = PInf"
| "fadd' NInf _ = NInf"
| "fadd' _ NInf = NInf"
| "fadd' (Bool _) _ = NaN"
| "fadd' _ (Bool _) = NaN"

definition fadd :: "cell \<Rightarrow> cell \<Rightarrow> cell" where
  "fadd a b = fadd' (as_float a) (as_float b)"

definition fsub :: "cell \<Rightarrow> cell \<Rightarrow> cell" where
  "fsub a b = fadd a (fneg b)"

fun fmul' :: "cell \<Rightarrow> cell \<Rightarrow> cell" where
  "fmul' (Num x) (Num y) = Num (x * y)"
| "fmul' NaN _ = NaN"
| "fmul' _ NaN = NaN"
| "fmul' (Bool _) _ = NaN"
| "fmul' _ (Bool _) = NaN"
| "fmul' (Num x) PInf = (if x = 0 then NaN else if 0 < x then PInf else NInf)"
| "fmul' (Num x) NInf = (if x = 0 then NaN else if 0 < x then NInf else PInf)"
| "fmul' PInf (Num y) = (if y = 0 then NaN else if 0 < y then PInf else NInf)"
| "fmul' NInf (Num y) = (if y = 0 then NaN else if 0 < y then NInf else PInf)"
| "fmul' PInf PInf = PInf"
| "fmul' NInf NInf = PInf"
| "fmul' PInf NInf = NInf"
| "fmul' NInf PInf = NInf"

definition fmul :: "cell \<Rightarrow> cell \<Rightarrow> cell" where
  "fmul a b = fmul' (as_float a) (as_float b)"

text \<open>numpy's float division: a zero divisor gives an infinity or NaN, never an exception.\<close>

fun fdiv' :: "cell \<Rightarrow> cell \<Rightarrow> cell" where
  "fdiv' (Num x) (Num y) =
     (if y \<noteq> 0 then Num (x / y)
      else if x = 0 then NaN else if 0 < x then PInf else NInf)"
| "fdiv' NaN _ = NaN"
| "fdiv' _ NaN = NaN"
| "fdiv' (Bool _) _ = NaN"
| "fdiv' _ (Bool _) = NaN"
| "fdiv' (Num x) PInf = Num 0"
| "fdiv' (Num x) NInf = Num 0"
| "fdiv' PInf (Num y) = (if 0 \<le> y then PInf else NInf)"
| "fdiv' NInf (Num y) = (if 0 \<le> y then NInf else PInf)"
| "fdiv' PInf PInf = NaN"
| "fdiv' NInf NInf = NaN"
| "fdiv' PInf NInf = NaN"
| "fdiv' NInf PInf = NaN"

definition fdiv :: "cell \<Rightarrow> cell \<Rightarrow> cell" where
  "fdiv a b = fdiv' (as_float a) (as_float b)"

fun fsqrt :: "cell \<Rightarrow> cell" where
  "fsqrt (Num x) = (if x < 0 then NaN else Num (sqrt x))"
| "fsqrt PInf = PInf"
| "fsqrt NInf = NaN"
| "fsqrt NaN = NaN"
| "fsqrt (Bool b) = Num (if b then 1 else 0)"

text \<open>The comparison \<open>x > 0\<close>; every comparison with NaN is false.\<close>

fun gt0 :: "cell \<Rightarrow> bool" where
  "gt0 (Num x) = (0 < x)"
| "gt0 PInf = True"
| "gt0 NInf = False"
| "gt0 NaN = False"
| "gt0 (Bool b) = b"

text \<open>Truth value of a cell, as \<open>np.where\<close> reads its condition.\<close>

fun truthy :: "cell \<Rightarrow> bool" where
  "truthy (Bool b) = b"
| "truthy (Num x) = (x \<noteq> 0)"
| "truthy _ = True"

fun isna :: "cell \<Rightarrow> bool" where
  "isna NaN = True"
| "isna _ = False"

fun is_finite :: "cell \<Rightarrow> bool" where
  "is_finite (Num x) = True"
| "is_finite (Bool b) = True"
| "is_finite _ = False"

definition fsum :: "cell list \<Rightarrow> cell" where
  "fsum xs = foldl fadd (Num 0) xs"

text \<open>\<open>Series.mean()\<close>: nulls are skipped; the mean of no value is NaN.\<close>

definition series_mean :: "cell list \<Rightarrow> cell" where
  "series_mean xs =
     (let ys = filter (\<lambda>c. \<not> isna c) xs
      in fdiv (fsum ys) (Num (real (length ys))))"

text \<open>\<open>np.mean\<close> of a list: nulls are not skipped.\<close>

definition np_mean :: "cell list \<Rightarrow> cell" where
  "np_mean xs = fdiv (fsum xs) (Num (real (length xs)))"

text \<open>
  A row of a frame is its index label (the timestamp) and its values, each with the name
  of its column; a frame is the list of its column names and the list of its rows, in
  order. A Series is a list of labelled values.
\<close>

type_synonym row = "nat \<times> (string \<times> cell) list"

record 'i table =
  columns :: "string list"
  rows :: "('i \<times> (string \<times> cell) list) list"

text \<open>The time series frames are indexed by timestamps, the leaderboards by names.\<close>

type_synonym frame = "nat table"

type_synonym series = "(nat \<times> cell) list"

definition cell_at :: "(string \<times> cell) list \<Rightarrow> string \<Rightarrow> cell" where
  "cell_at m c = (case map_of m c of None \<Rightarrow> NaN | Some v \<Rightarrow> v)"

text \<open>\<open>df[c]\<close>: one column as a Series; a missing column raises KeyError.\<close>

definition get_column :: "frame \<Rightarrow> string \<Rightarrow> exc + series" where
  "get_column df c =
     (if c \<in> set (columns df) then Inr (map (\<lambda>(t, m). (t, cell_at m c)) (rows df))
      else Inl KeyError)"

text \<open>\<open>df.c\<close>: the same by attribute access; a missing column raises AttributeError.\<close>

definition get_attr :: "frame \<Rightarrow> string \<Rightarrow> exc + series" where
  "get_attr df c =
     (if c \<in> set (columns df) then Inr (map (\<lambda>(t, m). (t, cell_at m c)) (rows df))
      else Inl AttributeError)"

text \<open>\<open>df[c] = vs\<close> for a list or an array \<open>vs\<close>: a list of another length raises.\<close>

definition row_set :: "(string \<times> cell) list \<Rightarrow> string \<Rightarrow> cell \<Rightarrow> (string \<times> cell) list" where
  "row_set m c v =
     (if c \<in> fst ` set m then map (\<lambda>(k, x). if k = c then (k, v) else (k, x)) m
      else m @ [(c, v)])"

definition set_column :: "frame \<Rightarrow> string \<Rightarrow> cell list \<Rightarrow> exc + frame" where
  "set_column df c vs =
     (if length vs \<noteq> length (rows df) then Inl ValueError
      else Inr \<lparr>columns = (if c \<in> set (columns df) then columns df else columns df @ [c]),
                rows = map (\<lambda>((t, m), v). (t, row_set m c v)) (zip (rows df) vs)\<rparr>)"

text \<open>\<open>df[cs]\<close>: the sub-frame of the listed columns.\<close>

definition select_columns :: "frame \<Rightarrow> string list \<Rightarrow> exc + frame" where
  "select_columns df cs =
     (if set cs \<subseteq> set (columns df)
      then Inr \<lparr>columns = cs,
                rows = map (\<lambda>(t, m). (t, map (\<lambda>c. (c, cell_at m c)) cs)) (rows df)\<rparr>
      else Inl KeyError)"

text \<open>\<open>df.drop(columns = cs)\<close>.\<close>

definition drop_columns :: "frame \<Rightarrow> string list \<Rightarrow> exc + frame" where
  "drop_columns df cs =
     (if set cs \<subseteq> set (columns df)
      then Inr \<lparr>columns = filter (\<lambda>c. c \<notin> set cs) (columns df),
                rows = map (\<lambda>(t, m). (t, filter (\<lambda>(c, v). c \<notin> set cs) m)) (rows df)\<rparr>
      else Inl KeyError)"

text \<open>\<open>s.shift(-1)\<close>: every value moves one row up; the last row becomes null.\<close>

definition shift_m1 :: "cell list \<Rightarrow> cell list" where
  "shift_m1 vs = (if vs = [] then [] else tl vs @ [NaN])"

section \<open>The ARIMA grid search\<close>

text \<open>
  \<open>mean_squared_error\<close> of scikit-learn: it rejects empty input, inputs of different
  lengths and non-finite values.
\<close>

definition mean_squared_error :: "cell list \<Rightarrow> cell list \<Rightarrow> exc + cell" where
  "mean_squared_error y_true y_pred =
     (if y_true = [] \<or> length y_true \<noteq> length y_pred
         \<or> \<not> list_all is_finite y_true \<or> \<not> list_all is_finite y_pred
      then Inl ValueError
      else Inr (np_mean (map (\<lambda>(a, p). fmul (fsub a p) (fsub a p)) (zip y_true y_pred))))"

definition root_mean_squared_error :: "cell list \<Rightarrow> cell list \<Rightarrow> exc + cell" where
  "root_mean_squared_error y_true y_pred =
     (case mean_squared_error y_true y_pred of
        Inl e \<Rightarrow> Inl e
      | Inr v \<Rightarrow> Inr (fsqrt v))"

type_synonym arima_order = "int \<times> int \<times> int"

text \<open>
  The statsmodels calls \<open>ARIMA(history, order).fit().forecast()[0]\<close> are a parameter
  \<open>arima\<close>: from the history and the order to the forecast, or to the exception raised.
  The loop of \<open>evaluate_arima_model\<close> runs over the values of the test target.
\<close>

fun arima_loop :: "(cell list \<Rightarrow> arima_order \<Rightarrow> exc + cell) \<Rightarrow> arima_order \<Rightarrow>
    cell list \<Rightarrow> cell list \<Rightarrow> cell list \<Rightarrow> exc + cell list" where
  "arima_loop arima order history predictions [] = Inr predictions"
| "arima_loop arima order history predictions (x # test_rest) =
     (case arima history order of
        Inl e \<Rightarrow> Inl e
      | Inr yhat \<Rightarrow> arima_loop arima order (history @ [x]) (predictions @ [yhat]) test_rest)"

definition evaluate_arima_model :: "(cell list \<Rightarrow> arima_order \<Rightarrow> exc + cell) \<Rightarrow>
    frame \<Rightarrow> frame \<Rightarrow> string \<Rightarrow> arima_order \<Rightarrow> exc + (cell \<times> series \<times> cell list)" where
  "evaluate_arima_model arima train test target order =
     (case get_column train target of
        Inl e \<Rightarrow> Inl e
      | Inr train_target \<Rightarrow>
     (case get_column test target of
        Inl e \<Rightarrow> Inl e
      | Inr test_target \<Rightarrow>
     (case arima_loop arima order (map snd train_target) [] (map snd test_target) of
        Inl e \<Rightarrow> Inl e
      | Inr predictions \<Rightarrow>
     (case mean_squared_error (map snd test_target) predictions of
        Inl e \<Rightarrow> Inl e
      | Inr error \<Rightarrow> Inr (error, test_target, predictions)))))"

text \<open>
  The four lists that \<open>evaluate_models\<close> fills. The order is appended before the
  \<open>try\<close>; the other three lists only when the evaluation returned.
\<close>

record sweep_state =
  orders :: "arima_order list"
  mses :: "cell list"
  prediction_list :: "cell list list"
  actual_test :: "series list"

fun sweep :: "(arima_order \<Rightarrow> exc + (cell \<times> series \<times> cell list)) \<Rightarrow>
    arima_order list \<Rightarrow> sweep_state \<Rightarrow> exc + sweep_state" where
  "sweep ev [] st = Inr st"
| "sweep ev (order # rest) st =
     (let st1 = st\<lparr>orders := orders st @ [order]\<rparr>
      in case ev order of
           Inr (mse, test_target, predictions) \<Rightarrow>
             sweep ev rest (st1\<lparr>mses := mses st1 @ [mse],
                                prediction_list := prediction_list st1 @ [predictions],
                                actual_test := actual_test st1 @ [test_target]\<rparr>)
         | Inl KeyboardInterrupt \<Rightarrow> Inl KeyboardInterrupt
         | Inl _ \<Rightarrow> sweep ev rest st1)"

text \<open>The three nested \<open>for\<close> loops visit the combinations in this order.\<close>

definition grid :: "int list \<Rightarrow> int list \<Rightarrow> int list \<Rightarrow> arima_order list" where
  "grid p_values d_values q_values =
     concat (map (\<lambda>p. concat (map (\<lambda>d. map (\<lambda>q. (p, d, q)) q_values) d_values)) p_values)"

record arima_result =
  r_order :: arima_order
  r_mse :: cell
  r_test_predictions :: "cell list"
  r_test_actual :: series

text \<open>
  \<open>results_df\<close> has one row per element of \<open>orders\<close>; assigning a list of another
  length as a column raises ValueError.
\<close>

definition evaluate_models :: "(cell list \<Rightarrow> arima_order \<Rightarrow> exc + cell) \<Rightarrow>
    frame \<Rightarrow> frame \<Rightarrow> string \<Rightarrow> int list \<Rightarrow> int list \<Rightarrow> int list \<Rightarrow> exc + arima_result list" where
  "evaluate_models arima train test target p_values d_values q_values =
     (case sweep (evaluate_arima_model arima train test target) (grid p_values d_values q_values)
             \<lparr>orders = [], mses = [], prediction_list = [], actual_test = []\<rparr> of
        Inl e \<Rightarrow> Inl e
      | Inr st \<Rightarrow>
          if length (mses st) \<noteq> length (orders st) then Inl ValueError
          else if length (prediction_list st) \<noteq> length (orders st) then Inl ValueError
          else if length (actual_test st) \<noteq> length (orders st) then Inl ValueError
          else Inr (map (\<lambda>(order, mse, predictions, test_target).
                      \<lparr>r_order = order, r_mse = mse, r_test_predictions = predictions,
                       r_test_actual = test_target\<rparr>)
                    (zip (orders st) (zip (mses st) (zip (prediction_list st) (actual_test st))))))"


section \<open>Sequencing of computations that may raise\<close>

definition bind_exc :: "exc + 'a \<Rightarrow> ('a \<Rightarrow> exc + 'b) \<Rightarrow> exc + 'b" where
  "bind_exc m f = (case m of Inl e \<Rightarrow> Inl e | Inr x \<Rightarrow> f x)"

section \<open>Scaling\<close>

definition column_values :: "frame \<Rightarrow> string \<Rightarrow> cell list" where
  "column_values df c = map (\<lambda>(t, m). cell_at m c) (rows df)"

definition col_mean :: "cell list \<Rightarrow> cell" where
  "col_mean vs = np_mean vs"

definition col_std :: "cell list \<Rightarrow> cell" where
  "col_std vs = fsqrt (np_mean (map (\<lambda>x. fmul (fsub x (col_mean vs)) (fsub x (col_mean vs))) vs))"

text \<open>
  Modelled from the spec: \<open>StandardScaler\<close> belongs to scikit-learn and is not part of
  the repository. Following the specification, fitting computes for each column its mean
  and its standard deviation, and transforming applies \<open>(x - mean) / std\<close> with the
  fitted statistics. The estimator validates its input: a frame without rows or without
  columns, or with columns other than the fitted ones, raises ValueError.
\<close>

record scaler =
  fitted_mean :: "(string \<times> cell) list"
  fitted_scale :: "(string \<times> cell) list"

definition scaler_fit :: "frame \<Rightarrow> exc + scaler" where
  "scaler_fit df =
     (if rows df = [] \<or> columns df = [] then Inl ValueError
      else Inr \<lparr>fitted_mean = map (\<lambda>c. (c, col_mean (column_values df c))) (columns df),
                fitted_scale = map (\<lambda>c. (c, col_std (column_values df c))) (columns df)\<rparr>)"

definition scaler_transform :: "scaler \<Rightarrow> frame \<Rightarrow> exc + frame" where
  "scaler_transform s df =
     (if rows df = [] \<or> columns df = [] \<or> map fst (fitted_mean s) \<noteq> columns df
      then Inl ValueError
      else Inr \<lparr>columns = columns df,
                rows = map (\<lambda>(t, m). (t, map (\<lambda>c.
                         (c, fdiv (fsub (cell_at m c) (cell_at (fitted_mean s) c))
                               (cell_at (fitted_scale s) c))) (columns df))) (rows df)\<rparr>)"

text \<open>\<open>pd.concat([a, b], axis=1)\<close> of two frames with the same index.\<close>

definition concat_columns :: "frame \<Rightarrow> frame \<Rightarrow> frame" where
  "concat_columns a b =
     \<lparr>columns = columns a @ columns b,
      rows = map (\<lambda>((t, m1), (t', m2)). (t, m1 @ m2)) (zip (rows a) (rows b))\<rparr>"

text \<open>
  One of the three blocks of \<open>scale_datasets\<close>: the unscaled columns of \<open>X\<close> beside the
  scaled ones.
\<close>

definition scaled_block :: "scaler \<Rightarrow> frame \<Rightarrow> string list \<Rightarrow> exc + frame" where
  "scaled_block s X features_to_scale =
     bind_exc (drop_columns X features_to_scale) (\<lambda>unscaled.
     bind_exc (select_columns X features_to_scale) (\<lambda>to_scale.
     bind_exc (scaler_transform s to_scale) (\<lambda>scaled.
     Inr (concat_columns unscaled scaled))))"

definition scale_datasets :: "frame \<Rightarrow> frame \<Rightarrow> frame \<Rightarrow> string \<Rightarrow> string list \<Rightarrow> string list \<Rightarrow>
    exc + (frame \<times> frame \<times> frame \<times> frame \<times> frame \<times> frame)" where
  "scale_datasets train validate test target features_to_use features_to_scale =
     bind_exc (select_columns train features_to_use) (\<lambda>X_train.
     bind_exc (select_columns validate features_to_use) (\<lambda>X_validate.
     bind_exc (select_columns test features_to_use) (\<lambda>X_test.
     bind_exc (select_columns train [target]) (\<lambda>y_train.
     bind_exc (select_columns validate [target]) (\<lambda>y_validate.
     bind_exc (select_columns test [target]) (\<lambda>y_test.
     bind_exc (drop_columns X_train features_to_scale) (\<lambda>unscaled.
     bind_exc (select_columns X_train features_to_scale) (\<lambda>to_scale.
     bind_exc (scaler_fit to_scale) (\<lambda>s.
     bind_exc (scaler_transform s to_scale) (\<lambda>scaled.
     bind_exc (scaled_block s X_validate features_to_scale) (\<lambda>X_validate_scaled.
     bind_exc (scaled_block s X_test features_to_scale) (\<lambda>X_test_scaled.
     Inr (concat_columns unscaled scaled, X_validate_scaled, X_test_scaled,
          y_train, y_validate, y_test)))))))))))))"

text \<open>
  The row that \<open>scale_datasets\<close> makes of a row of selected features, given the
  fitted scaler: the unscaled columns, then the scaled ones.
\<close>

definition scaled_row :: "scaler \<Rightarrow> string list \<Rightarrow> row \<Rightarrow> row" where
  "scaled_row s fs r = (fst r, filter (\<lambda>(c, v). c \<notin> set fs) (snd r) @
            map (\<lambda>c. (c, fdiv (fsub (cell_at (snd r) c) (cell_at (fitted_mean s) c))
                           (cell_at (fitted_scale s) c))) fs)"

section \<open>Estimators and the rolling predictions\<close>

text \<open>
  An estimator of scikit-learn is a parameter: its textual representation, \<open>fit\<close> from
  the training table and targets to a fitted state, \<open>predict\<close> from a fitted state and
  a matrix to one prediction per line, and the support mask that recursive feature
  elimination computes with it. Each of them may raise.
\<close>

record 'm estimator =
  repr :: string
  fit :: "frame \<Rightarrow> series \<Rightarrow> exc + 'm"
  predict :: "'m \<Rightarrow> cell list list \<Rightarrow> exc + cell list"
  rfe_support :: "frame \<Rightarrow> frame \<Rightarrow> nat \<Rightarrow> exc + bool list"

text \<open>\<open>m.__repr__().split('()')[0]\<close>\<close>

fun before_parens :: "string \<Rightarrow> string" where
  "before_parens (a # b # cs) =
     (if a = CHR ''('' \<and> b = CHR '')'' then [] else a # before_parens (b # cs))"
| "before_parens cs = cs"

definition model_name :: "'m estimator \<Rightarrow> string" where
  "model_name est = before_parens (repr est)"

definition to_matrix :: "frame \<Rightarrow> cell list list" where
  "to_matrix df = map (\<lambda>(t, m). map (cell_at m) (columns df)) (rows df)"

definition get_top_features :: "frame \<Rightarrow> frame \<Rightarrow> 'm estimator \<Rightarrow> string \<Rightarrow> nat \<Rightarrow> exc + string list" where
  "get_top_features X_train_scaled y_train model target n_features =
     bind_exc (select_columns y_train [target]) (\<lambda>y.
     bind_exc (rfe_support model X_train_scaled y n_features) (\<lambda>feature_mask.
     if length feature_mask \<noteq> length (columns X_train_scaled) then Inl IndexError
     else Inr (map fst (filter snd (zip (columns X_train_scaled) feature_mask)))))"

text \<open>
  The branch on \<open>perform_feature_selection\<close> that \<open>get_rolling_predictions\<close>,
  \<open>predict_regression\<close> and \<open>predict_classification\<close> share.
\<close>

definition featured :: "bool \<Rightarrow> nat \<Rightarrow> 'm estimator \<Rightarrow> string \<Rightarrow> frame \<Rightarrow> frame \<Rightarrow> frame \<Rightarrow> frame \<Rightarrow>
    exc + (frame \<times> frame \<times> frame)" where
  "featured perform_feature_selection n_features model target X_train_scaled X_validate_scaled
       X_test_scaled y_train =
     (if perform_feature_selection
      then bind_exc (get_top_features X_train_scaled y_train model target n_features)
             (\<lambda>top_features.
           bind_exc (select_columns X_train_scaled top_features) (\<lambda>X_train_f.
           bind_exc (select_columns X_validate_scaled top_features) (\<lambda>X_validate_f.
           bind_exc (select_columns X_test_scaled top_features) (\<lambda>X_test_f.
           Inr (X_train_f, X_validate_f, X_test_f)))))
      else Inr (X_train_scaled, X_validate_scaled, X_test_scaled))"

record rolling_state =
  X_window :: frame
  y_window :: frame
  train_rolling_predictions :: "cell list list"
  train_rolling_actuals :: "series list"
  validate_rolling_predictions :: "cell list list"
  validate_rolling_actuals :: "cell list"

text \<open>
  One pass of the loop body of \<open>get_rolling_predictions\<close>, for the row \<open>xrow\<close> of the
  scaled validation features and the row \<open>yrow\<close> of the validation target.
\<close>

definition rolling_step :: "'m estimator \<Rightarrow> string \<Rightarrow> rolling_state \<Rightarrow> row \<times> row \<Rightarrow> exc + rolling_state" where
  "rolling_step model_under_test target st xy =
     (case xy of (xrow, yrow) \<Rightarrow>
     bind_exc (get_column (y_window st) target) (\<lambda>y_fit.
     bind_exc (fit model_under_test (X_window st) y_fit) (\<lambda>fitted.
     bind_exc (predict model_under_test fitted (to_matrix (X_window st))) (\<lambda>train_prediction.
     bind_exc (get_column (y_window st) target) (\<lambda>train_actual.
     bind_exc (predict model_under_test fitted [map (cell_at (snd xrow)) (columns (X_window st))])
       (\<lambda>validate_prediction.
     Inr \<lparr>X_window = (X_window st)\<lparr>rows := drop 1 (rows (X_window st)) @ [xrow]\<rparr>,
          y_window = (y_window st)\<lparr>rows := drop 1 (rows (y_window st)) @ [yrow]\<rparr>,
          train_rolling_predictions = train_rolling_predictions st @ [train_prediction],
          train_rolling_actuals = train_rolling_actuals st @ [train_actual],
          validate_rolling_predictions = validate_rolling_predictions st @ [validate_prediction],
          validate_rolling_actuals = validate_rolling_actuals st @ [cell_at (snd yrow) target]\<rparr>))))))"

fun rolling_loop :: "'m estimator \<Rightarrow> string \<Rightarrow> (row \<times> row) list \<Rightarrow> rolling_state \<Rightarrow> exc + rolling_state" where
  "rolling_loop model_under_test target [] st = Inr st"
| "rolling_loop model_under_test target (xy # rest) st =
     bind_exc (rolling_step model_under_test target st xy)
       (rolling_loop model_under_test target rest)"

text \<open>
  \<open>get_rolling_predictions\<close> up to its loop: the state in which the loop starts, and
  for every pass the row of the scaled validation features and the row of the validation
  target that the pass reads.
\<close>

definition rolling_start :: "frame \<Rightarrow> frame \<Rightarrow> frame \<Rightarrow> 'm estimator \<Rightarrow> string \<Rightarrow>
    string list \<Rightarrow> string list \<Rightarrow> bool \<Rightarrow> exc + (rolling_state \<times> (row \<times> row) list)" where
  "rolling_start train validate test model_under_test target features_to_use
       features_to_scale perform_feature_selection =
     bind_exc (scale_datasets train validate test target features_to_use features_to_scale)
       (\<lambda>(X_train_scaled, X_validate_scaled, X_test_scaled, y_train_rolled, y_validate, y_test).
     bind_exc
       (featured perform_feature_selection 10 model_under_test target
          X_train_scaled X_validate_scaled X_test_scaled y_train_rolled)
       (\<lambda>(X_train_scaled_featured_rolled, X_validate_scaled_featured_rolled,
           X_test_scaled_featured_rolled).
     Inr (\<lparr>X_window = X_train_scaled_featured_rolled, y_window = y_train_rolled,
           train_rolling_predictions = [], train_rolling_actuals = [],
           validate_rolling_predictions = [], validate_rolling_actuals = []\<rparr>,
          zip (rows X_validate_scaled_featured_rolled) (rows y_validate))))"

definition get_rolling_predictions :: "frame \<Rightarrow> frame \<Rightarrow> frame \<Rightarrow> 'm estimator \<Rightarrow> string \<Rightarrow>
    string list \<Rightarrow> string list \<Rightarrow> bool \<Rightarrow>
    exc + (cell list list \<times> series list \<times> cell list list \<times> cell list)" where
  "get_rolling_predictions train validate test model_under_test target features_to_use
       features_to_scale perform_feature_selection =
     bind_exc (rolling_start train validate test model_under_test target features_to_use
                 features_to_scale perform_feature_selection) (\<lambda>(st0, passes).
     bind_exc (rolling_loop model_under_test target passes st0) (\<lambda>st.
     Inr (train_rolling_predictions st, train_rolling_actuals st,
          validate_rolling_predictions st, validate_rolling_actuals st)))"

text \<open>
  The state of the loop of \<open>get_rolling_predictions\<close> when it enters pass \<open>i\<close>, that is
  after the passes \<open>0, \<dots>, i - 1\<close>: its windows are the tables that pass \<open>i\<close> fits
  the model to.
\<close>

definition state_before_step :: "frame \<Rightarrow> frame \<Rightarrow> frame \<Rightarrow> 'm estimator \<Rightarrow> string \<Rightarrow>
    string list \<Rightarrow> string list \<Rightarrow> bool \<Rightarrow> nat \<Rightarrow> exc + rolling_state" where
  "state_before_step train validate test model_under_test target features_to_use
       features_to_scale perform_feature_selection i =
     bind_exc (rolling_start train validate test model_under_test target features_to_use
                 features_to_scale perform_feature_selection) (\<lambda>(st0, passes).
     rolling_loop model_under_test target (take i passes) st0)"

section \<open>Rolling regression and classification runs\<close>

fun map_exc :: "('a \<Rightarrow> exc + 'b) \<Rightarrow> 'a list \<Rightarrow> exc + 'b list" where
  "map_exc f [] = Inr []"
| "map_exc f (x # xs) = bind_exc (f x) (\<lambda>y. bind_exc (map_exc f xs) (\<lambda>ys. Inr (y # ys)))"

text \<open>\<open>[v[0] for v in validate_rolling_predictions]\<close>\<close>

definition first_elems :: "cell list list \<Rightarrow> exc + cell list" where
  "first_elems vs = map_exc (\<lambda>v. case v of [] \<Rightarrow> Inl IndexError | x # _ \<Rightarrow> Inr x) vs"

text \<open>Equality of two cells as numpy compares them.\<close>

definition cell_eq :: "cell \<Rightarrow> cell \<Rightarrow> bool" where
  "cell_eq a b = (\<not> isna a \<and> \<not> isna b \<and> as_float a = as_float b)"

text \<open>\<open>accuracy_score\<close> of scikit-learn: the share of equal entries.\<close>

definition accuracy_score :: "cell list \<Rightarrow> cell list \<Rightarrow> exc + cell" where
  "accuracy_score y_true y_pred =
     (if length y_true \<noteq> length y_pred then Inl ValueError
      else Inr (np_mean (map (\<lambda>(a, p). Bool (cell_eq a p)) (zip y_true y_pred))))"

text \<open>
  The three derived columns of a result table, for one row: \<open>go_long\<close> is
  \<open>prediction > 0\<close>, \<open>ret\<close> is \<open>np.where(go_long, next_day_close - close,
  close - next_day_close)\<close> and \<open>pct_ret\<close> is \<open>ret / close\<close>.
\<close>

definition trade_fields :: "cell \<Rightarrow> cell \<Rightarrow> cell \<Rightarrow> bool \<times> cell \<times> cell" where
  "trade_fields close next_day_close prediction =
     (let go_long = gt0 prediction;
          ret = (if go_long then fsub next_day_close close else fsub close next_day_close)
      in (go_long, ret, fdiv ret close))"

record trade_row =
  t_index :: nat
  t_actual :: cell
  t_predictions :: cell
  t_close :: cell
  t_next_day_close :: cell
  t_go_long :: bool
  t_ret :: cell
  t_pct_ret :: cell

text \<open>
  The frame \<open>validate_res\<close> that both rolling functions build from the results of
  \<open>get_rolling_predictions\<close>. Setting a column or the index with a list of another
  length raises ValueError.
\<close>

definition trade_table :: "frame \<Rightarrow> cell list \<Rightarrow> cell list list \<Rightarrow> exc + trade_row list" where
  "trade_table validate validate_acts validate_preds =
     bind_exc (first_elems validate_preds) (\<lambda>predictions.
     if length predictions \<noteq> length validate_acts then Inl ValueError
     else if length (rows validate) \<noteq> length validate_acts then Inl ValueError
     else bind_exc (get_attr validate ''close'') (\<lambda>close.
       let closes = map snd close; next_day_close = shift_m1 closes
       in Inr (map (\<lambda>i.
            case trade_fields (closes ! i) (next_day_close ! i) (predictions ! i) of
              (go_long, ret, pct_ret) \<Rightarrow>
                \<lparr>t_index = fst (rows validate ! i),
                 t_actual = validate_acts ! i,
                 t_predictions = predictions ! i,
                 t_close = closes ! i,
                 t_next_day_close = next_day_close ! i,
                 t_go_long = go_long, t_ret = ret, t_pct_ret = pct_ret\<rparr>)
            [0..<length (rows validate)])))"

record baseline_row =
  b_index :: nat
  b_close :: cell
  b_next_day_close :: cell
  b_predictions :: cell
  b_go_long :: cell
  b_ret :: cell

text \<open>What a results dictionary holds under a key: a result table, a baseline table or a number.\<close>

datatype entry = Table "trade_row list" | Baseline "baseline_row list" | Metric cell

type_synonym results = "string \<rightharpoonup> entry"

text \<open>
  Dictionaries are objects: a variable holds a reference, and two variables may hold the
  same one. The store maps references to the dictionaries they denote.
\<close>

record store =
  next_ref :: nat
  objects :: "nat \<rightharpoonup> results"

definition empty_store :: store where
  "empty_store = \<lparr>next_ref = 0, objects = Map.empty\<rparr>"

text \<open>\<open>{}\<close>: a new, empty dictionary.\<close>

definition new_dict :: "store \<Rightarrow> nat \<times> store" where
  "new_dict st = (next_ref st, \<lparr>next_ref = Suc (next_ref st), objects = (objects st)(next_ref st \<mapsto> Map.empty)\<rparr>)"

text \<open>\<open>d[key] = v\<close> for the dictionary behind the reference \<open>r\<close>.\<close>

definition dict_set :: "nat \<Rightarrow> string \<Rightarrow> entry \<Rightarrow> store \<Rightarrow> store" where
  "dict_set r key v st =
     st\<lparr>objects := (objects st)(r \<mapsto> (case objects st r of None \<Rightarrow> Map.empty | Some d \<Rightarrow> d)(key \<mapsto> v))\<rparr>"

type_synonym split = "frame \<times> frame \<times> frame"

text \<open>The body of the inner loop of \<open>rolling_reg_models\<close>, up to the three stores.\<close>

definition rolling_reg_run :: "split \<Rightarrow> 'm estimator \<Rightarrow> string \<Rightarrow> string list \<Rightarrow> string list \<Rightarrow>
    exc + (trade_row list \<times> cell \<times> cell)" where
  "rolling_reg_run tvt model_under_test target features_to_use features_to_scale =
     (case tvt of (train, validate, test) \<Rightarrow>
     bind_exc (get_rolling_predictions train validate test model_under_test target
                 features_to_use features_to_scale True)
       (\<lambda>(train_preds, train_acts,
           validate_preds, validate_acts).
     bind_exc (map_exc (\<lambda>(a, p). root_mean_squared_error (map snd a) p)
                 (zip train_acts train_preds)) (\<lambda>train_rmses.
     bind_exc (first_elems validate_preds) (\<lambda>predictions.
     bind_exc (root_mean_squared_error validate_acts predictions) (\<lambda>validate_rmse.
     bind_exc (trade_table validate validate_acts validate_preds)
       (\<lambda>validate_res.
     Inr (validate_res, validate_rmse, np_mean train_rmses)))))))"

fun reg_models_loop :: "split \<Rightarrow> 'm estimator list \<Rightarrow> string \<Rightarrow> string list \<Rightarrow> string list \<Rightarrow>
    nat \<Rightarrow> store \<Rightarrow> exc + store" where
  "reg_models_loop tvt [] target features_to_use features_to_scale r st = Inr st"
| "reg_models_loop tvt (model_under_test # models) target features_to_use features_to_scale r st =
     bind_exc (rolling_reg_run tvt model_under_test target features_to_use features_to_scale)
       (\<lambda>(validate_res, validate_rmse, train_rmse).
     reg_models_loop tvt models target features_to_use features_to_scale r
       (dict_set r (model_name model_under_test @ ''_train_rmse'') (Metric train_rmse)
       (dict_set r (model_name model_under_test @ ''_validate_rmse'') (Metric validate_rmse)
       (dict_set r (model_name model_under_test) (Table validate_res) st))))"

text \<open>
  The loop over the assets of \<open>rolling_reg_models\<close>: \<open>reg_model_results = {}\<close> is the
  first statement of its body.
\<close>

fun reg_assets_loop :: "(string \<times> split) list \<Rightarrow> 'm estimator list \<Rightarrow> string \<Rightarrow> string list \<Rightarrow>
    string list \<Rightarrow> (string \<rightharpoonup> nat) \<Rightarrow> store \<Rightarrow> exc + ((string \<rightharpoonup> nat) \<times> store)" where
  "reg_assets_loop [] reg_models target features_to_use features_to_scale all_product_results st =
     Inr (all_product_results, st)"
| "reg_assets_loop ((k, tvt) # rest) reg_models target features_to_use features_to_scale
       all_product_results st =
     (case new_dict st of (reg_model_results, st1) \<Rightarrow>
     bind_exc (reg_models_loop tvt reg_models target features_to_use features_to_scale
                 reg_model_results st1) (\<lambda>st2.
     reg_assets_loop rest reg_models target features_to_use features_to_scale
       (all_product_results(k \<mapsto> reg_model_results)) st2))"

text \<open>
  \<open>split_data\<close> is a dictionary from asset names to splits, given by its items in
  iteration order. The result is the dictionary \<open>all_product_results\<close>, whose values
  are references, and the store that interprets them.
\<close>

definition rolling_reg_models :: "(string \<times> split) list \<Rightarrow> 'm estimator list \<Rightarrow> string \<Rightarrow>
    string list \<Rightarrow> string list \<Rightarrow> exc + ((string \<rightharpoonup> nat) \<times> store)" where
  "rolling_reg_models split_data reg_models target features_to_use features_to_scale =
     reg_assets_loop split_data reg_models target features_to_use features_to_scale
       Map.empty empty_store"

text \<open>
  \<open>Series.mode()[0]\<close>: nulls are dropped; of the most frequent values the smallest
  comes first; the mode of no value is an empty Series, whose element 0 does not exist.
\<close>

definition count_of :: "cell list \<Rightarrow> cell \<Rightarrow> nat" where
  "count_of xs v = length (filter (\<lambda>x. x = v) xs)"

fun cell_less :: "cell \<Rightarrow> cell \<Rightarrow> bool" where
  "cell_less NInf b = (b \<noteq> NInf)"
| "cell_less a PInf = (a \<noteq> PInf)"
| "cell_less (Num x) (Num y) = (x < y)"
| "cell_less (Num x) (Bool b) = (x < (if b then 1 else 0))"
| "cell_less (Bool a) (Num y) = ((if a then 1 else 0) < y)"
| "cell_less (Bool a) (Bool b) = (\<not> a \<and> b)"
| "cell_less _ _ = False"

definition mode0 :: "cell list \<Rightarrow> exc + cell" where
  "mode0 xs =
     (case filter (\<lambda>c. \<not> isna c) xs of
        [] \<Rightarrow> Inl KeyError
      | v # vs \<Rightarrow>
          Inr (foldl (\<lambda>best c.
                 if count_of xs best < count_of xs c
                    \<or> (count_of xs c = count_of xs best \<and> cell_less c best)
                 then c else best) v vs))"

text \<open>The baseline frame that the loop body of \<open>rolling_class_models\<close> builds.\<close>

definition class_baseline :: "frame \<Rightarrow> frame \<Rightarrow> exc + baseline_row list" where
  "class_baseline train validate =
     bind_exc (get_attr validate ''close'') (\<lambda>close.
     bind_exc (get_attr train ''fwd_close_positive'') (\<lambda>labels.
     bind_exc (mode0 (map snd labels)) (\<lambda>most_common.
       let closes = map snd close; next_day_close = shift_m1 closes
       in Inr (map (\<lambda>i.
            \<lparr>b_index = fst (rows validate ! i),
             b_close = closes ! i,
             b_next_day_close = next_day_close ! i,
             b_predictions = most_common,
             b_go_long = most_common,
             b_ret = (if truthy most_common then fsub (next_day_close ! i) (closes ! i)
                      else fsub (closes ! i) (next_day_close ! i))\<rparr>)
            [0..<length (rows validate)]))))"

definition rolling_class_run :: "split \<Rightarrow> 'm estimator \<Rightarrow> string \<Rightarrow> string list \<Rightarrow> string list \<Rightarrow>
    exc + (trade_row list \<times> cell \<times> baseline_row list)" where
  "rolling_class_run tvt model_under_test target features_to_use features_to_scale =
     (case tvt of (train, validate, test) \<Rightarrow>
     bind_exc (get_rolling_predictions train validate test model_under_test target
                 features_to_use features_to_scale False)
       (\<lambda>(train_preds, train_acts,
           validate_preds, validate_acts).
     bind_exc (first_elems validate_preds) (\<lambda>predictions.
     bind_exc (accuracy_score validate_acts predictions) (\<lambda>validate_accuracy.
     bind_exc (trade_table validate validate_acts validate_preds)
       (\<lambda>validate_res.
     bind_exc (class_baseline train validate) (\<lambda>baseline.
     Inr (validate_res, validate_accuracy, baseline)))))))"

fun class_models_loop :: "split \<Rightarrow> 'm estimator list \<Rightarrow> string \<Rightarrow> string list \<Rightarrow> string list \<Rightarrow>
    nat \<Rightarrow> store \<Rightarrow> exc + store" where
  "class_models_loop tvt [] target features_to_use features_to_scale r st = Inr st"
| "class_models_loop tvt (model_under_test # models) target features_to_use features_to_scale r st =
     bind_exc (rolling_class_run tvt model_under_test target features_to_use features_to_scale)
       (\<lambda>(validate_res, validate_accuracy, baseline).
     class_models_loop tvt models target features_to_use features_to_scale r
       (dict_set r ''baseline'' (Baseline baseline)
       (dict_set r (model_name model_under_test @ ''_accuracy'') (Metric validate_accuracy)
       (dict_set r (model_name model_under_test) (Table validate_res) st))))"

fun class_assets_loop :: "(string \<times> split) list \<Rightarrow> 'm estimator list \<Rightarrow> string \<Rightarrow> string list \<Rightarrow>
    string list \<Rightarrow> nat \<Rightarrow> (string \<rightharpoonup> nat) \<Rightarrow> store \<Rightarrow> exc + ((string \<rightharpoonup> nat) \<times> store)" where
  "class_assets_loop [] class_models target features_to_use features_to_scale
       class_model_results all_product_class_results st =
     Inr (all_product_class_results, st)"
| "class_assets_loop ((k, tvt) # rest) class_models target features_to_use features_to_scale
       class_model_results all_product_class_results st =
     bind_exc (class_models_loop tvt class_models target features_to_use features_to_scale
                 class_model_results st) (\<lambda>st1.
     class_assets_loop rest class_models target features_to_use features_to_scale
       class_model_results (all_product_class_results(k \<mapsto> class_model_results)) st1)"

text \<open>
  In \<open>rolling_class_models\<close> the statement \<open>class_model_results = {}\<close> stands before
  the loop over the assets.
\<close>

definition rolling_class_models :: "(string \<times> split) list \<Rightarrow> 'm estimator list \<Rightarrow> string \<Rightarrow>
    string list \<Rightarrow> string list \<Rightarrow> exc + ((string \<rightharpoonup> nat) \<times> store)" where
  "rolling_class_models split_data class_models target features_to_use features_to_scale =
     (case new_dict empty_store of (class_model_results, st) \<Rightarrow>
     class_assets_loop split_data class_models target features_to_use features_to_scale
       class_model_results Map.empty st)"

section \<open>The conventional split\<close>

text \<open>
  The state of the loop of \<open>predict_regression\<close> over the models: the two dictionaries
  of errors and the frames \<open>y_train\<close> and \<open>y_validate\<close>, which get one column per model.
\<close>

type_synonym predict_state = "(string \<rightharpoonup> cell) \<times> (string \<rightharpoonup> cell) \<times> frame \<times> frame"

definition predict_regression_step :: "frame \<Rightarrow> frame \<Rightarrow> frame \<Rightarrow> bool \<Rightarrow> nat \<Rightarrow>
    predict_state \<Rightarrow> 'm estimator \<Rightarrow> exc + predict_state" where
  "predict_regression_step X_train_scaled X_validate_scaled X_test_scaled
       perform_feature_selection num_features state reg_model =
     (case state of (rmses_train, rmses_validate, y_train, y_validate) \<Rightarrow>
     bind_exc (featured perform_feature_selection num_features reg_model ''fwd_log_ret''
                 X_train_scaled X_validate_scaled X_test_scaled y_train)
       (\<lambda>(X_train_scaled_featured, X_validate_scaled_featured, X_test_scaled_featured).
     bind_exc (get_attr y_train ''fwd_log_ret'') (\<lambda>y_fit.
     bind_exc (fit reg_model X_train_scaled_featured y_fit) (\<lambda>fitted.
     bind_exc (predict reg_model fitted (to_matrix X_train_scaled_featured)) (\<lambda>train_prediction.
     bind_exc (set_column y_train (model_name reg_model) train_prediction) (\<lambda>y_train1.
     bind_exc (get_attr y_train1 ''fwd_log_ret'') (\<lambda>train_actual.
     bind_exc (get_column y_train1 (model_name reg_model)) (\<lambda>train_predicted.
     bind_exc (root_mean_squared_error (map snd train_actual) (map snd train_predicted))
       (\<lambda>rmse_train.
     bind_exc (predict reg_model fitted (to_matrix X_validate_scaled_featured))
       (\<lambda>validate_prediction.
     bind_exc (set_column y_validate (model_name reg_model) validate_prediction) (\<lambda>y_validate1.
     bind_exc (get_attr y_validate1 ''fwd_log_ret'') (\<lambda>validate_actual.
     bind_exc (get_column y_validate1 (model_name reg_model)) (\<lambda>validate_predicted.
     bind_exc (root_mean_squared_error (map snd validate_actual) (map snd validate_predicted))
       (\<lambda>rmse_validate.
     Inr (rmses_train(model_name reg_model \<mapsto> rmse_train),
          rmses_validate(model_name reg_model \<mapsto> rmse_validate),
          y_train1, y_validate1)))))))))))))))"

fun fold_exc :: "('s \<Rightarrow> 'a \<Rightarrow> exc + 's) \<Rightarrow> 'a list \<Rightarrow> 's \<Rightarrow> exc + 's" where
  "fold_exc f [] s = Inr s"
| "fold_exc f (x # xs) s = bind_exc (f s x) (fold_exc f xs)"

definition predict_regression :: "'m estimator list \<Rightarrow> frame \<Rightarrow> frame \<Rightarrow> frame \<Rightarrow> string list \<Rightarrow>
    string list \<Rightarrow> bool \<Rightarrow> nat \<Rightarrow> exc + predict_state" where
  "predict_regression models train validate test features_to_use features_to_scale
       perform_feature_selection num_features =
     bind_exc (scale_datasets train validate test ''fwd_log_ret'' features_to_use features_to_scale)
       (\<lambda>(X_train_scaled, X_validate_scaled, X_test_scaled, y_train, y_validate, y_test).
     fold_exc (predict_regression_step X_train_scaled X_validate_scaled X_test_scaled
                 perform_feature_selection num_features)
       models (Map.empty, Map.empty, y_train, y_validate))"

definition predict_classification_step :: "frame \<Rightarrow> frame \<Rightarrow> frame \<Rightarrow> bool \<Rightarrow>
    predict_state \<Rightarrow> 'm estimator \<Rightarrow> exc + predict_state" where
  "predict_classification_step X_train_scaled X_validate_scaled X_test_scaled
       perform_feature_selection state class_model =
     (case state of (accuracies_train, accuracies_validate, y_train, y_validate) \<Rightarrow>
     bind_exc (featured perform_feature_selection 16 class_model ''fwd_close_positive''
                 X_train_scaled X_validate_scaled X_test_scaled y_train)
       (\<lambda>(X_train_scaled_featured, X_validate_scaled_featured, X_test_scaled_featured).
     bind_exc (get_attr y_train ''fwd_close_positive'') (\<lambda>y_fit.
     bind_exc (fit class_model X_train_scaled_featured y_fit) (\<lambda>fitted.
     bind_exc (predict class_model fitted (to_matrix X_train_scaled_featured)) (\<lambda>train_prediction.
     bind_exc (set_column y_train (model_name class_model) train_prediction) (\<lambda>y_train1.
     bind_exc (get_attr y_train1 ''fwd_close_positive'') (\<lambda>train_actual.
     bind_exc (get_column y_train1 (model_name class_model)) (\<lambda>train_predicted.
     bind_exc (accuracy_score (map snd train_actual) (map snd train_predicted))
       (\<lambda>accuracy_train.
     bind_exc (predict class_model fitted (to_matrix X_validate_scaled_featured))
       (\<lambda>validate_prediction.
     bind_exc (set_column y_validate (model_name class_model) validate_prediction) (\<lambda>y_validate1.
     bind_exc (get_attr y_validate1 ''fwd_close_positive'') (\<lambda>validate_actual.
     bind_exc (get_column y_validate1 (model_name class_model)) (\<lambda>validate_predicted.
     bind_exc (accuracy_score (map snd validate_actual) (map snd validate_predicted))
       (\<lambda>accuracy_validate.
     bind_exc (get_column y_train1 ''fwd_close_positive'') (\<lambda>train_target.
     bind_exc (get_column y_validate1 ''fwd_close_positive'') (\<lambda>validate_target.
     Inr ((accuracies_train(model_name class_model \<mapsto> accuracy_train))
            (''baseline'' \<mapsto> series_mean (map snd train_target)),
          (accuracies_validate(model_name class_model \<mapsto> accuracy_validate))
            (''baseline'' \<mapsto> series_mean (map snd validate_target)),
          y_train1, y_validate1)))))))))))))))))"

definition predict_classification :: "'m estimator list \<Rightarrow> frame \<Rightarrow> frame \<Rightarrow> frame \<Rightarrow> string list \<Rightarrow>
    string list \<Rightarrow> bool \<Rightarrow> exc + predict_state" where
  "predict_classification models train validate test features_to_use features_to_scale
       perform_feature_selection =
     bind_exc (scale_datasets train validate test ''fwd_close_positive'' features_to_use
                 features_to_scale)
       (\<lambda>(X_train_scaled, X_validate_scaled, X_test_scaled, y_train, y_validate, y_test).
     fold_exc (predict_classification_step X_train_scaled X_validate_scaled X_test_scaled
                 perform_feature_selection)
       models (Map.empty, Map.empty, y_train, y_validate))"

text \<open>
  The state of the loop of \<open>calculate_regression_results\<close> and of
  \<open>calculate_classification_results\<close> over the model names: the frame
  \<open>validate_results\<close> and the four lists of averages and metrics.
\<close>

type_synonym calculate_state = "frame \<times> cell list \<times> cell list \<times> cell list \<times> cell list"

definition dict_get :: "(string \<rightharpoonup> 'a) \<Rightarrow> string \<Rightarrow> exc + 'a" where
  "dict_get d k = (case d k of None \<Rightarrow> Inl KeyError | Some v \<Rightarrow> Inr v)"

definition calculate_step :: "(string \<rightharpoonup> cell) \<Rightarrow> (string \<rightharpoonup> cell) \<Rightarrow> frame \<Rightarrow>
    calculate_state \<Rightarrow> string \<Rightarrow> exc + calculate_state" where
  "calculate_step metrics_train metrics_validate y_validate state mod_name =
     (case state of (validate_results, model_average_trade_returns,
                     model_average_pct_trade_returns, model_metric_validate, model_metric_train) \<Rightarrow>
     bind_exc (get_column y_validate mod_name) (\<lambda>predicted.
     bind_exc (set_column validate_results (mod_name @ ''_long'')
                 (map (\<lambda>(t, p). Bool (gt0 p)) predicted)) (\<lambda>results1.
     bind_exc (get_column results1 (mod_name @ ''_long'')) (\<lambda>long.
     bind_exc (get_attr results1 ''next_day_close'') (\<lambda>next_day_close.
     bind_exc (get_attr results1 ''close'') (\<lambda>close.
     bind_exc (set_column results1 (mod_name @ ''_ret'')
                 (map (\<lambda>(l, n, c). if truthy l then fsub n c else fsub c n)
                    (zip (map snd long) (zip (map snd next_day_close) (map snd close)))))
       (\<lambda>results2.
     bind_exc (get_column results2 (mod_name @ ''_ret'')) (\<lambda>ret.
     bind_exc (get_attr results2 ''close'') (\<lambda>close2.
     bind_exc (set_column results2 (mod_name @ ''_pct_ret'')
                 (map (\<lambda>(r, c). fdiv r c) (zip (map snd ret) (map snd close2)))) (\<lambda>results3.
     bind_exc (get_column results3 (mod_name @ ''_ret'')) (\<lambda>ret3.
     bind_exc (get_column results3 (mod_name @ ''_pct_ret'')) (\<lambda>pct_ret3.
     bind_exc (dict_get metrics_validate mod_name) (\<lambda>metric_validate.
     bind_exc (dict_get metrics_train mod_name) (\<lambda>metric_train.
     Inr (results3,
          model_average_trade_returns @ [series_mean (map snd ret3)],
          model_average_pct_trade_returns @ [series_mean (map snd pct_ret3)],
          model_metric_validate @ [metric_validate],
          model_metric_train @ [metric_train])))))))))))))))"

text \<open>\<open>validate_results\<close> before the loop: the closing prices and the next day's.\<close>

definition initial_validate_results :: "frame \<Rightarrow> exc + frame" where
  "initial_validate_results validate =
     bind_exc (get_attr validate ''close'') (\<lambda>close.
     bind_exc (get_attr validate ''close'') (\<lambda>close_again.
     set_column \<lparr>columns = [''close''], rows = map (\<lambda>(t, v). (t, [(''close'', v)])) close\<rparr>
       ''next_day_close'' (shift_m1 (map snd close_again))))"

text \<open>The two baseline columns that are added after the loop.\<close>

definition add_daily_returns :: "frame \<Rightarrow> frame \<Rightarrow> exc + frame" where
  "add_daily_returns validate validate_results =
     bind_exc (get_attr validate ''fwd_ret'') (\<lambda>fwd_ret.
     bind_exc (set_column validate_results ''daily_return'' (map snd fwd_ret)) (\<lambda>results1.
     bind_exc (get_attr validate ''fwd_pct_chg'') (\<lambda>fwd_pct_chg.
     set_column results1 ''pct_daily_return'' (map snd fwd_pct_chg))))"

text \<open>
  \<open>pd.DataFrame(data = {...}, index = model_names)\<close> with four columns, named
  \<open>avg_trade\<close>, \<open>pct_avg_trade\<close>, \<open>vname\<close> and \<open>tname\<close>: a list that is not as
  long as the index raises ValueError.
\<close>

definition avg_trade_frame :: "string list \<Rightarrow> string \<Rightarrow> string \<Rightarrow> cell list \<Rightarrow> cell list \<Rightarrow>
    cell list \<Rightarrow> cell list \<Rightarrow> exc + string table" where
  "avg_trade_frame model_names vname tname avg_trades pct_avg_trades metric_validate metric_train =
     (if length avg_trades \<noteq> length model_names \<or> length pct_avg_trades \<noteq> length model_names
         \<or> length metric_validate \<noteq> length model_names \<or> length metric_train \<noteq> length model_names
      then Inl ValueError
      else Inr \<lparr>columns = [''avg_trade'', ''pct_avg_trade'', vname, tname],
                rows = map (\<lambda>i. (model_names ! i,
                          [(''avg_trade'', avg_trades ! i), (''pct_avg_trade'', pct_avg_trades ! i),
                           (vname, metric_validate ! i), (tname, metric_train ! i)]))
                        [0..<length model_names]\<rparr>)"

text \<open>
  \<open>pd.concat\<close> and \<open>DataFrame.append\<close> of two frames, one below the other: the columns
  are the union, a cell that a frame does not have is null.
\<close>

definition reindex_columns :: "string list \<Rightarrow> 'i \<times> (string \<times> cell) list \<Rightarrow> 'i \<times> (string \<times> cell) list" where
  "reindex_columns cs r = (fst r, map (\<lambda>c. (c, cell_at (snd r) c)) cs)"

definition concat_rows :: "'i table \<Rightarrow> 'i table \<Rightarrow> 'i table" where
  "concat_rows a b =
     (let cs = columns a @ filter (\<lambda>c. c \<notin> set (columns a)) (columns b)
      in \<lparr>columns = cs, rows = map (reindex_columns cs) (rows a @ rows b)\<rparr>)"

text \<open>
  \<open>sort_values(by = cs, ascending = False)\<close>: descending by the first column of
  \<open>cs\<close>, ties broken by the next one, nulls last. \<open>before_by cs a b\<close> says that the
  row \<open>a\<close> has to stand before the row \<open>b\<close>. Rows that are equal in all of \<open>cs\<close>
  keep their order in the model.
\<close>

definition desc_before :: "cell \<Rightarrow> cell \<Rightarrow> bool" where
  "desc_before a b = (\<not> isna a \<and> (isna b \<or> cell_less b a))"

fun before_by :: "string list \<Rightarrow> (string \<times> cell) list \<Rightarrow> (string \<times> cell) list \<Rightarrow> bool" where
  "before_by [] a b = False"
| "before_by (c # cs) a b =
     (desc_before (cell_at a c) (cell_at b c)
      \<or> (\<not> desc_before (cell_at b c) (cell_at a c) \<and> before_by cs a b))"

fun insert_desc :: "string list \<Rightarrow> 'i \<times> (string \<times> cell) list \<Rightarrow>
    ('i \<times> (string \<times> cell) list) list \<Rightarrow> ('i \<times> (string \<times> cell) list) list" where
  "insert_desc cs x [] = [x]"
| "insert_desc cs x (y # ys) =
     (if before_by cs (snd y) (snd x) then y # insert_desc cs x ys else x # y # ys)"

definition sort_desc :: "string list \<Rightarrow> ('i \<times> (string \<times> cell) list) list \<Rightarrow>
    ('i \<times> (string \<times> cell) list) list" where
  "sort_desc cs xs = foldr (insert_desc cs) xs []"

definition sort_values_desc :: "'i table \<Rightarrow> string list \<Rightarrow> exc + 'i table" where
  "sort_values_desc df cs =
     (if set cs \<subseteq> set (columns df)
      then Inr (df\<lparr>rows := sort_desc cs (rows df)\<rparr>)
      else Inl KeyError)"

text \<open>A list of rows is ranked by \<open>cs\<close> when no row has to stand before an earlier one.\<close>

definition ranked_by :: "string list \<Rightarrow> ('i \<times> (string \<times> cell) list) list \<Rightarrow> bool" where
  "ranked_by cs xs = sorted_wrt (\<lambda>a b. \<not> before_by cs (snd b) (snd a)) xs"

definition calculate_regression_results :: "'m estimator list \<Rightarrow> (string \<rightharpoonup> cell) \<Rightarrow>
    (string \<rightharpoonup> cell) \<Rightarrow> frame \<Rightarrow> frame \<Rightarrow> exc + (string table \<times> frame)" where
  "calculate_regression_results models rmses_train rmses_validate validate y_validate =
     bind_exc (initial_validate_results validate) (\<lambda>validate_results.
     bind_exc (fold_exc (calculate_step rmses_train rmses_validate y_validate)
                 (map model_name models) (validate_results, [], [], [], []))
       (\<lambda>(validate_results1, model_average_trade_returns, model_average_pct_trade_returns,
           model_rmse_validate, model_rmse_train).
     bind_exc (add_daily_returns validate validate_results1) (\<lambda>validate_results2.
     bind_exc (avg_trade_frame (map model_name models) ''validate_rmse'' ''train_rmse''
                 model_average_trade_returns model_average_pct_trade_returns
                 model_rmse_validate model_rmse_train) (\<lambda>avg_trade_model.
     bind_exc (get_attr validate_results2 ''daily_return'') (\<lambda>daily_return.
     bind_exc (get_attr validate_results2 ''pct_daily_return'') (\<lambda>pct_daily_return.
     bind_exc (sort_values_desc
                 (concat_rows avg_trade_model
                    \<lparr>columns = [''avg_trade'', ''pct_avg_trade'', ''validate_rmse'', ''train_rmse''],
                     rows = [(''baseline_reg'',
                              [(''avg_trade'', series_mean (map snd daily_return)),
                               (''pct_avg_trade'', series_mean (map snd pct_daily_return)),
                               (''validate_rmse'', NaN), (''train_rmse'', NaN)])]\<rparr>)
                 [''pct_avg_trade'']) (\<lambda>sorted.
     Inr (sorted, validate_results2))))))))"

text \<open>The loop of \<open>calculate_classification_results\<close> skips the name \<open>baseline\<close>.\<close>

definition calculate_classification_results :: "'m estimator list \<Rightarrow> (string \<rightharpoonup> cell) \<Rightarrow>
    (string \<rightharpoonup> cell) \<Rightarrow> frame \<Rightarrow> frame \<Rightarrow> exc + (string table \<times> frame)" where
  "calculate_classification_results models accuracies_train accuracies_validate validate y_validate =
     bind_exc (initial_validate_results validate) (\<lambda>validate_results.
     bind_exc (fold_exc (calculate_step accuracies_train accuracies_validate y_validate)
                 (filter (\<lambda>mod_name. mod_name \<noteq> ''baseline'') (map model_name models))
                 (validate_results, [], [], [], []))
       (\<lambda>(validate_results1, model_average_trade_returns, model_average_pct_trade_returns,
           model_accuracy_validate, model_accuracy_train).
     bind_exc (add_daily_returns validate validate_results1) (\<lambda>validate_results2.
     bind_exc (avg_trade_frame (map model_name models) ''validate_accuracy'' ''train_accuracy''
                 model_average_trade_returns model_average_pct_trade_returns
                 model_accuracy_validate model_accuracy_train) (\<lambda>avg_trade_model.
     bind_exc (get_attr validate_results2 ''daily_return'') (\<lambda>daily_return.
     bind_exc (get_attr validate_results2 ''pct_daily_return'') (\<lambda>pct_daily_return.
     bind_exc (dict_get accuracies_validate ''baseline'') (\<lambda>baseline_validate.
     bind_exc (dict_get accuracies_train ''baseline'') (\<lambda>baseline_train.
     bind_exc (sort_values_desc
                 (concat_rows avg_trade_model
                    \<lparr>columns = [''avg_trade'', ''pct_avg_trade'', ''validate_accuracy'',
                                ''train_accuracy''],
                     rows = [(''baseline_class'',
                              [(''avg_trade'', series_mean (map snd daily_return)),
                               (''pct_avg_trade'', series_mean (map snd pct_daily_return)),
                               (''validate_accuracy'', baseline_validate),
                               (''train_accuracy'', baseline_train)])]\<rparr>)
                 [''pct_avg_trade'']) (\<lambda>sorted.
     Inr (sorted, validate_results2))))))))))"

text \<open>
  The body of the first loop of \<open>conventional_split\<close>, for one asset: the combined and
  sorted table of the asset, and the two frames of validation results.
\<close>

definition conventional_asset :: "'m estimator list \<Rightarrow> 'm estimator list \<Rightarrow> string list \<Rightarrow>
    string list \<Rightarrow> split \<Rightarrow> exc + (string table \<times> frame \<times> frame)" where
  "conventional_asset reg_models class_models features_to_use features_to_scale tvt =
     (case tvt of (train, validate, test) \<Rightarrow>
     bind_exc (predict_regression reg_models train validate test features_to_use
                 features_to_scale True 5)
       (\<lambda>(rmses_train, rmses_validate, y_train, y_validate).
     bind_exc (calculate_regression_results reg_models rmses_train rmses_validate validate
                 y_validate)
       (\<lambda>(reg_avg_trade_model_results, reg_v_results).
     bind_exc (predict_classification class_models train validate test features_to_use
                 features_to_scale False)
       (\<lambda>(accuracies_train, accuracies_validate, y_train_class, y_validate_class).
     bind_exc (calculate_classification_results class_models accuracies_train
                 accuracies_validate validate y_validate_class)
       (\<lambda>(class_avg_trade_model_results, class_v_results).
     bind_exc (sort_values_desc
                 (concat_rows reg_avg_trade_model_results class_avg_trade_model_results)
                 [''pct_avg_trade'']) (\<lambda>avg.
     Inr (avg, reg_v_results, class_v_results)))))))"

text \<open>\<open>results.index = [i + '_' + k for i in results.index]\<close>\<close>

definition rename_index :: "string \<Rightarrow> string table \<Rightarrow> string table" where
  "rename_index k results = results\<lparr>rows := map (\<lambda>(i, m). (i @ ''_'' @ k, m)) (rows results)\<rparr>"

text \<open>
  The column \<open>dropoff\<close>: \<open>np.select\<close> takes the first choice whose condition holds, and
  0 where none does.
\<close>

definition dropoff_of :: "(string \<times> cell) list \<Rightarrow> cell" where
  "dropoff_of m =
     (if isna (cell_at m ''train_rmse'')
      then fdiv (fsub (cell_at m ''validate_accuracy'') (cell_at m ''train_accuracy''))
             (cell_at m ''train_accuracy'')
      else if isna (cell_at m ''train_accuracy'')
      then fdiv (fsub (cell_at m ''validate_rmse'') (cell_at m ''train_rmse''))
             (cell_at m ''train_rmse'')
      else Num 0)"

definition add_dropoff :: "string table \<Rightarrow> exc + string table" where
  "add_dropoff df =
     (if \<not> set [''train_rmse'', ''train_accuracy'', ''validate_accuracy'', ''validate_rmse'']
            \<subseteq> set (columns df)
      then Inl AttributeError
      else Inr \<lparr>columns = (if ''dropoff'' \<in> set (columns df) then columns df
                           else columns df @ [''dropoff'']),
                rows = map (\<lambda>(i, m). (i, row_set m ''dropoff'' (dropoff_of m))) (rows df)\<rparr>)"

definition select_table_columns :: "'i table \<Rightarrow> string list \<Rightarrow> exc + 'i table" where
  "select_table_columns df cs =
     (if set cs \<subseteq> set (columns df)
      then Inr \<lparr>columns = cs, rows = map (reindex_columns cs) (rows df)\<rparr>
      else Inl KeyError)"

text \<open>
  \<open>conventional_split\<close>. The dictionaries keyed by asset are given by their items. The
  statement before \<open>return\<close> sorts by \<open>pct_avg_trade\<close> and \<open>dropoff\<close>, takes the
  first ten rows and seven columns of the sorted copy and drops the value: what is returned
  is the frame \<open>conventional_split_model_results\<close> itself.
\<close>

definition conventional_split :: "(string \<times> split) list \<Rightarrow> 'm estimator list \<Rightarrow> 'm estimator list \<Rightarrow>
    string list \<Rightarrow> string list \<Rightarrow>
    exc + ((string \<times> frame) list \<times> (string \<times> frame) list \<times> string table)" where
  "conventional_split split_data reg_models class_models features_to_use features_to_scale =
     bind_exc (map_exc (\<lambda>(k, tvt).
                  bind_exc (conventional_asset reg_models class_models features_to_use
                              features_to_scale tvt) (\<lambda>r. Inr (k, r))) split_data)
       (\<lambda>per_asset.
     let reg_validate_results = map (\<lambda>(k, avg, reg_v, class_v). (k, reg_v)) per_asset;
         class_validate_results = map (\<lambda>(k, avg, reg_v, class_v). (k, class_v)) per_asset;
         conventional_split_model_results =
           foldl (\<lambda>acc (k, avg, reg_v, class_v). concat_rows acc (rename_index k avg))
             \<lparr>columns = [], rows = []\<rparr> per_asset
     in bind_exc (add_dropoff conventional_split_model_results) (\<lambda>with_dropoff.
        bind_exc (sort_values_desc with_dropoff [''pct_avg_trade'', ''dropoff'']) (\<lambda>sorted.
        bind_exc (select_table_columns (sorted\<lparr>rows := take 10 (rows sorted)\<rparr>)
                    [''pct_avg_trade'', ''avg_trade'', ''train_rmse'', ''validate_rmse'',
                     ''train_accuracy'', ''validate_accuracy'', ''dropoff'']) (\<lambda>displayed.
        Inr (reg_validate_results, class_validate_results, with_dropoff)))))"

section \<open>Predicates on results\<close>

text \<open>
  A row of a result table agrees with the conversion of a prediction to a trade: long iff
  the prediction is positive, the return of the day taken long or short, and the same
  relative to the closing price.
\<close>

definition trade_row_ok :: "trade_row \<Rightarrow> bool" where
  "trade_row_ok r \<longleftrightarrow>
     t_go_long r = gt0 (t_predictions r)
     \<and> t_ret r = (if t_go_long r then fsub (t_next_day_close r) (t_close r)
                  else fsub (t_close r) (t_next_day_close r))
     \<and> t_pct_ret r = fdiv (t_ret r) (t_close r)"

text \<open>Every result table in a store has such rows only.\<close>

definition tables_ok :: "store \<Rightarrow> bool" where
  "tables_ok st \<longleftrightarrow>
     (\<forall>r d key tbl. objects st r = Some d \<longrightarrow> d key = Some (Table tbl) \<longrightarrow>
        (\<forall>row \<in> set tbl. trade_row_ok row))"

text \<open>Every baseline table in a store is the baseline of one of the given assets.\<close>

definition baselines_from :: "(string \<times> split) list \<Rightarrow> store \<Rightarrow> bool" where
  "baselines_from split_data st \<longleftrightarrow>
     (\<forall>r d key bl. objects st r = Some d \<longrightarrow> d key = Some (Baseline bl) \<longrightarrow>
        (\<exists>k train validate test. (k, train, validate, test) \<in> set split_data
           \<and> class_baseline train validate = Inr bl))"

text \<open>
  The entries that the inner loop of \<open>rolling_class_models\<close> writes for one asset, as one
  dictionary, and the keys under which it writes.
\<close>

definition class_entries :: "string \<Rightarrow> trade_row list \<Rightarrow> cell \<Rightarrow> baseline_row list \<Rightarrow> results" where
  "class_entries name validate_res validate_accuracy baseline =
     [name \<mapsto> Table validate_res, name @ ''_accuracy'' \<mapsto> Metric validate_accuracy,
      ''baseline'' \<mapsto> Baseline baseline]"

fun class_writes :: "split \<Rightarrow> 'm estimator list \<Rightarrow> string \<Rightarrow> string list \<Rightarrow> string list \<Rightarrow>
    exc + results" where
  "class_writes tvt [] target features_to_use features_to_scale = Inr Map.empty"
| "class_writes tvt (model_under_test # models) target features_to_use features_to_scale =
     bind_exc (rolling_class_run tvt model_under_test target features_to_use features_to_scale)
       (\<lambda>(validate_res, validate_accuracy, baseline).
     bind_exc (class_writes tvt models target features_to_use features_to_scale) (\<lambda>later.
     Inr (class_entries (model_name model_under_test) validate_res validate_accuracy baseline
          ++ later)))"

text \<open>The store \<open>st\<close> with the dictionary \<open>d\<close> behind the reference \<open>r\<close>.\<close>

definition with_dict :: "store \<Rightarrow> nat \<Rightarrow> results \<Rightarrow> store" where
  "with_dict st r d = \<lparr>next_ref = next_ref st, objects = (objects st)(r \<mapsto> d)\<rparr>"

definition class_keys :: "'m estimator list \<Rightarrow> string set" where
  "class_keys models =
     (\<Union>m \<in> set models. {model_name m, model_name m @ ''_accuracy'', ''baseline''})"

text \<open>
  The two columns of in-sample metrics of a leaderboard row: both null, or at least one
  of them null.
\<close>

definition both_null :: "(string \<times> cell) list \<Rightarrow> bool" where
  "both_null m = (isna (cell_at m ''train_rmse'') \<and> isna (cell_at m ''train_accuracy''))"

definition one_null :: "(string \<times> cell) list \<Rightarrow> bool" where
  "one_null m = (isna (cell_at m ''train_rmse'') \<or> isna (cell_at m ''train_accuracy''))"

section \<open>Concrete inputs\<close>

text \<open>
  A small asset: two training rows, two validation rows and one test row, with a column
  \<open>x\<close>, the closing price and the columns that the functions read.
\<close>

definition ex_bar :: "nat \<Rightarrow> real \<Rightarrow> real \<Rightarrow> real \<Rightarrow> real \<Rightarrow> real \<Rightarrow> bool \<Rightarrow> row" where
  "ex_bar t x c fr fpc flr pos =
     (t, [(''x'', Num x), (''close'', Num c), (''fwd_ret'', Num fr), (''fwd_pct_chg'', Num fpc),
          (''fwd_log_ret'', Num flr), (''fwd_close_positive'', Bool pos)])"

definition ex_columns :: "string list" where
  "ex_columns = [''x'', ''close'', ''fwd_ret'', ''fwd_pct_chg'', ''fwd_log_ret'',
                 ''fwd_close_positive'']"

definition ex_train :: frame where
  "ex_train = \<lparr>columns = ex_columns,
     rows = [ex_bar 1 1 90 5 (1/18) (3/50) True, ex_bar 2 3 95 5 (1/19) (1/20) True]\<rparr>"

definition ex_validate :: frame where
  "ex_validate = \<lparr>columns = ex_columns,
     rows = [ex_bar 3 (101/50) 100 5 (1/20) (1/25) True,
             ex_bar 4 (199/100) 105 (-5) (-1/21) (-1/20) False]\<rparr>"

definition ex_test :: frame where
  "ex_test = \<lparr>columns = ex_columns, rows = [ex_bar 5 2 100 1 (1/100) (1/100) True]\<rparr>"

text \<open>
  The features of the runs below: two columns, both scaled. The recursive feature
  elimination of scikit-learn rejects a frame of fewer than two columns with ValueError;
  the stand-in below keeps the first \<open>n\<close> columns, which are all columns of a frame
  that has no more than \<open>n\<close>.
\<close>

definition ex_features :: "string list" where
  "ex_features = [''x'', ''close'']"

definition ex_rfe :: "frame \<Rightarrow> frame \<Rightarrow> nat \<Rightarrow> exc + bool list" where
  "ex_rfe X y n =
     (if length (columns X) < 2 then Inl ValueError
      else Inr (map (\<lambda>i. i < n) [0..<length (columns X)]))"

text \<open>An estimator without state that predicts the first feature of each line.\<close>

definition ex_model :: "unit estimator" where
  "ex_model = \<lparr>repr = ''First()'', fit = (\<lambda>X y. Inr ()), predict = (\<lambda>m M. Inr (map hd M)),
     rfe_support = ex_rfe\<rparr>"

text \<open>An ARIMA stand-in that cannot be fitted for the order (0, 0, 0).\<close>

definition ex_arima :: "cell list \<Rightarrow> arima_order \<Rightarrow> exc + cell" where
  "ex_arima history order = (if order = (0, 0, 0) then Inl OtherError else Inr (Num 0))"

text \<open>The frames that \<open>scale_datasets\<close> returns for the small asset.\<close>

definition ex_scaled :: "frame \<times> frame \<times> frame \<times> frame \<times> frame \<times> frame" where
  "ex_scaled =
     (\<lparr>columns = [''close'', ''x''],
       rows = [(1, [(''close'', Num 90), (''x'', Num (- 1))]),
               (2, [(''close'', Num 95), (''x'', Num 1)])]\<rparr>,
      \<lparr>columns = [''close'', ''x''],
       rows = [(3, [(''close'', Num 100), (''x'', Num (1 / 50))]),
               (4, [(''close'', Num 105), (''x'', Num (- (1 / 100)))])]\<rparr>,
      \<lparr>columns = [''close'', ''x''], rows = [(5, [(''close'', Num 100), (''x'', Num 0)])]\<rparr>,
      \<lparr>columns = [''fwd_log_ret''],
       rows = [(1, [(''fwd_log_ret'', Num (3 / 50))]), (2, [(''fwd_log_ret'', Num (1 / 20))])]\<rparr>,
      \<lparr>columns = [''fwd_log_ret''],
       rows = [(3, [(''fwd_log_ret'', Num (1 / 25))]),
               (4, [(''fwd_log_ret'', Num (- (1 / 20)))])]\<rparr>,
      \<lparr>columns = [''fwd_log_ret''], rows = [(5, [(''fwd_log_ret'', Num (1 / 100))])]\<rparr>)"

text \<open>
  The loop states of the rolling run of \<open>ex_model\<close> on the small asset with the target
  \<open>fwd_log_ret\<close> and the features \<open>x\<close> and \<open>close\<close>, both scaled: after one pass
  and after two.
\<close>

definition ex_state1 :: rolling_state where
  "ex_state1 =
     \<lparr>X_window = \<lparr>columns = [''x'', ''close''],
                  rows = [(2, [(''x'', Num 1), (''close'', Num 1)]),
                          (3, [(''x'', Num (1 / 50)), (''close'', Num 3)])]\<rparr>,
      y_window = \<lparr>columns = [''fwd_log_ret''],
                  rows = [(2, [(''fwd_log_ret'', Num (1 / 20))]),
                          (3, [(''fwd_log_ret'', Num (1 / 25))])]\<rparr>,
      train_rolling_predictions = [[Num (- 1), Num 1]],
      train_rolling_actuals = [[(1, Num (3 / 50)), (2, Num (1 / 20))]],
      validate_rolling_predictions = [[Num (1 / 50)]],
      validate_rolling_actuals = [Num (1 / 25)]\<rparr>"

definition ex_state2 :: rolling_state where
  "ex_state2 =
     \<lparr>X_window = \<lparr>columns = [''x'', ''close''],
                  rows = [(3, [(''x'', Num (1 / 50)), (''close'', Num 3)]),
                          (4, [(''x'', Num (- (1 / 100))), (''close'', Num 5)])]\<rparr>,
      y_window = \<lparr>columns = [''fwd_log_ret''],
                  rows = [(3, [(''fwd_log_ret'', Num (1 / 25))]),
                          (4, [(''fwd_log_ret'', Num (- (1 / 20)))])]\<rparr>,
      train_rolling_predictions = [[Num (- 1), Num 1], [Num 1, Num (1 / 50)]],
      train_rolling_actuals = [[(1, Num (3 / 50)), (2, Num (1 / 20))],
                               [(2, Num (1 / 20)), (3, Num (1 / 25))]],
      validate_rolling_predictions = [[Num (1 / 50)], [Num (- (1 / 100))]],
      validate_rolling_actuals = [Num (1 / 25), Num (- (1 / 20))]\<rparr>"

text \<open>The result of \<open>rolling_reg_models\<close> for the small asset, named \<open>A\<close>, and \<open>ex_model\<close>.\<close>

definition ex_reg_table :: "trade_row list" where
  "ex_reg_table =
     [\<lparr>t_index = 3, t_actual = Num (1 / 25), t_predictions = Num (1 / 50), t_close = Num 100,
       t_next_day_close = Num 105, t_go_long = True, t_ret = Num 5, t_pct_ret = Num (1 / 20)\<rparr>,
      \<lparr>t_index = 4, t_actual = Num (- (1 / 20)), t_predictions = Num (- (1 / 100)),
       t_close = Num 105, t_next_day_close = NaN, t_go_long = False, t_ret = NaN,
       t_pct_ret = NaN\<rparr>]"

definition ex_reg_dict :: results where
  "ex_reg_dict =
     [''First'' \<mapsto> Table ex_reg_table,
      ''First_validate_rmse'' \<mapsto> Metric (Num (sqrt (1 / 1000))),
      ''First_train_rmse'' \<mapsto> Metric (Num ((sqrt (20261 / 20000) + sqrt (9029 / 20000)) / 2))]"

definition ex_reg_store :: store where
  "ex_reg_store = \<lparr>next_ref = Suc 0, objects = [0 \<mapsto> ex_reg_dict]\<rparr>"

text \<open>
  Inputs of one pass of the loop of \<open>calculate_regression_results\<close>: the frame
  \<open>validate_results\<close> before the loop, and \<open>y_validate\<close> with the predictions of a model
  named \<open>First\<close>.
\<close>

definition ex_validate_results :: frame where
  "ex_validate_results =
     \<lparr>columns = [''close'', ''next_day_close''],
      rows = [(3, [(''close'', Num 100), (''next_day_close'', Num 105)]),
              (4, [(''close'', Num 105), (''next_day_close'', NaN)])]\<rparr>"

definition ex_y_validate :: frame where
  "ex_y_validate =
     \<lparr>columns = [''fwd_log_ret'', ''First''],
      rows = [(3, [(''fwd_log_ret'', Num (1 / 25)), (''First'', Num (1 / 50))]),
              (4, [(''fwd_log_ret'', Num (- (1 / 20))), (''First'', Num (- (1 / 100)))])]\<rparr>"

definition ex_calculated :: frame where
  "ex_calculated =
     \<lparr>columns = [''close'', ''next_day_close'', ''First_long'', ''First_ret'', ''First_pct_ret''],
      rows = [(3, [(''close'', Num 100), (''next_day_close'', Num 105),
                   (''First_long'', Bool True), (''First_ret'', Num 5),
                   (''First_pct_ret'', Num (1 / 20))]),
              (4, [(''close'', Num 105), (''next_day_close'', NaN),
                   (''First_long'', Bool False), (''First_ret'', NaN),
                   (''First_pct_ret'', NaN)])]\<rparr>"

text \<open>A classifier without state: the label is true iff the first feature is positive.\<close>

definition ex_classifier :: "unit estimator" where
  "ex_classifier = \<lparr>repr = ''Sign()'', fit = (\<lambda>X y. Inr ()),
     predict = (\<lambda>m M. Inr (map (\<lambda>line. Bool (gt0 (hd line))) M)),
     rfe_support = ex_rfe\<rparr>"

text \<open>
  The result of \<open>rolling_class_models\<close> for the small asset \<open>A\<close> and \<open>ex_classifier\<close>,
  with the target \<open>fwd_close_positive\<close>.
\<close>

definition ex_class_table :: "trade_row list" where
  "ex_class_table =
     [\<lparr>t_index = 3, t_actual = Bool True, t_predictions = Bool True, t_close = Num 100,
       t_next_day_close = Num 105, t_go_long = True, t_ret = Num 5, t_pct_ret = Num (1 / 20)\<rparr>,
      \<lparr>t_index = 4, t_actual = Bool False, t_predictions = Bool False, t_close = Num 105,
       t_next_day_close = NaN, t_go_long = False, t_ret = NaN, t_pct_ret = NaN\<rparr>]"

definition ex_baseline :: "baseline_row list" where
  "ex_baseline =
     [\<lparr>b_index = 3, b_close = Num 100, b_next_day_close = Num 105, b_predictions = Bool True,
       b_go_long = Bool True, b_ret = Num 5\<rparr>,
      \<lparr>b_index = 4, b_close = Num 105, b_next_day_close = NaN, b_predictions = Bool True,
       b_go_long = Bool True, b_ret = NaN\<rparr>]"

definition ex_class_dict :: results where
  "ex_class_dict =
     [''Sign'' \<mapsto> Table ex_class_table, ''Sign_accuracy'' \<mapsto> Metric (Num 1),
      ''baseline'' \<mapsto> Baseline ex_baseline]"

definition ex_class_store :: store where
  "ex_class_store = \<lparr>next_ref = Suc 0, objects = [0 \<mapsto> ex_class_dict]\<rparr>"

text \<open>A second asset \<open>B\<close>, with other validation rows, and the result for \<open>A\<close> and \<open>B\<close>.\<close>

definition ex_validate_B :: frame where
  "ex_validate_B = \<lparr>columns = ex_columns,
     rows = [ex_bar 3 (199/100) 200 (-10) (-1/20) (-1/20) False,
             ex_bar 4 (101/50) 190 10 (1/19) (1/20) True]\<rparr>"

definition ex_class_table_B :: "trade_row list" where
  "ex_class_table_B =
     [\<lparr>t_index = 3, t_actual = Bool False, t_predictions = Bool False, t_close = Num 200,
       t_next_day_close = Num 190, t_go_long = False, t_ret = Num 10, t_pct_ret = Num (1 / 20)\<rparr>,
      \<lparr>t_index = 4, t_actual = Bool True, t_predictions = Bool True, t_close = Num 190,
       t_next_day_close = NaN, t_go_long = True, t_ret = NaN, t_pct_ret = NaN\<rparr>]"

definition ex_baseline_B :: "baseline_row list" where
  "ex_baseline_B =
     [\<lparr>b_index = 3, b_close = Num 200, b_next_day_close = Num 190, b_predictions = Bool True,
       b_go_long = Bool True, b_ret = Num (- 10)\<rparr>,
      \<lparr>b_index = 4, b_close = Num 190, b_next_day_close = NaN, b_predictions = Bool True,
       b_go_long = Bool True, b_ret = NaN\<rparr>]"

definition ex_class_dict_B :: results where
  "ex_class_dict_B =
     [''Sign'' \<mapsto> Table ex_class_table_B, ''Sign_accuracy'' \<mapsto> Metric (Num 1),
      ''baseline'' \<mapsto> Baseline ex_baseline_B]"

definition ex_class_store_B :: store where
  "ex_class_store_B = \<lparr>next_ref = Suc 0, objects = [0 \<mapsto> ex_class_dict_B]\<rparr>"

text \<open>
  A validation frame of three rows, one more than Train has, with the test row that
  follows it.
\<close>

definition ex_validate3 :: frame where
  "ex_validate3 = \<lparr>columns = ex_columns,
     rows = [ex_bar 3 (101/50) 100 5 (1/20) (1/25) True,
             ex_bar 4 (199/100) 105 (-5) (-1/21) (-1/20) False,
             ex_bar 5 (51/25) 100 6 (3/50) (3/50) True]\<rparr>"

definition ex_test3 :: frame where
  "ex_test3 = \<lparr>columns = ex_columns, rows = [ex_bar 6 2 106 1 (1/106) (1/100) True]\<rparr>"

text \<open>The result table of the regression rolling run of \<open>ex_model\<close> on these frames.\<close>

definition ex_reg_table3 :: "trade_row list" where
  "ex_reg_table3 =
     [\<lparr>t_index = 3, t_actual = Num (1 / 25), t_predictions = Num (1 / 50), t_close = Num 100,
       t_next_day_close = Num 105, t_go_long = True, t_ret = Num 5, t_pct_ret = Num (1 / 20)\<rparr>,
      \<lparr>t_index = 4, t_actual = Num (- (1 / 20)), t_predictions = Num (- (1 / 100)),
       t_close = Num 105, t_next_day_close = Num 100, t_go_long = False, t_ret = Num 5,
       t_pct_ret = Num (1 / 21)\<rparr>,
      \<lparr>t_index = 5, t_actual = Num (3 / 50), t_predictions = Num (1 / 25), t_close = Num 100,
       t_next_day_close = NaN, t_go_long = True, t_ret = NaN, t_pct_ret = NaN\<rparr>]"

text \<open>
  Two assets for \<open>conventional_split\<close>, and the leaderboard that it returns for them
  with the regression model \<open>ex_model\<close> and the classifier \<open>ex_classifier\<close>.
\<close>

definition ex_split_data :: "(string \<times> split) list" where
  "ex_split_data = [(''A'', (ex_train, ex_validate, ex_test)),
                    (''B'', (ex_train, ex_validate_B, ex_test))]"

definition ex_leaderboard :: "string table" where
  "ex_leaderboard =
     \<lparr>columns = [''avg_trade'', ''pct_avg_trade'', ''validate_rmse'', ''train_rmse'',
                 ''validate_accuracy'', ''train_accuracy'', ''dropoff''],
      rows =
        [(''First_A'',
          [(''avg_trade'', Num 5), (''pct_avg_trade'', Num (1 / 20)),
           (''validate_rmse'', Num (sqrt (1 / 1000))),
           (''train_rmse'', Num (sqrt (20261 / 20000))),
           (''validate_accuracy'', NaN), (''train_accuracy'', NaN),
           (''dropoff'', Num ((sqrt (1 / 1000) - sqrt (20261 / 20000)) / sqrt (20261 / 20000)))]),
         (''Sign_A'',
          [(''avg_trade'', Num 5), (''pct_avg_trade'', Num (1 / 20)),
           (''validate_rmse'', NaN), (''train_rmse'', NaN),
           (''validate_accuracy'', Num 1), (''train_accuracy'', Num (1 / 2)),
           (''dropoff'', Num 1)]),
         (''baseline_reg_A'',
          [(''avg_trade'', Num 0), (''pct_avg_trade'', Num (1 / 840)),
           (''validate_rmse'', NaN), (''train_rmse'', NaN),
           (''validate_accuracy'', NaN), (''train_accuracy'', NaN),
           (''dropoff'', NaN)]),
         (''baseline_class_A'',
          [(''avg_trade'', Num 0), (''pct_avg_trade'', Num (1 / 840)),
           (''validate_rmse'', NaN), (''train_rmse'', NaN),
           (''validate_accuracy'', Num (1 / 2)), (''train_accuracy'', Num 1),
           (''dropoff'', Num (- (1 / 2)))]),
         (''First_B'',
          [(''avg_trade'', Num 10), (''pct_avg_trade'', Num (1 / 20)),
           (''validate_rmse'', Num (sqrt (1 / 800))),
           (''train_rmse'', Num (sqrt (20261 / 20000))),
           (''validate_accuracy'', NaN), (''train_accuracy'', NaN),
           (''dropoff'', Num ((sqrt (1 / 800) - sqrt (20261 / 20000)) / sqrt (20261 / 20000)))]),
         (''Sign_B'',
          [(''avg_trade'', Num 10), (''pct_avg_trade'', Num (1 / 20)),
           (''validate_rmse'', NaN), (''train_rmse'', NaN),
           (''validate_accuracy'', Num 1), (''train_accuracy'', Num (1 / 2)),
           (''dropoff'', Num 1)]),
         (''baseline_reg_B'',
          [(''avg_trade'', Num 0), (''pct_avg_trade'', Num (1 / 760)),
           (''validate_rmse'', NaN), (''train_rmse'', NaN),
           (''validate_accuracy'', NaN), (''train_accuracy'', NaN),
           (''dropoff'', NaN)]),
         (''baseline_class_B'',
          [(''avg_trade'', Num 0), (''pct_avg_trade'', Num (1 / 760)),
           (''validate_rmse'', NaN), (''train_rmse'', NaN),
           (''validate_accuracy'', Num (1 / 2)), (''train_accuracy'', Num 1),
           (''dropoff'', Num (- (1 / 2)))])]\<rparr>"

section \<open>Basic facts\<close>

lemma bind_exc_Inl [simp]: "bind_exc (Inl e) f = Inl e"
  by (simp add: bind_exc_def)

lemma bind_exc_Inr [simp]: "bind_exc (Inr x) f = f x"
  by (simp add: bind_exc_def)

lemma bind_exc_eq_Inr: "bind_exc m f = Inr y \<longleftrightarrow> (\<exists>x. m = Inr x \<and> f x = Inr y)"
  by (cases m) simp_all

lemma bind_exc_InrE:
  assumes "bind_exc m f = Inr y"
  obtains x where "m = Inr x" and "f x = Inr y"
  using assms by (auto simp: bind_exc_eq_Inr)

lemma sqrt_25_4: "sqrt (25 / 4) = 5 / 2"
  by (rule real_sqrt_unique) (simp_all add: power2_eq_square)

lemmas ex_inputs = ex_bar_def ex_columns_def ex_train_def ex_validate_def ex_test_def ex_model_def
  ex_features_def ex_rfe_def sqrt_25_4

lemmas arith_defs = np_mean_def series_mean_def fsum_def fadd_def fsub_def fmul_def fdiv_def

lemmas frame_defs = cell_at_def get_column_def get_attr_def select_columns_def drop_columns_def
  set_column_def row_set_def shift_m1_def column_values_def to_matrix_def

section \<open>The ARIMA grid search\<close>

text \<open>
  The sweep appends every order to \<open>orders\<close>, but an error only where the evaluation
  returned.
\<close>

lemma sweep_lengths:
  "sweep ev os st = Inr st' \<Longrightarrow>
     length (orders st') = length (orders st) + length os \<and>
     length (mses st') = length (mses st) + length (filter (\<lambda>order. \<not> isl (ev order)) os)"
proof (induction os arbitrary: st)
  case Nil
  then show ?case by simp
next
  case (Cons order rest)
  show ?case
  proof (cases "ev order")
    case (Inl e)
    with Cons.prems have run: "sweep ev rest (st\<lparr>orders := orders st @ [order]\<rparr>) = Inr st'"
      by (cases e; simp add: Let_def)
    from Cons.IH [OF run] Inl show ?thesis by simp
  next
    case (Inr r)
    obtain mse tt ps where r: "r = (mse, tt, ps)" by (cases r) auto
    with Cons.prems Inr have
      run: "sweep ev rest (st\<lparr>orders := orders st @ [order], mses := mses st @ [mse],
              prediction_list := prediction_list st @ [ps],
              actual_test := actual_test st @ [tt]\<rparr>) = Inr st'"
      by (simp add: Let_def)
    from Cons.IH [OF run] Inr show ?thesis by simp
  qed
qed

text \<open>An interrupt leaves the sweep at once.\<close>

lemma sweep_interrupt:
  "ev order = Inl KeyboardInterrupt \<Longrightarrow> sweep ev (order # rest) st = Inl KeyboardInterrupt"
  by (simp add: Let_def)

text \<open>
  Whenever one combination of the grid raises, \<open>evaluate_models\<close> returns no table at
  all: it raises itself.
\<close>

lemma evaluate_models_no_table:
  assumes "order \<in> set (grid p_values d_values q_values)"
    and "evaluate_arima_model arima train test target order = Inl e"
  shows "\<exists>e'. evaluate_models arima train test target p_values d_values q_values = Inl e'"
proof (cases "sweep (evaluate_arima_model arima train test target) (grid p_values d_values q_values)
             \<lparr>orders = [], mses = [], prediction_list = [], actual_test = []\<rparr>")
  case (Inl e')
  then show ?thesis by (simp add: evaluate_models_def)
next
  case (Inr st)
  from sweep_lengths [OF Inr] assms
  have "length (mses st) < length (orders st)"
    using length_filter_less [of order "grid p_values d_values q_values"
        "\<lambda>order. \<not> isl (evaluate_arima_model arima train test target order)"]
    by simp
  with Inr show ?thesis by (simp add: evaluate_models_def)
qed

text \<open>
  Claim C4. In the grid search a combination that raises an exception other than an
  interrupt is skipped, and it is absent from the returned table. On the code this
  fails: with the orders (0, 0, 0) and (0, 0, 1), of which the first one cannot be fitted
  and the second one can, \<open>evaluate_models\<close> returns no table with one row but raises
  ValueError, since \<open>orders\<close> has two entries and \<open>mses\<close> has one.
\<close>

theorem evaluate_models_failed_combination_raises:
  "evaluate_arima_model ex_arima ex_train ex_test ''fwd_log_ret'' (0, 0, 0) = Inl OtherError
   \<and> evaluate_arima_model ex_arima ex_train ex_test ''fwd_log_ret'' (0, 0, 1)
       = Inr (Num (1 / 10000), [(5, Num (1 / 100))], [Num 0])
   \<and> evaluate_models ex_arima ex_train ex_test ''fwd_log_ret'' [0] [0] [0, 1] = Inl ValueError"
  by (simp add: evaluate_models_def grid_def evaluate_arima_model_def ex_arima_def ex_inputs
      frame_defs mean_squared_error_def arith_defs)

section \<open>Scaling\<close>


lemma cell_at_map_cols: "c \<in> set cs \<Longrightarrow> cell_at (map (\<lambda>c. (c, f c)) cs) c = f c"
  by (induction cs) (auto simp: cell_at_def)

lemma cell_at_append:
  "cell_at (m1 @ m2) c = (if c \<in> fst ` set m1 then cell_at m1 c else cell_at m2 c)"
proof (cases "map_of m1 c")
  case None
  then have "c \<notin> fst ` set m1" by (simp add: map_of_eq_None_iff)
  with None show ?thesis by (simp add: cell_at_def map_add_def)
next
  case (Some v)
  then have "c \<in> fst ` set m1" by (metis map_of_eq_None_iff option.distinct(1))
  with Some show ?thesis by (simp add: cell_at_def map_add_def)
qed

lemma cell_at_filter_keys:
  "cell_at (filter (\<lambda>(k, v). P k) m) c = (if P c then cell_at m c else NaN)"
  by (induction m) (auto simp: cell_at_def)

lemma fst_filter_keys: "c \<in> fst ` set (filter (\<lambda>(k, v). P k) m) \<longleftrightarrow> c \<in> fst ` set m \<and> P c"
  by (induction m) auto

lemma zip_map_same: "zip (map f xs) (map g xs) = map (\<lambda>x. (f x, g x)) xs"
  by (induction xs) auto

lemma select_columns_Inr:
  "select_columns df cs = Inr X \<longleftrightarrow>
     set cs \<subseteq> set (columns df) \<and>
     X = \<lparr>columns = cs, rows = map (\<lambda>(t, m). (t, map (\<lambda>c. (c, cell_at m c)) cs)) (rows df)\<rparr>"
  by (auto simp: select_columns_def)

lemma transform_select_rows:
  assumes "select_columns X fs = Inr to_scale" and "scaler_transform s to_scale = Inr scaled"
  shows "rows scaled = map (\<lambda>r. (fst r, map (\<lambda>c. (c, fdiv (fsub (cell_at (snd r) c) (cell_at (fitted_mean s) c))
                           (cell_at (fitted_scale s) c))) fs)) (rows X)"
proof -
  from assms(1) have ts: "to_scale = \<lparr>columns = fs, rows = map (\<lambda>(t, m). (t, map (\<lambda>c. (c, cell_at m c)) fs)) (rows X)\<rparr>"
    by (simp add: select_columns_Inr)
  from assms(2) have "rows scaled = map (\<lambda>(t, m). (t, map (\<lambda>c.
                         (c, fdiv (fsub (cell_at m c) (cell_at (fitted_mean s) c))
                               (cell_at (fitted_scale s) c))) (columns to_scale))) (rows to_scale)"
    by (auto simp: scaler_transform_def split: if_splits)
  also have "\<dots> = map (\<lambda>r. (fst r, map (\<lambda>c. (c, fdiv (fsub (cell_at (snd r) c) (cell_at (fitted_mean s) c))
                           (cell_at (fitted_scale s) c))) fs)) (rows X)"
    by (simp add: ts split_def cell_at_map_cols cong: map_cong)
  finally show ?thesis .
qed

lemma concat_drop_rows:
  assumes "drop_columns X fs = Inr unscaled"
    and "rows scaled = map (\<lambda>r. (fst r, g r)) (rows X)"
  shows "rows (concat_columns unscaled scaled)
    = map (\<lambda>r. (fst r, filter (\<lambda>(c, v). c \<notin> set fs) (snd r) @ g r)) (rows X)"
proof -
  from assms(1) have "rows unscaled = map (\<lambda>r. (fst r, filter (\<lambda>(c, v). c \<notin> set fs) (snd r))) (rows X)"
    by (auto simp: drop_columns_def split_def split: if_splits)
  with assms(2) show ?thesis
    by (simp add: concat_columns_def zip_map_same)
qed

lemma scaled_block_rows:
  assumes "scaled_block s X fs = Inr Y"
  shows "rows Y = map (scaled_row s fs) (rows X)"
proof -
  from assms obtain unscaled to_scale scaled where
    d: "drop_columns X fs = Inr unscaled" and sel: "select_columns X fs = Inr to_scale"
    and tr: "scaler_transform s to_scale = Inr scaled" and Y: "Y = concat_columns unscaled scaled"
    by (auto simp: scaled_block_def bind_exc_eq_Inr)
  from concat_drop_rows [OF d transform_select_rows [OF sel tr]] Y
  show ?thesis by (simp add: scaled_row_def [abs_def])
qed

lemma scaled_row_cell:
  "cell_at (snd (scaled_row s fs r)) c =
     (if c \<in> set fs
      then fdiv (fsub (cell_at (snd r) c) (cell_at (fitted_mean s) c)) (cell_at (fitted_scale s) c)
      else cell_at (snd r) c)"
proof (cases "c \<in> set fs")
  case True
  then have "c \<notin> fst ` set (filter (\<lambda>(c, v). c \<notin> set fs) (snd r))"
    by auto
  with True show ?thesis
    by (simp add: scaled_row_def cell_at_append cell_at_map_cols del: set_filter)
next
  case False
  have "cell_at (map (\<lambda>c. (c, f c)) fs) c = NaN" for f
    using False by (induction fs) (auto simp: cell_at_def)
  moreover have "c \<notin> fst ` set (snd r) \<Longrightarrow> cell_at (snd r) c = NaN"
    by (simp add: cell_at_def map_of_eq_None_iff [THEN iffD2])
  moreover have "c \<in> fst ` set (filter (\<lambda>(c, v). c \<notin> set fs) (snd r)) \<longleftrightarrow> c \<in> fst ` set (snd r)"
    using False by (simp add: fst_filter_keys del: set_filter)
  ultimately show ?thesis using False
    by (simp add: scaled_row_def cell_at_append cell_at_filter_keys del: set_filter)
qed

lemma scaler_fit_stats:
  assumes "scaler_fit df = Inr s" and "c \<in> set (columns df)"
  shows "cell_at (fitted_mean s) c = col_mean (column_values df c)"
    and "cell_at (fitted_scale s) c = col_std (column_values df c)"
  using assms by (auto simp: scaler_fit_def cell_at_map_cols split: if_splits)

lemma column_values_select:
  assumes "select_columns df cs = Inr X" and "c \<in> set cs"
  shows "column_values X c = column_values df c"
  using assms by (auto simp: select_columns_Inr column_values_def cell_at_map_cols)


lemma select_columns_cell:
  assumes "select_columns df cs = Inr X" and "i < length (rows df)" and "c \<in> set cs"
  shows "cell_at (snd (rows X ! i)) c = cell_at (snd (rows df ! i)) c"
  using assms by (auto simp: select_columns_Inr split_def cell_at_map_cols)

lemma select_columns_index:
  assumes "select_columns df cs = Inr X" and "i < length (rows df)"
  shows "fst (rows X ! i) = fst (rows df ! i)"
  using assms by (auto simp: select_columns_Inr split_def)

lemma select_columns_length:
  "select_columns df cs = Inr X \<Longrightarrow> length (rows X) = length (rows df)"
  by (auto simp: select_columns_Inr)

text \<open>What \<open>scale_datasets\<close> returns, in terms of the scaler fitted on the training features.\<close>

lemma scale_datasets_Inr:
  assumes "scale_datasets train validate test target features_to_use features_to_scale
             = Inr (X_train_scaled, X_validate_scaled, X_test_scaled, y_tr, y_va, y_te)"
  obtains X_train X_validate X_test to_scale s where
    "select_columns train features_to_use = Inr X_train"
    "select_columns validate features_to_use = Inr X_validate"
    "select_columns test features_to_use = Inr X_test"
    "select_columns X_train features_to_scale = Inr to_scale"
    "scaler_fit to_scale = Inr s"
    "rows X_train_scaled = map (scaled_row s features_to_scale) (rows X_train)"
    "rows X_validate_scaled = map (scaled_row s features_to_scale) (rows X_validate)"
    "rows X_test_scaled = map (scaled_row s features_to_scale) (rows X_test)"
    "select_columns train [target] = Inr y_tr"
    "select_columns validate [target] = Inr y_va"
    "select_columns test [target] = Inr y_te"
proof -
  from assms obtain X_train X_validate X_test unscaled to_scale s scaled where
    a: "select_columns train features_to_use = Inr X_train"
      "select_columns validate features_to_use = Inr X_validate"
      "select_columns test features_to_use = Inr X_test"
      "select_columns train [target] = Inr y_tr"
      "select_columns validate [target] = Inr y_va"
      "select_columns test [target] = Inr y_te"
    and b: "drop_columns X_train features_to_scale = Inr unscaled"
      "select_columns X_train features_to_scale = Inr to_scale"
      "scaler_fit to_scale = Inr s"
      "scaler_transform s to_scale = Inr scaled"
    and c: "scaled_block s X_validate features_to_scale = Inr X_validate_scaled"
      "scaled_block s X_test features_to_scale = Inr X_test_scaled"
      "X_train_scaled = concat_columns unscaled scaled"
    unfolding scale_datasets_def bind_exc_eq_Inr by auto
  have "scaled_block s X_train features_to_scale = Inr X_train_scaled"
    using b c(3) by (simp add: scaled_block_def)
  from scaled_block_rows [OF this] scaled_block_rows [OF c(1)] scaled_block_rows [OF c(2)] a b
  show ?thesis by (rule_tac that) auto
qed

lemma scaled_block_columns:
  "scaled_block s X fs = Inr Y \<Longrightarrow> columns Y = filter (\<lambda>c. c \<notin> set fs) (columns X) @ fs"
  by (auto simp: scaled_block_def bind_exc_eq_Inr drop_columns_def select_columns_Inr
      scaler_transform_def concat_columns_def split: if_splits)

lemma scale_datasets_columns:
  assumes "scale_datasets train validate test target features_to_use features_to_scale
             = Inr (X_train_scaled, X_validate_scaled, X_test_scaled, y_tr, y_va, y_te)"
  shows "set (columns X_train_scaled) = set features_to_use"
    and "columns X_validate_scaled = columns X_train_scaled"
    and "columns X_test_scaled = columns X_train_scaled"
proof -
  from assms obtain X_train X_validate X_test unscaled to_scale s scaled where
    a: "select_columns train features_to_use = Inr X_train"
      "select_columns validate features_to_use = Inr X_validate"
      "select_columns test features_to_use = Inr X_test"
    and b: "drop_columns X_train features_to_scale = Inr unscaled"
      "select_columns X_train features_to_scale = Inr to_scale"
      "scaler_fit to_scale = Inr s"
      "scaler_transform s to_scale = Inr scaled"
    and c: "scaled_block s X_validate features_to_scale = Inr X_validate_scaled"
      "scaled_block s X_test features_to_scale = Inr X_test_scaled"
      "X_train_scaled = concat_columns unscaled scaled"
    unfolding scale_datasets_def bind_exc_eq_Inr by auto
  have t: "scaled_block s X_train features_to_scale = Inr X_train_scaled"
    using b c(3) by (simp add: scaled_block_def)
  have cs: "columns X_train = features_to_use" "columns X_validate = features_to_use"
    "columns X_test = features_to_use" and sub: "set features_to_scale \<subseteq> set features_to_use"
    using a b(2) by (auto simp: select_columns_Inr)
  show "set (columns X_train_scaled) = set features_to_use"
    using scaled_block_columns [OF t] cs sub by auto
  show "columns X_validate_scaled = columns X_train_scaled"
    and "columns X_test_scaled = columns X_train_scaled"
    using scaled_block_columns [OF t] scaled_block_columns [OF c(1)]
      scaled_block_columns [OF c(2)] cs by simp_all
qed

lemma scale_datasets_cells:
  assumes "scale_datasets train validate test target features_to_use features_to_scale
             = Inr (X_train_scaled, X_validate_scaled, X_test_scaled, y_tr, y_va, y_te)"
  shows "\<forall>(df, X) \<in> {(train, X_train_scaled), (validate, X_validate_scaled), (test, X_test_scaled)}.
           length (rows X) = length (rows df) \<and>
           (\<forall>i < length (rows df). fst (rows X ! i) = fst (rows df ! i) \<and>
              (\<forall>c \<in> set features_to_use.
                 cell_at (snd (rows X ! i)) c =
                   (if c \<in> set features_to_scale
                    then fdiv (fsub (cell_at (snd (rows df ! i)) c)
                                 (col_mean (column_values train c)))
                           (col_std (column_values train c))
                    else cell_at (snd (rows df ! i)) c)))"
proof -
  from assms obtain X_train X_validate X_test to_scale s where
    sel: "select_columns train features_to_use = Inr X_train"
      "select_columns validate features_to_use = Inr X_validate"
      "select_columns test features_to_use = Inr X_test"
    and ts: "select_columns X_train features_to_scale = Inr to_scale"
    and fit: "scaler_fit to_scale = Inr s"
    and rws: "rows X_train_scaled = map (scaled_row s features_to_scale) (rows X_train)"
      "rows X_validate_scaled = map (scaled_row s features_to_scale) (rows X_validate)"
      "rows X_test_scaled = map (scaled_row s features_to_scale) (rows X_test)"
    by (rule scale_datasets_Inr)
  from ts have sub: "set features_to_scale \<subseteq> set features_to_use" and cts: "columns to_scale = features_to_scale"
    using sel(1) by (auto simp: select_columns_Inr)
  have stats: "cell_at (fitted_mean s) c = col_mean (column_values train c)"
    "cell_at (fitted_scale s) c = col_std (column_values train c)"
    if "c \<in> set features_to_scale" for c
    using scaler_fit_stats [OF fit, of c] column_values_select [OF ts that]
      column_values_select [OF sel(1), of c] that sub cts by auto
  have main: "length (rows X) = length (rows df) \<and>
           (\<forall>i < length (rows df). fst (rows X ! i) = fst (rows df ! i) \<and>
              (\<forall>c \<in> set features_to_use.
                 cell_at (snd (rows X ! i)) c =
                   (if c \<in> set features_to_scale
                    then fdiv (fsub (cell_at (snd (rows df ! i)) c)
                                 (col_mean (column_values train c)))
                           (col_std (column_values train c))
                    else cell_at (snd (rows df ! i)) c)))"
    if s: "select_columns df features_to_use = Inr X0"
      and r: "rows X = map (scaled_row s features_to_scale) (rows X0)" for df X0 X
  proof (intro conjI allI impI ballI)
    show len: "length (rows X) = length (rows df)"
      using r select_columns_length [OF s] by simp
    fix i assume i: "i < length (rows df)"
    then have i0: "i < length (rows X0)" using select_columns_length [OF s] by simp
    then have ri: "rows X ! i = scaled_row s features_to_scale (rows X0 ! i)"
      using r by simp
    show "fst (rows X ! i) = fst (rows df ! i)"
      using ri select_columns_index [OF s i] by (simp add: scaled_row_def)
    fix c assume c: "c \<in> set features_to_use"
    show "cell_at (snd (rows X ! i)) c =
                   (if c \<in> set features_to_scale
                    then fdiv (fsub (cell_at (snd (rows df ! i)) c)
                                 (col_mean (column_values train c)))
                           (col_std (column_values train c))
                    else cell_at (snd (rows df ! i)) c)"
      using ri select_columns_cell [OF s i c] stats [of c]
      by (simp add: scaled_row_cell)
  qed
  from main [OF sel(1) rws(1)] main [OF sel(2) rws(2)] main [OF sel(3) rws(3)]
  show ?thesis by simp
qed

text \<open>
  Claim C5. \<open>scale_datasets\<close> takes the mean and the standard deviation of every
  column of \<open>features_to_scale\<close> from Train alone and applies \<open>(x - mean) / std\<close> with
  these statistics to Train, Validate and Test; every other column of \<open>features_to_use\<close>
  passes through unchanged. The statistics used for Validate and for Test are those of
  Train, so transforming one frame does not change them for the next.
\<close>

theorem scale_datasets_uses_train_statistics:
  assumes "scale_datasets train validate test target features_to_use features_to_scale
             = Inr (X_train_scaled, X_validate_scaled, X_test_scaled, y_tr, y_va, y_te)"
  shows "\<forall>(df, X) \<in> {(train, X_train_scaled), (validate, X_validate_scaled), (test, X_test_scaled)}.
           length (rows X) = length (rows df) \<and>
           (\<forall>i < length (rows df). fst (rows X ! i) = fst (rows df ! i) \<and>
              (\<forall>c \<in> set features_to_use.
                 cell_at (snd (rows X ! i)) c =
                   (if c \<in> set features_to_scale
                    then fdiv (fsub (cell_at (snd (rows df ! i)) c)
                                 (col_mean (column_values train c)))
                           (col_std (column_values train c))
                    else cell_at (snd (rows df ! i)) c)))"
  using assms by (rule scale_datasets_cells)

lemmas scale_defs = scale_datasets_def scaled_block_def scaler_fit_def scaler_transform_def
  concat_columns_def col_mean_def col_std_def

lemma ex_scale_datasets:
  "scale_datasets ex_train ex_validate ex_test ''fwd_log_ret'' [''close'', ''x''] [''x'']
     = Inr ex_scaled"
  by (simp add: ex_scaled_def ex_inputs scale_defs frame_defs arith_defs)

theorem scale_datasets_uses_train_statistics_witness:
  "scale_datasets ex_train ex_validate ex_test ''fwd_log_ret'' [''close'', ''x''] [''x'']
     = Inr ex_scaled
   \<and> cell_at (snd (rows (fst (snd ex_scaled)) ! 0)) ''x''
        = fdiv (fsub (cell_at (snd (rows ex_validate ! 0)) ''x'')
                  (col_mean (column_values ex_train ''x'')))
            (col_std (column_values ex_train ''x''))
   \<and> cell_at (snd (rows (fst (snd ex_scaled)) ! 0)) ''close''
        = cell_at (snd (rows ex_validate ! 0)) ''close''"
proof -
  have h: "scale_datasets ex_train ex_validate ex_test ''fwd_log_ret'' [''close'', ''x''] [''x'']
      = Inr (fst ex_scaled, fst (snd ex_scaled), fst (snd (snd ex_scaled)),
             fst (snd (snd (snd ex_scaled))), fst (snd (snd (snd (snd ex_scaled)))),
             snd (snd (snd (snd (snd ex_scaled)))))"
    by (simp add: ex_scale_datasets)
  have "0 < length (rows ex_validate)" by (simp add: ex_inputs)
  with scale_datasets_uses_train_statistics [OF h] show ?thesis
    by (simp add: ex_scale_datasets)
qed

section \<open>The rolling window\<close>

lemma fst_scaled_row: "fst \<circ> scaled_row s fs = fst"
  by (rule ext) (simp add: scaled_row_def)

lemma select_columns_map_fst:
  "select_columns df cs = Inr X \<Longrightarrow> map fst (rows X) = map fst (rows df)"
  by (auto simp: select_columns_Inr split_def)

lemma featured_map_fst:
  assumes "featured pfs n est target Xtr Xva Xte ytr = Inr (A, B, C)"
  shows "map fst (rows A) = map fst (rows Xtr)" and "map fst (rows B) = map fst (rows Xva)"
  using assms
  by (auto simp: featured_def bind_exc_eq_Inr split: if_splits dest: select_columns_map_fst)

lemma scaler_fit_nonempty: "scaler_fit df = Inr s \<Longrightarrow> rows df \<noteq> []"
  by (auto simp: scaler_fit_def split: if_splits)

text \<open>The index labels with which the loop starts are those of Train and of Validate.\<close>

lemma rolling_start_index:
  assumes "rolling_start train validate test est target ftu fts pfs = Inr (st0, passes)"
  shows "map fst (rows (X_window st0)) = map fst (rows train)"
    and "map fst (rows (y_window st0)) = map fst (rows train)"
    and "map (fst \<circ> fst) passes = map fst (rows validate)"
    and "map snd passes = map (\<lambda>(t, m). (t, [(target, cell_at m target)])) (rows validate)"
    and "rows train \<noteq> []"
    and "columns (y_window st0) = [target]"
proof -
  from assms obtain Xtr Xva Xte ytr yva yte A B C where
    sd: "scale_datasets train validate test target ftu fts = Inr (Xtr, Xva, Xte, ytr, yva, yte)"
    and ft: "featured pfs 10 est target Xtr Xva Xte ytr = Inr (A, B, C)"
    and st0: "st0 = \<lparr>X_window = A, y_window = ytr,
           train_rolling_predictions = [], train_rolling_actuals = [],
           validate_rolling_predictions = [], validate_rolling_actuals = []\<rparr>"
    and ps: "passes = zip (rows B) (rows yva)"
    by (auto simp: rolling_start_def bind_exc_eq_Inr)
  from sd obtain X_train X_validate X_test to_scale s where
    sel: "select_columns train ftu = Inr X_train"
      "select_columns validate ftu = Inr X_validate"
    and ts: "select_columns X_train fts = Inr to_scale"
    and fit: "scaler_fit to_scale = Inr s"
    and rws: "rows Xtr = map (scaled_row s fts) (rows X_train)"
      "rows Xva = map (scaled_row s fts) (rows X_validate)"
    and ys: "select_columns train [target] = Inr ytr"
      "select_columns validate [target] = Inr yva"
    by (rule scale_datasets_Inr)
  show "map fst (rows (X_window st0)) = map fst (rows train)"
    using st0 featured_map_fst(1) [OF ft] rws(1) select_columns_map_fst [OF sel(1)]
    by (simp add: fst_scaled_row)
  show "map fst (rows (y_window st0)) = map fst (rows train)"
    using st0 select_columns_map_fst [OF ys(1)] by simp
  have lB: "map fst (rows B) = map fst (rows validate)"
    using featured_map_fst(2) [OF ft] rws(2) select_columns_map_fst [OF sel(2)]
    by (simp add: fst_scaled_row)
  have ly: "rows yva = map (\<lambda>(t, m). (t, [(target, cell_at m target)])) (rows validate)"
    using ys(2) by (simp add: select_columns_Inr)
  have len: "length (rows B) = length (rows yva)"
    using lB ly by (metis length_map)
  show "map (fst \<circ> fst) passes = map fst (rows validate)"
    using ps lB len by (simp add: map_fst_zip flip: map_map)
  show "map snd passes = map (\<lambda>(t, m). (t, [(target, cell_at m target)])) (rows validate)"
    using ps ly len by (simp add: map_snd_zip)
  show "rows train \<noteq> []"
    using scaler_fit_nonempty [OF fit] ts sel(1) by (auto simp: select_columns_Inr)
  show "columns (y_window st0) = [target]"
    using st0 ys(1) by (simp add: select_columns_Inr)
qed

text \<open>A pass of the loop drops the first row of each window and appends the row it has read.\<close>

lemma rolling_step_windows:
  assumes "rolling_step est target st (xrow, yrow) = Inr st'"
  shows "rows (X_window st') = drop 1 (rows (X_window st)) @ [xrow]"
    and "rows (y_window st') = drop 1 (rows (y_window st)) @ [yrow]"
    and "columns (X_window st') = columns (X_window st)"
    and "columns (y_window st') = columns (y_window st)"
  using assms by (auto simp: rolling_step_def bind_exc_eq_Inr)

lemma rolling_loop_snoc:
  "rolling_loop est target (ps @ [p]) st =
     bind_exc (rolling_loop est target ps st) (\<lambda>s. rolling_step est target s p)"
proof (induction ps arbitrary: st)
  case Nil
  show ?case by (cases "rolling_step est target st p") simp_all
next
  case (Cons q ps)
  show ?case by (cases "rolling_step est target st q") (simp_all add: Cons.IH)
qed

lemma drop_window: "i < length xs \<Longrightarrow> drop 1 (drop i xs) @ [v] = drop (Suc i) (xs @ [v])"
  by simp

text \<open>The windows after the first \<open>n\<close> passes, for a training window that is not empty.\<close>

lemma rolling_loop_windows:
  assumes "rolling_loop est target (take n passes) st0 = Inr st"
    and "n \<le> length passes" and "rows (X_window st0) \<noteq> []" and "rows (y_window st0) \<noteq> []"
  shows "rows (X_window st) = drop n (rows (X_window st0) @ take n (map fst passes))
       \<and> rows (y_window st) = drop n (rows (y_window st0) @ take n (map snd passes))"
  using assms
proof (induction n arbitrary: st)
  case 0
  then show ?case by simp
next
  case (Suc n)
  then have n: "n < length passes" by simp
  then have tk: "take (Suc n) passes = take n passes @ [passes ! n]"
    by (simp add: take_Suc_conv_app_nth)
  from Suc.prems(1) obtain s where
    s: "rolling_loop est target (take n passes) st0 = Inr s"
    and step: "rolling_step est target s (passes ! n) = Inr st"
    by (auto simp: tk rolling_loop_snoc bind_exc_eq_Inr)
  from Suc.IH [OF s] n Suc.prems(3,4) have
    w: "rows (X_window s) = drop n (rows (X_window st0) @ take n (map fst passes))"
      "rows (y_window s) = drop n (rows (y_window st0) @ take n (map snd passes))"
    by simp_all
  obtain xrow yrow where p: "passes ! n = (xrow, yrow)" by (cases "passes ! n")
  have tkf: "take (Suc n) (map fst passes) = take n (map fst passes) @ [xrow]"
    and tks: "take (Suc n) (map snd passes) = take n (map snd passes) @ [yrow]"
    using n p by (simp_all add: take_Suc_conv_app_nth)
  have lx: "n < length (rows (X_window st0) @ take n (map fst passes))"
    and ly: "n < length (rows (y_window st0) @ take n (map snd passes))"
    using n Suc.prems(3,4) by (simp_all add: min_def)
  from rolling_step_windows(1,2) [OF step [unfolded p]] w
  show ?case
    using drop_window [OF lx, of xrow] drop_window [OF ly, of yrow]
    unfolding tkf tks by simp
qed


lemma rolling_start_length:
  assumes "rolling_start train validate test est target ftu fts pfs = Inr (st0, passes)"
  shows "length passes = length (rows validate)"
  using rolling_start_index(3) [OF assms] by (metis length_map)

lemma rolling_start_nonempty:
  assumes "rolling_start train validate test est target ftu fts pfs = Inr (st0, passes)"
  shows "rows (X_window st0) \<noteq> []" and "rows (y_window st0) \<noteq> []"
  using rolling_start_index(1,2,5) [OF assms] by (metis map_is_Nil_conv)+

text \<open>The index labels of the two windows when the loop enters pass \<open>i\<close>.\<close>

lemma state_before_step_index:
  assumes "state_before_step train validate test est target ftu fts pfs i = Inr st"
    and "i \<le> length (rows validate)"
  shows "map fst (rows (X_window st)) = drop i (map fst (rows train) @ take i (map fst (rows validate)))"
    and "map fst (rows (y_window st)) = drop i (map fst (rows train) @ take i (map fst (rows validate)))"
proof -
  from assms(1) obtain st0 passes where
    start: "rolling_start train validate test est target ftu fts pfs = Inr (st0, passes)"
    and loop: "rolling_loop est target (take i passes) st0 = Inr st"
    by (auto simp: state_before_step_def bind_exc_eq_Inr)
  have len: "i \<le> length passes" using assms(2) rolling_start_length [OF start] by simp
  have sn: "map fst (map snd passes) = map fst (rows validate)"
    using rolling_start_index(4) [OF start] by (simp add: split_def comp_def)
  have fs: "map fst (map fst passes) = map fst (rows validate)"
    using rolling_start_index(3) [OF start] by simp
  have mv: "map fst (drop i (A @ take i P)) = drop i (map fst A @ take i (map fst P))"
    for A P :: "row list"
    by (simp only: take_map map_append [symmetric] drop_map)
  from rolling_loop_windows [OF loop len rolling_start_nonempty [OF start]]
  have "map fst (rows (X_window st)) = map fst (drop i (rows (X_window st0) @ take i (map fst passes)))"
    and "map fst (rows (y_window st)) = map fst (drop i (rows (y_window st0) @ take i (map snd passes)))"
    by simp_all
  then show "map fst (rows (X_window st)) = drop i (map fst (rows train) @ take i (map fst (rows validate)))"
    and "map fst (rows (y_window st)) = drop i (map fst (rows train) @ take i (map fst (rows validate)))"
    unfolding mv rolling_start_index(1,2) [OF start] fs sn by simp_all
qed

lemma sorted_window_before:
  assumes "sorted_wrt (<) (ts @ vs)" and "i < length vs"
    and "t \<in> set (drop i (ts @ take i vs))"
  shows "t < (vs ! i :: nat)"
proof -
  from assms(3) have "t \<in> set (ts @ take i vs)" by (rule in_set_dropD)
  then have "t \<in> set ts \<or> t \<in> set (take i vs)" by simp
  then have "\<exists>j. j < length ts + i \<and> t = (ts @ vs) ! j"
  proof
    assume "t \<in> set ts"
    then obtain j where "j < length ts" "t = ts ! j" by (auto simp: in_set_conv_nth)
    then show ?thesis by (intro exI [of _ j]) (simp add: nth_append)
  next
    assume "t \<in> set (take i vs)"
    then obtain j where "j < i" "j < length vs" "t = vs ! j" by (auto simp: in_set_conv_nth)
    then show ?thesis by (intro exI [of _ "length ts + j"]) (simp add: nth_append)
  qed
  then obtain j where j: "j < length ts + i" and t: "t = (ts @ vs) ! j" by blast
  have "(ts @ vs) ! j < (ts @ vs) ! (length ts + i)"
    using sorted_wrt_nth_less [OF assms(1), of j "length ts + i"] assms(2) j by simp
  then show ?thesis using t by (simp add: nth_append)
qed

text \<open>
  Claim C1. In a rolling run, when the loop enters pass \<open>i\<close>, every row of the window
  (\<open>X_window\<close>, \<open>y_window\<close>) that the pass fits the model to has a timestamp strictly
  less than that of row \<open>i\<close> of Validate, the row that the pass predicts. The
  timestamps of Train followed by Validate increase strictly, as those of a split frame do.
\<close>

theorem no_look_ahead:
  assumes "state_before_step train validate test model_under_test target features_to_use
             features_to_scale perform_feature_selection i = Inr st"
    and "i < length (rows validate)"
    and "sorted_wrt (<) (map fst (rows train) @ map fst (rows validate))"
  shows "(\<forall>r \<in> set (rows (X_window st)). fst r < fst (rows validate ! i))
       \<and> (\<forall>r \<in> set (rows (y_window st)). fst r < fst (rows validate ! i))"
proof -
  have i: "i \<le> length (rows validate)" and i': "i < length (map fst (rows validate))"
    using assms(2) by simp_all
  have "t < fst (rows validate ! i)"
    if "t \<in> set (drop i (map fst (rows train) @ take i (map fst (rows validate))))" for t
    using sorted_window_before [OF assms(3) i' that] assms(2) by simp
  then show ?thesis
    using state_before_step_index [OF assms(1) i]
    by (metis (no_types, lifting) image_eqI list.set_map)
qed

lemma featured_cells:
  assumes "featured pfs n est target Xtr Xva Xte ytr = Inr (A, B, C)"
    and "columns Xva = columns Xtr"
  shows "set (columns A) \<subseteq> set (columns Xtr)"
    and "length (rows B) = length (rows Xva)"
    and "i < length (rows Xva) \<Longrightarrow> c \<in> set (columns A) \<Longrightarrow>
           cell_at (snd (rows B ! i)) c = cell_at (snd (rows Xva ! i)) c"
    and "i < length (rows Xva) \<Longrightarrow> fst (rows B ! i) = fst (rows Xva ! i)"
proof -
  show "set (columns A) \<subseteq> set (columns Xtr)"
    using assms(1) by (auto simp: featured_def bind_exc_eq_Inr select_columns_Inr split: if_splits)
  show "length (rows B) = length (rows Xva)"
    using assms(1) by (auto simp: featured_def bind_exc_eq_Inr select_columns_Inr split: if_splits)
  show "cell_at (snd (rows B ! i)) c = cell_at (snd (rows Xva ! i)) c"
    if "i < length (rows Xva)" "c \<in> set (columns A)"
    using assms(1) that
    by (auto simp: featured_def bind_exc_eq_Inr select_columns_Inr split_def cell_at_map_cols
        split: if_splits)
  show "fst (rows B ! i) = fst (rows Xva ! i)" if "i < length (rows Xva)"
    using assms(1) that
    by (auto simp: featured_def bind_exc_eq_Inr select_columns_Inr split_def split: if_splits)
qed

text \<open>
  The feature row that pass \<open>i\<close> reads: it has the index label of row \<open>i\<close> of Validate
  and, in every column of the window, the scaled feature of that row.
\<close>

lemma rolling_start_cells:
  assumes "rolling_start train validate test est target ftu fts pfs = Inr (st0, passes)"
    and "i < length (rows validate)" and "c \<in> set (columns (X_window st0))"
  shows "c \<in> set ftu"
    and "cell_at (snd (fst (passes ! i))) c =
           (if c \<in> set fts
            then fdiv (fsub (cell_at (snd (rows validate ! i)) c) (col_mean (column_values train c)))
                   (col_std (column_values train c))
            else cell_at (snd (rows validate ! i)) c)"
proof -
  from assms(1) obtain Xtr Xva Xte ytr yva yte A B C where
    sd: "scale_datasets train validate test target ftu fts = Inr (Xtr, Xva, Xte, ytr, yva, yte)"
    and ft: "featured pfs 10 est target Xtr Xva Xte ytr = Inr (A, B, C)"
    and st0: "st0 = \<lparr>X_window = A, y_window = ytr,
           train_rolling_predictions = [], train_rolling_actuals = [],
           validate_rolling_predictions = [], validate_rolling_actuals = []\<rparr>"
    and ps: "passes = zip (rows B) (rows yva)"
    by (auto simp: rolling_start_def bind_exc_eq_Inr)
  have cols: "columns Xva = columns Xtr" "set (columns Xtr) = set ftu"
    using scale_datasets_columns [OF sd] by simp_all
  from scale_datasets_cells [OF sd] have
    len: "length (rows Xva) = length (rows validate)"
    and cells: "\<And>c. c \<in> set ftu \<Longrightarrow> cell_at (snd (rows Xva ! i)) c =
           (if c \<in> set fts
            then fdiv (fsub (cell_at (snd (rows validate ! i)) c) (col_mean (column_values train c)))
                   (col_std (column_values train c))
            else cell_at (snd (rows validate ! i)) c)"
    using assms(2) by auto
  have cA: "c \<in> set (columns A)" using assms(3) st0 by simp
  show c: "c \<in> set ftu" using featured_cells(1) [OF ft cols(1)] cA cols(2) by auto
  have i: "i < length (rows Xva)" using len assms(2) by simp
  have "length passes = length (rows validate)"
    using rolling_start_length [OF assms(1)] .
  then have "fst (passes ! i) = rows B ! i"
    using ps assms(2) by simp
  then show "cell_at (snd (fst (passes ! i))) c =
           (if c \<in> set fts
            then fdiv (fsub (cell_at (snd (rows validate ! i)) c) (col_mean (column_values train c)))
                   (col_std (column_values train c))
            else cell_at (snd (rows validate ! i)) c)"
    using featured_cells(3) [OF ft cols(1) i cA] cells [OF c] by simp
qed

lemma state_before_step_Suc:
  assumes "state_before_step train validate test est target ftu fts pfs i = Inr st"
    and "state_before_step train validate test est target ftu fts pfs (Suc i) = Inr st'"
    and "i < length (rows validate)"
  obtains st0 passes where
    "rolling_start train validate test est target ftu fts pfs = Inr (st0, passes)"
    "rolling_step est target st (passes ! i) = Inr st'"
    "columns (X_window st) = columns (X_window st0)"
proof -
  from assms(1) obtain st0 passes where
    start: "rolling_start train validate test est target ftu fts pfs = Inr (st0, passes)"
    and loop: "rolling_loop est target (take i passes) st0 = Inr st"
    by (auto simp: state_before_step_def bind_exc_eq_Inr)
  have i: "i < length passes" using assms(3) rolling_start_length [OF start] by simp
  then have tk: "take (Suc i) passes = take i passes @ [passes ! i]"
    by (simp add: take_Suc_conv_app_nth)
  from assms(2) start loop have step: "rolling_step est target st (passes ! i) = Inr st'"
    by (simp add: state_before_step_def tk rolling_loop_snoc)
  have "columns (X_window s) = columns (X_window st0)"
    if "rolling_loop est target ps st0 = Inr s" for ps s
    using that
  proof (induction ps arbitrary: s rule: rev_induct)
    case Nil
    then show ?case by simp
  next
    case (snoc p ps)
    then obtain s1 where s1: "rolling_loop est target ps st0 = Inr s1"
      and st: "rolling_step est target s1 p = Inr s"
      by (auto simp: rolling_loop_snoc bind_exc_eq_Inr)
    from rolling_step_windows(3) [of est target s1 "fst p" "snd p" s] st snoc.IH [OF s1]
    show ?case by simp
  qed
  from this [OF loop] start step show ?thesis by (rule that [rotated 2])
qed

text \<open>
  Claim C2. The window keeps the length of Train: before and after pass \<open>i\<close> both
  tables of the window have as many rows as Train; the pass drops the first row of each
  and appends the row of Validate that it has just predicted, that is its scaled features
  and its true target.
\<close>

theorem fixed_window_length:
  assumes "state_before_step train validate test model_under_test target features_to_use
             features_to_scale perform_feature_selection i = Inr st"
    and "state_before_step train validate test model_under_test target features_to_use
             features_to_scale perform_feature_selection (Suc i) = Inr st'"
    and "i < length (rows validate)"
  shows "length (rows (X_window st)) = length (rows train)
       \<and> length (rows (y_window st)) = length (rows train)
       \<and> length (rows (X_window st')) = length (rows train)
       \<and> length (rows (y_window st')) = length (rows train)
       \<and> rows (X_window st') = drop 1 (rows (X_window st)) @ [last (rows (X_window st'))]
       \<and> fst (last (rows (X_window st'))) = fst (rows validate ! i)
       \<and> (\<forall>c \<in> set (columns (X_window st')).
            cell_at (snd (last (rows (X_window st')))) c =
              (if c \<in> set features_to_scale
               then fdiv (fsub (cell_at (snd (rows validate ! i)) c)
                            (col_mean (column_values train c)))
                      (col_std (column_values train c))
               else cell_at (snd (rows validate ! i)) c))
       \<and> rows (y_window st') = drop 1 (rows (y_window st))
             @ [(fst (rows validate ! i), [(target, cell_at (snd (rows validate ! i)) target)])]"
proof -
  have le: "i \<le> length (rows validate)" "Suc i \<le> length (rows validate)"
    using assms(3) by simp_all
  have len: "length (rows (X_window s)) = length (rows train)
       \<and> length (rows (y_window s)) = length (rows train)"
    if "state_before_step train validate test model_under_test target features_to_use
             features_to_scale perform_feature_selection n = Inr s" "n \<le> length (rows validate)"
    for n s
  proof -
    have "length (map fst (rows (X_window s))) = length (rows train)"
      and "length (map fst (rows (y_window s))) = length (rows train)"
      unfolding state_before_step_index [OF that] using that(2) by (simp_all add: min_def)
    then show ?thesis by simp
  qed
  from assms obtain st0 passes where
    start: "rolling_start train validate test model_under_test target features_to_use
              features_to_scale perform_feature_selection = Inr (st0, passes)"
    and step: "rolling_step model_under_test target st (passes ! i) = Inr st'"
    and cols: "columns (X_window st) = columns (X_window st0)"
    by (rule state_before_step_Suc)
  obtain xrow yrow where p: "passes ! i = (xrow, yrow)" by (cases "passes ! i")
  note w = rolling_step_windows [OF step [unfolded p]]
  have lp: "i < length passes" using assms(3) rolling_start_length [OF start] by simp
  have x: "fst xrow = fst (rows validate ! i)"
    using rolling_start_index(3) [OF start] lp p assms(3)
    by (metis comp_apply fst_conv nth_map)
  have y: "yrow = (fst (rows validate ! i), [(target, cell_at (snd (rows validate ! i)) target)])"
    using rolling_start_index(4) [OF start] lp p assms(3)
    by (metis (mono_tags, lifting) case_prod_beta nth_map snd_conv)
  have cells: "cell_at (snd xrow) c =
              (if c \<in> set features_to_scale
               then fdiv (fsub (cell_at (snd (rows validate ! i)) c)
                            (col_mean (column_values train c)))
                      (col_std (column_values train c))
               else cell_at (snd (rows validate ! i)) c)"
    if "c \<in> set (columns (X_window st'))" for c
    using rolling_start_cells(2) [OF start assms(3), of c] that w(3) cols p by simp
  show ?thesis
    using len [OF assms(1) le(1)] len [OF assms(2) le(2)] w(1,2) x y cells by simp
qed

text \<open>
  A pass fits the estimator to the window of the state in which it starts, and a run that
  returns has entered every pass.
\<close>

lemma rolling_step_fits_window:
  assumes "rolling_step est target st p = Inr st'"
  shows "\<exists>y_fit fitted. get_column (y_window st) target = Inr y_fit
           \<and> fit est (X_window st) y_fit = Inr fitted"
  using assms by (cases p) (auto simp: rolling_step_def bind_exc_eq_Inr)

lemma rolling_loop_append:
  "rolling_loop est target (ps @ qs) st =
     bind_exc (rolling_loop est target ps st) (rolling_loop est target qs)"
proof (induction ps arbitrary: st)
  case Nil
  show ?case by simp
next
  case (Cons p ps)
  show ?case by (cases "rolling_step est target st p") (simp_all add: Cons.IH)
qed

lemma completed_run_enters_every_pass:
  assumes "get_rolling_predictions train validate test est target ftu fts pfs = Inr res"
  shows "\<exists>st. state_before_step train validate test est target ftu fts pfs i = Inr st"
proof -
  from assms obtain st0 passes st where
    start: "rolling_start train validate test est target ftu fts pfs = Inr (st0, passes)"
    and loop: "rolling_loop est target passes st0 = Inr st"
    by (auto simp: get_rolling_predictions_def bind_exc_eq_Inr)
  have "rolling_loop est target (take i passes @ drop i passes) st0 = Inr st"
    using loop by simp
  then obtain s where "rolling_loop est target (take i passes) st0 = Inr s"
    unfolding rolling_loop_append bind_exc_eq_Inr by blast
  with start show ?thesis by (simp add: state_before_step_def)
qed

lemmas rolling_defs = state_before_step_def rolling_start_def featured_def get_top_features_def
  rolling_step_def get_rolling_predictions_def

lemma ex_state_before_step_1:
  "state_before_step ex_train ex_validate ex_test ex_model ''fwd_log_ret'' ex_features ex_features
     True 1
     = Inr ex_state1"
  by (simp add: ex_state1_def rolling_defs ex_inputs scale_defs frame_defs arith_defs)

lemma ex_state_before_step_2:
  "state_before_step ex_train ex_validate ex_test ex_model ''fwd_log_ret'' ex_features ex_features
     True
     (Suc 1) = Inr ex_state2"
  by (simp add: ex_state2_def rolling_defs ex_inputs scale_defs frame_defs arith_defs)

lemma ex_timestamps_increase:
  "sorted_wrt (<) (map fst (rows ex_train) @ map fst (rows ex_validate))"
  by (simp add: ex_inputs)

lemma ex_validate_length: "1 < length (rows ex_validate)"
  by (simp add: ex_inputs)

theorem no_look_ahead_witness:
  "state_before_step ex_train ex_validate ex_test ex_model ''fwd_log_ret'' ex_features ex_features
     True 1
     = Inr ex_state1
   \<and> 1 < length (rows ex_validate)
   \<and> sorted_wrt (<) (map fst (rows ex_train) @ map fst (rows ex_validate))
   \<and> fst (rows (X_window ex_state1) ! 0) < fst (rows ex_validate ! 1)
   \<and> fst (rows (X_window ex_state1) ! 1) < fst (rows ex_validate ! 1)
   \<and> fst (rows (y_window ex_state1) ! 0) < fst (rows ex_validate ! 1)
   \<and> fst (rows (y_window ex_state1) ! 1) < fst (rows ex_validate ! 1)"
proof -
  have "rows (X_window ex_state1) ! 0 \<in> set (rows (X_window ex_state1))"
    and "rows (X_window ex_state1) ! 1 \<in> set (rows (X_window ex_state1))"
    and "rows (y_window ex_state1) ! 0 \<in> set (rows (y_window ex_state1))"
    and "rows (y_window ex_state1) ! 1 \<in> set (rows (y_window ex_state1))"
    by (simp_all add: ex_state1_def)
  with no_look_ahead [OF ex_state_before_step_1 ex_validate_length ex_timestamps_increase]
    ex_state_before_step_1 ex_validate_length ex_timestamps_increase
  show ?thesis by blast
qed

theorem fixed_window_length_witness:
  "state_before_step ex_train ex_validate ex_test ex_model ''fwd_log_ret'' ex_features ex_features
     True 1
     = Inr ex_state1
   \<and> state_before_step ex_train ex_validate ex_test ex_model ''fwd_log_ret'' ex_features ex_features
     True
       (Suc 1) = Inr ex_state2
   \<and> 1 < length (rows ex_validate)
   \<and> length (rows (X_window ex_state1)) = length (rows ex_train)
   \<and> length (rows (X_window ex_state2)) = length (rows ex_train)
   \<and> rows (y_window ex_state2) = drop 1 (rows (y_window ex_state1))
         @ [(fst (rows ex_validate ! 1),
             [(''fwd_log_ret'', cell_at (snd (rows ex_validate ! 1)) ''fwd_log_ret'')])]"
  using fixed_window_length [OF ex_state_before_step_1 ex_state_before_step_2 ex_validate_length]
    ex_state_before_step_1 ex_state_before_step_2 ex_validate_length
  by blast

section \<open>From predictions to trades\<close>

lemma trade_table_rows_ok:
  assumes "trade_table validate acts preds = Inr tbl"
  shows "\<forall>row \<in> set tbl. trade_row_ok row"
  using assms
  by (auto simp: trade_table_def bind_exc_eq_Inr trade_fields_def trade_row_ok_def Let_def
      split: if_splits)

lemma tables_ok_empty: "tables_ok empty_store"
  by (simp add: tables_ok_def empty_store_def)

lemma tables_ok_new_dict: "tables_ok st \<Longrightarrow> tables_ok (snd (new_dict st))"
  by (auto simp: tables_ok_def new_dict_def)

lemma tables_ok_dict_set:
  assumes "tables_ok st" and "\<And>tbl. v = Table tbl \<Longrightarrow> \<forall>row \<in> set tbl. trade_row_ok row"
  shows "tables_ok (dict_set r key v st)"
  using assms unfolding tables_ok_def dict_set_def
  by (auto split: option.splits if_splits)

lemma reg_models_loop_tables_ok:
  assumes "reg_models_loop tvt models target ftu fts r st = Inr st'" and "tables_ok st"
  shows "tables_ok st'"
  using assms
proof (induction models arbitrary: st)
  case Nil
  then show ?case by simp
next
  case (Cons m models)
  from Cons.prems(1) obtain validate_res validate_rmse train_rmse where
    run: "rolling_reg_run tvt m target ftu fts = Inr (validate_res, validate_rmse, train_rmse)"
    and rest: "reg_models_loop tvt models target ftu fts r
       (dict_set r (model_name m @ ''_train_rmse'') (Metric train_rmse)
       (dict_set r (model_name m @ ''_validate_rmse'') (Metric validate_rmse)
       (dict_set r (model_name m) (Table validate_res) st))) = Inr st'"
    by (auto simp: bind_exc_eq_Inr)
  from run have "\<forall>row \<in> set validate_res. trade_row_ok row"
    by (cases tvt) (auto simp: rolling_reg_run_def bind_exc_eq_Inr dest: trade_table_rows_ok)
  with Cons.prems(2) show ?case
    by (intro Cons.IH [OF rest] tables_ok_dict_set) simp_all
qed

lemma class_models_loop_tables_ok:
  assumes "class_models_loop tvt models target ftu fts r st = Inr st'" and "tables_ok st"
  shows "tables_ok st'"
  using assms
proof (induction models arbitrary: st)
  case Nil
  then show ?case by simp
next
  case (Cons m models)
  from Cons.prems(1) obtain validate_res validate_accuracy baseline where
    run: "rolling_class_run tvt m target ftu fts = Inr (validate_res, validate_accuracy, baseline)"
    and rest: "class_models_loop tvt models target ftu fts r
       (dict_set r ''baseline'' (Baseline baseline)
       (dict_set r (model_name m @ ''_accuracy'') (Metric validate_accuracy)
       (dict_set r (model_name m) (Table validate_res) st))) = Inr st'"
    by (auto simp: bind_exc_eq_Inr)
  from run have "\<forall>row \<in> set validate_res. trade_row_ok row"
    by (cases tvt) (auto simp: rolling_class_run_def bind_exc_eq_Inr dest: trade_table_rows_ok)
  with Cons.prems(2) show ?case
    by (intro Cons.IH [OF rest] tables_ok_dict_set) simp_all
qed

lemma reg_assets_loop_tables_ok:
  assumes "reg_assets_loop split_data models target ftu fts apr st = Inr (apr', st')"
    and "tables_ok st"
  shows "tables_ok st'"
  using assms
proof (induction split_data arbitrary: apr st)
  case Nil
  then show ?case by simp
next
  case (Cons kv rest)
  obtain k tvt where kv: "kv = (k, tvt)" by (cases kv)
  from Cons.prems(1) obtain st2 where
    inner: "reg_models_loop tvt models target ftu fts (fst (new_dict st)) (snd (new_dict st)) = Inr st2"
    and outer: "reg_assets_loop rest models target ftu fts (apr(k \<mapsto> fst (new_dict st))) st2
                  = Inr (apr', st')"
    by (auto simp: kv bind_exc_eq_Inr split: prod.splits)
  from reg_models_loop_tables_ok [OF inner tables_ok_new_dict [OF Cons.prems(2)]]
  show ?case by (rule Cons.IH [OF outer])
qed

lemma class_assets_loop_tables_ok:
  assumes "class_assets_loop split_data models target ftu fts r apr st = Inr (apr', st')"
    and "tables_ok st"
  shows "tables_ok st'"
  using assms
proof (induction split_data arbitrary: apr st)
  case Nil
  then show ?case by simp
next
  case (Cons kv rest)
  obtain k tvt where kv: "kv = (k, tvt)" by (cases kv)
  from Cons.prems(1) obtain st1 where
    inner: "class_models_loop tvt models target ftu fts r st = Inr st1"
    and outer: "class_assets_loop rest models target ftu fts r (apr(k \<mapsto> r)) st1 = Inr (apr', st')"
    by (auto simp: kv bind_exc_eq_Inr)
  from class_models_loop_tables_ok [OF inner Cons.prems(2)]
  show ?case by (rule Cons.IH [OF outer])
qed

lemma rolling_models_tables_ok:
  assumes "rolling_reg_models split_data models target ftu fts = Inr (apr, st)
         \<or> rolling_class_models split_data models target ftu fts = Inr (apr, st)"
  shows "tables_ok st"
  using assms
proof
  assume "rolling_reg_models split_data models target ftu fts = Inr (apr, st)"
  then show ?thesis
    unfolding rolling_reg_models_def by (rule reg_assets_loop_tables_ok) (rule tables_ok_empty)
next
  assume "rolling_class_models split_data models target ftu fts = Inr (apr, st)"
  then have "class_assets_loop split_data models target ftu fts (fst (new_dict empty_store))
      Map.empty (snd (new_dict empty_store)) = Inr (apr, st)"
    by (simp add: rolling_class_models_def split_def)
  then show ?thesis
    by (rule class_assets_loop_tables_ok) (rule tables_ok_new_dict [OF tables_ok_empty])
qed

lemma cell_at_row_set: "cell_at (row_set m c v) c' = (if c' = c then v else cell_at m c')"
proof (cases "c \<in> fst ` set m")
  case False
  then have "map_of m c = None" by (simp add: map_of_eq_None_iff)
  with False show ?thesis
    by (auto simp: row_set_def cell_at_def map_add_def split: option.splits)
next
  case True
  have "map_of (map (\<lambda>(k, x). if k = c then (k, v) else (k, x)) m) c'
      = (if c' = c then (if c \<in> fst ` set m then Some v else None) else map_of m c')"
    by (induction m) (auto simp: rev_image_eqI)
  with True show ?thesis by (simp add: row_set_def cell_at_def)
qed

lemma get_column_Inr:
  "get_column df c = Inr s \<longleftrightarrow>
     c \<in> set (columns df) \<and> s = map (\<lambda>(t, m). (t, cell_at m c)) (rows df)"
  by (auto simp: get_column_def)

lemma get_attr_Inr:
  "get_attr df c = Inr s \<longleftrightarrow>
     c \<in> set (columns df) \<and> s = map (\<lambda>(t, m). (t, cell_at m c)) (rows df)"
  by (auto simp: get_attr_def)

lemma set_column_Inr:
  "set_column df c vs = Inr df' \<longleftrightarrow>
     length vs = length (rows df) \<and>
     df' = \<lparr>columns = (if c \<in> set (columns df) then columns df else columns df @ [c]),
            rows = map (\<lambda>((t, m), v). (t, row_set m c v)) (zip (rows df) vs)\<rparr>"
  by (auto simp: set_column_def)

lemma set_column_cell:
  assumes "set_column df c vs = Inr df'" and "i < length (rows df)"
  shows "cell_at (snd (rows df' ! i)) c' = (if c' = c then vs ! i else cell_at (snd (rows df ! i)) c')"
    and "fst (rows df' ! i) = fst (rows df ! i)"
    and "length (rows df') = length (rows df)"
  using assms by (auto simp: set_column_Inr split_def cell_at_row_set)

lemma suffixed_neq:
  "ys \<noteq> [] \<Longrightarrow> zs \<noteq> [] \<Longrightarrow> last ys \<noteq> last zs \<Longrightarrow> name @ ys \<noteq> zs"
  by (metis last_appendR)

lemma derived_column_names [simp]:
  "name @ ''_long'' \<noteq> ''close''" "name @ ''_long'' \<noteq> ''next_day_close''"
  "name @ ''_ret'' \<noteq> ''close''" "name @ ''_ret'' \<noteq> ''next_day_close''"
  "name @ ''_pct_ret'' \<noteq> ''close''" "name @ ''_pct_ret'' \<noteq> ''next_day_close''"
  "''close'' \<noteq> name @ ''_long''" "''next_day_close'' \<noteq> name @ ''_long''"
  "''close'' \<noteq> name @ ''_ret''" "''next_day_close'' \<noteq> name @ ''_ret''"
  "''close'' \<noteq> name @ ''_pct_ret''" "''next_day_close'' \<noteq> name @ ''_pct_ret''"
  by (rule suffixed_neq suffixed_neq [symmetric]; simp)+

lemma calculate_step_cells:
  assumes "calculate_step mt mv y_validate (vr, a, b, c, d) name = Inr (vr', a', b', c', d')"
    and "i < length (rows vr)"
  shows "length (rows vr') = length (rows vr) \<and> length (rows y_validate) = length (rows vr)
    \<and> cell_at (snd (rows vr' ! i)) ''close'' = cell_at (snd (rows vr ! i)) ''close''
    \<and> cell_at (snd (rows vr' ! i)) ''next_day_close'' = cell_at (snd (rows vr ! i)) ''next_day_close''
    \<and> cell_at (snd (rows vr' ! i)) (name @ ''_long'')
        = Bool (gt0 (cell_at (snd (rows y_validate ! i)) name))
    \<and> cell_at (snd (rows vr' ! i)) (name @ ''_ret'')
        = (if gt0 (cell_at (snd (rows y_validate ! i)) name)
           then fsub (cell_at (snd (rows vr ! i)) ''next_day_close'') (cell_at (snd (rows vr ! i)) ''close'')
           else fsub (cell_at (snd (rows vr ! i)) ''close'') (cell_at (snd (rows vr ! i)) ''next_day_close''))
    \<and> cell_at (snd (rows vr' ! i)) (name @ ''_pct_ret'')
        = fdiv (cell_at (snd (rows vr' ! i)) (name @ ''_ret'')) (cell_at (snd (rows vr ! i)) ''close'')"
proof -
  from assms(1) obtain predicted results1 long next_day_close close results2 ret close2 where
    p: "get_column y_validate name = Inr predicted"
    and r1: "set_column vr (name @ ''_long'') (map (\<lambda>(t, p). Bool (gt0 p)) predicted) = Inr results1"
    and l: "get_column results1 (name @ ''_long'') = Inr long"
    and n: "get_attr results1 ''next_day_close'' = Inr next_day_close"
    and cl: "get_attr results1 ''close'' = Inr close"
    and r2: "set_column results1 (name @ ''_ret'')
                 (map (\<lambda>(l, n, c). if truthy l then fsub n c else fsub c n)
                    (zip (map snd long) (zip (map snd next_day_close) (map snd close)))) = Inr results2"
    and rt: "get_column results2 (name @ ''_ret'') = Inr ret"
    and cl2: "get_attr results2 ''close'' = Inr close2"
    and r3: "set_column results2 (name @ ''_pct_ret'')
                 (map (\<lambda>(r, c). fdiv r c) (zip (map snd ret) (map snd close2))) = Inr vr'"
    unfolding calculate_step_def prod.case by (elim bind_exc_InrE) auto
  have lp: "length predicted = length (rows vr)" "length (rows y_validate) = length (rows vr)"
    using r1 p by (auto simp: set_column_Inr get_column_Inr)
  have i1: "i < length (rows results1)" using set_column_cell(3) [OF r1 assms(2)] assms(2) by simp
  have i2: "i < length (rows results2)" using set_column_cell(3) [OF r2 i1] i1 by simp
  have pi: "map (\<lambda>(t, p). Bool (gt0 p)) predicted ! i = Bool (gt0 (cell_at (snd (rows y_validate ! i)) name))"
    using p lp assms(2) by (simp add: get_column_Inr split_def)
  note c1 = set_column_cell(1) [OF r1 assms(2)]
  note c2 = set_column_cell(1) [OF r2 i1]
  note c3 = set_column_cell(1) [OF r3 i2]
  have long_i: "snd (long ! i) = Bool (gt0 (cell_at (snd (rows y_validate ! i)) name))"
    using l i1 c1 [of "name @ ''_long''"] pi by (simp add: get_column_Inr split_def)
  have n_i: "snd (next_day_close ! i) = cell_at (snd (rows vr ! i)) ''next_day_close''"
    using n i1 c1 [of "''next_day_close''"] by (simp add: get_attr_Inr split_def)
  have c_i: "snd (close ! i) = cell_at (snd (rows vr ! i)) ''close''"
    using cl i1 c1 [of "''close''"] by (simp add: get_attr_Inr split_def)
  have lens: "length long = length (rows results1)" "length next_day_close = length (rows results1)"
    "length close = length (rows results1)"
    using l n cl by (auto simp: get_attr_Inr get_column_Inr)
  have ret_i: "map (\<lambda>(l, n, c). if truthy l then fsub n c else fsub c n)
                    (zip (map snd long) (zip (map snd next_day_close) (map snd close))) ! i
      = (if gt0 (cell_at (snd (rows y_validate ! i)) name)
           then fsub (cell_at (snd (rows vr ! i)) ''next_day_close'') (cell_at (snd (rows vr ! i)) ''close'')
           else fsub (cell_at (snd (rows vr ! i)) ''close'') (cell_at (snd (rows vr ! i)) ''next_day_close''))"
    using lens i1 long_i n_i c_i by simp
  have lens2: "length ret = length (rows results2)" "length close2 = length (rows results2)"
    using rt cl2 by (auto simp: get_attr_Inr get_column_Inr)
  have r_i: "snd (ret ! i) = cell_at (snd (rows results2 ! i)) (name @ ''_ret'')"
    using rt i2 by (simp add: get_column_Inr split_def)
  have c2_i: "snd (close2 ! i) = cell_at (snd (rows vr ! i)) ''close''"
    using cl2 i2 c2 [of "''close''"] c1 [of "''close''"] by (simp add: get_attr_Inr split_def)
  have pct_i: "map (\<lambda>(r, c). fdiv r c) (zip (map snd ret) (map snd close2)) ! i
      = fdiv (cell_at (snd (rows results2 ! i)) (name @ ''_ret'')) (cell_at (snd (rows vr ! i)) ''close'')"
    using lens2 i2 r_i c2_i by simp
  show ?thesis
    using set_column_cell(3) [OF r1 assms(2)] set_column_cell(3) [OF r2 i1]
      set_column_cell(3) [OF r3 i2] lp(2)
      c3 [of "''close''"] c2 [of "''close''"] c1 [of "''close''"]
      c3 [of "''next_day_close''"] c2 [of "''next_day_close''"] c1 [of "''next_day_close''"]
      c3 [of "name @ ''_long''"] c2 [of "name @ ''_long''"] c1 [of "name @ ''_long''"] pi
      c3 [of "name @ ''_ret''"] c2 [of "name @ ''_ret''"] ret_i
      c3 [of "name @ ''_pct_ret''"] pct_i
    by simp
qed

lemmas run_defs = rolling_reg_run_def rolling_class_run_def trade_table_def trade_fields_def
  first_elems_def root_mean_squared_error_def mean_squared_error_def accuracy_score_def
  class_baseline_def mode0_def count_of_def cell_eq_def model_name_def
  rolling_reg_models_def rolling_class_models_def new_dict_def dict_set_def empty_store_def

lemma ex_rolling_reg_models:
  "rolling_reg_models [(''A'', (ex_train, ex_validate, ex_test))] [ex_model] ''fwd_log_ret''
     ex_features ex_features = Inr ([''A'' \<mapsto> 0], ex_reg_store)"
  by (simp add: ex_reg_store_def ex_reg_dict_def ex_reg_table_def run_defs rolling_defs
      ex_inputs scale_defs frame_defs arith_defs)

lemma ex_calculate_step:
  "calculate_step [''First'' \<mapsto> Num 1] [''First'' \<mapsto> Num 2] ex_y_validate
     (ex_validate_results, [], [], [], []) ''First''
     = Inr (ex_calculated, [Num 5], [Num (1 / 20)], [Num 2], [Num 1])"
  by (simp add: calculate_step_def dict_get_def ex_validate_results_def ex_y_validate_def
      ex_calculated_def frame_defs arith_defs)

text \<open>
  Claim C3. In every row of a result table, \<open>go_long\<close> is true iff the prediction is
  positive (for a boolean prediction: iff it is true), the trade return is
  \<open>next_close - close\<close> when long and \<open>close - next_close\<close> otherwise, and the percent
  return is the trade return over \<open>close\<close>. This holds for the tables that
  \<open>rolling_reg_models\<close> and \<open>rolling_class_models\<close> store, and for the three columns
  that a pass of the loop of \<open>calculate_regression_results\<close> and of
  \<open>calculate_classification_results\<close> adds for a model. With close 100 and next close
  105, the prediction 0.02 gives long, 5 and 0.05, and the prediction -0.01 gives short
  and -5.
\<close>

theorem trade_rows_follow_prediction:
  "((rolling_reg_models split_data models target features_to_use features_to_scale
       = Inr (all_product_results, st)
     \<or> rolling_class_models split_data models target features_to_use features_to_scale
       = Inr (all_product_results, st))
    \<and> objects st r = Some d \<and> d key = Some (Table tbl) \<and> row \<in> set tbl
    \<longrightarrow> (t_go_long row, t_ret row, t_pct_ret row)
          = trade_fields (t_close row) (t_next_day_close row) (t_predictions row))
   \<and> (calculate_step metrics_train metrics_validate y_validate (validate_results, l1, l2, l3, l4)
         name = Inr (validate_results', l1', l2', l3', l4')
       \<and> i < length (rows validate_results)
    \<longrightarrow> (truthy (cell_at (snd (rows validate_results' ! i)) (name @ ''_long'')),
          cell_at (snd (rows validate_results' ! i)) (name @ ''_ret''),
          cell_at (snd (rows validate_results' ! i)) (name @ ''_pct_ret''))
          = trade_fields (cell_at (snd (rows validate_results' ! i)) ''close'')
              (cell_at (snd (rows validate_results' ! i)) ''next_day_close'')
              (cell_at (snd (rows y_validate ! i)) name))
   \<and> trade_fields close next_close prediction
        = (gt0 prediction,
           if gt0 prediction then fsub next_close close else fsub close next_close,
           fdiv (if gt0 prediction then fsub next_close close else fsub close next_close) close)
   \<and> gt0 (Num x) = (0 < x) \<and> gt0 (Bool b) = b
   \<and> trade_fields (Num 100) (Num 105) (Num (2 / 100)) = (True, Num 5, Num (5 / 100))
   \<and> trade_fields (Num 100) (Num 105) (Num (- 1 / 100)) = (False, Num (- 5), Num (- 5 / 100))"
proof (intro conjI impI)
  assume a: "(rolling_reg_models split_data models target features_to_use features_to_scale
       = Inr (all_product_results, st)
     \<or> rolling_class_models split_data models target features_to_use features_to_scale
       = Inr (all_product_results, st))
    \<and> objects st r = Some d \<and> d key = Some (Table tbl) \<and> row \<in> set tbl"
  then have "rolling_reg_models split_data models target features_to_use features_to_scale
       = Inr (all_product_results, st)
     \<or> rolling_class_models split_data models target features_to_use features_to_scale
       = Inr (all_product_results, st)" by simp
  then have "tables_ok st" by (rule rolling_models_tables_ok)
  with a have "trade_row_ok row" unfolding tables_ok_def by blast
  then show "(t_go_long row, t_ret row, t_pct_ret row)
          = trade_fields (t_close row) (t_next_day_close row) (t_predictions row)"
    by (simp add: trade_row_ok_def trade_fields_def Let_def)
next
  assume "calculate_step metrics_train metrics_validate y_validate (validate_results, l1, l2, l3, l4)
         name = Inr (validate_results', l1', l2', l3', l4')
       \<and> i < length (rows validate_results)"
  then have c: "calculate_step metrics_train metrics_validate y_validate
      (validate_results, l1, l2, l3, l4) name = Inr (validate_results', l1', l2', l3', l4')"
    and i: "i < length (rows validate_results)" by simp_all
  from calculate_step_cells [OF c i]
  show "(truthy (cell_at (snd (rows validate_results' ! i)) (name @ ''_long'')),
          cell_at (snd (rows validate_results' ! i)) (name @ ''_ret''),
          cell_at (snd (rows validate_results' ! i)) (name @ ''_pct_ret''))
          = trade_fields (cell_at (snd (rows validate_results' ! i)) ''close'')
              (cell_at (snd (rows validate_results' ! i)) ''next_day_close'')
              (cell_at (snd (rows y_validate ! i)) name)"
    by (simp add: trade_fields_def Let_def)
qed (simp_all add: trade_fields_def Let_def fsub_def fadd_def fdiv_def)

lemma ex_reg_store_row:
  "objects ex_reg_store 0 = Some ex_reg_dict \<and> ex_reg_dict ''First'' = Some (Table ex_reg_table)
   \<and> ex_reg_table ! 0 \<in> set ex_reg_table"
  by (simp add: ex_reg_store_def ex_reg_dict_def ex_reg_table_def)

theorem trade_rows_follow_prediction_witness:
  "rolling_reg_models [(''A'', (ex_train, ex_validate, ex_test))] [ex_model] ''fwd_log_ret''
     ex_features ex_features = Inr ([''A'' \<mapsto> 0], ex_reg_store)
   \<and> objects ex_reg_store 0 = Some ex_reg_dict \<and> ex_reg_dict ''First'' = Some (Table ex_reg_table)
   \<and> ex_reg_table ! 0 \<in> set ex_reg_table
   \<and> (t_go_long (ex_reg_table ! 0), t_ret (ex_reg_table ! 0), t_pct_ret (ex_reg_table ! 0))
       = trade_fields (t_close (ex_reg_table ! 0)) (t_next_day_close (ex_reg_table ! 0))
           (t_predictions (ex_reg_table ! 0))
   \<and> calculate_step [''First'' \<mapsto> Num 1] [''First'' \<mapsto> Num 2] ex_y_validate
        (ex_validate_results, [], [], [], []) ''First''
        = Inr (ex_calculated, [Num 5], [Num (1 / 20)], [Num 2], [Num 1])
   \<and> 0 < length (rows ex_validate_results)
   \<and> (truthy (cell_at (snd (rows ex_calculated ! 0)) (''First'' @ ''_long'')),
       cell_at (snd (rows ex_calculated ! 0)) (''First'' @ ''_ret''),
       cell_at (snd (rows ex_calculated ! 0)) (''First'' @ ''_pct_ret''))
       = trade_fields (cell_at (snd (rows ex_calculated ! 0)) ''close'')
           (cell_at (snd (rows ex_calculated ! 0)) ''next_day_close'')
           (cell_at (snd (rows ex_y_validate ! 0)) ''First'')"
proof -
  have len: "0 < length (rows ex_validate_results)" by (simp add: ex_validate_results_def)
  note t = trade_rows_follow_prediction [of "[(''A'', (ex_train, ex_validate, ex_test))]"
      "[ex_model]" "''fwd_log_ret''" ex_features ex_features "[''A'' \<mapsto> 0]" ex_reg_store 0 ex_reg_dict
      "''First''" ex_reg_table "ex_reg_table ! 0"
      "[''First'' \<mapsto> Num 1]" "[''First'' \<mapsto> Num 2]" ex_y_validate ex_validate_results
      "[]" "[]" "[]" "[]" "''First''" ex_calculated "[Num 5]" "[Num (1 / 20)]" "[Num 2]" "[Num 1]" 0]
  from t ex_rolling_reg_models ex_reg_store_row ex_calculate_step len
  show ?thesis by blast
qed

section \<open>The majority baseline\<close>

text \<open>The value that \<open>mode0\<close> returns is a label that occurs most often.\<close>

lemma foldl_best:
  fixes cnt :: "'a \<Rightarrow> nat" and lt :: "'a \<Rightarrow> 'a \<Rightarrow> bool"
  defines "f \<equiv> \<lambda>best c. if cnt best < cnt c \<or> (cnt c = cnt best \<and> lt c best) then c else best"
  shows "foldl f v vs \<in> set (v # vs) \<and> (\<forall>c \<in> set (v # vs). cnt c \<le> cnt (foldl f v vs))"
proof (induction vs arbitrary: v)
  case Nil
  show ?case by simp
next
  case (Cons c vs)
  have step: "f v c \<in> {v, c}" "cnt v \<le> cnt (f v c)" "cnt c \<le> cnt (f v c)"
    by (auto simp: f_def)
  from Cons [of "f v c"] step show ?case
    by (auto intro: order_trans)
qed

lemma mode0_most_frequent:
  assumes "mode0 xs = Inr m"
  shows "m \<in> set xs" and "\<not> isna m" and "\<And>v. \<not> isna v \<Longrightarrow> count_of xs v \<le> count_of xs m"
proof -
  from assms obtain v vs where f: "filter (\<lambda>c. \<not> isna c) xs = v # vs"
    and m: "m = foldl (\<lambda>best c.
                 if count_of xs best < count_of xs c
                    \<or> (count_of xs c = count_of xs best \<and> cell_less c best)
                 then c else best) v vs"
    by (auto simp: mode0_def split: list.splits)
  from foldl_best [of "count_of xs" cell_less v vs, unfolded] m
  have in_f: "m \<in> set (v # vs)" and mx: "\<forall>c \<in> set (v # vs). count_of xs c \<le> count_of xs m"
    by simp_all
  from in_f f have "m \<in> set (filter (\<lambda>c. \<not> isna c) xs)" by simp
  then show "m \<in> set xs" and "\<not> isna m" by simp_all
  fix w :: cell assume w: "\<not> isna w"
  show "count_of xs w \<le> count_of xs m"
  proof (cases "w \<in> set xs")
    case True
    with w have "w \<in> set (filter (\<lambda>c. \<not> isna c) xs)" by simp
    with f have "w \<in> set (v # vs)" by simp
    with mx show ?thesis by blast
  next
    case False
    then have "count_of xs w = 0" by (auto simp: count_of_def filter_empty_conv)
    then show ?thesis by simp
  qed
qed

lemma fsub_finite: "is_finite a \<Longrightarrow> is_finite b \<Longrightarrow> \<not> isna (fsub a b)"
  by (cases a; cases b) (simp_all add: fsub_def fadd_def)

lemma shift_m1_nth:
  "Suc i < length vs \<Longrightarrow> shift_m1 vs ! i = vs ! Suc i"
  "vs \<noteq> [] \<Longrightarrow> shift_m1 vs ! (length vs - 1) = NaN"
  "length (shift_m1 vs) = length vs"
  by (auto simp: shift_m1_def nth_append nth_tl)

lemma fsub_NaN [simp]: "fsub NaN a = NaN" "fsub a NaN = NaN"
  by (cases a; simp add: fsub_def fadd_def)+

text \<open>The baseline frame, row by row.\<close>

lemma class_baseline_rows:
  assumes "class_baseline train validate = Inr bl"
  obtains most_common where
    "mode0 (column_values train ''fwd_close_positive'') = Inr most_common"
    "length bl = length (rows validate)"
    "\<And>i. i < length (rows validate) \<Longrightarrow>
       b_index (bl ! i) = fst (rows validate ! i) \<and> b_predictions (bl ! i) = most_common
       \<and> b_go_long (bl ! i) = most_common
       \<and> b_close (bl ! i) = cell_at (snd (rows validate ! i)) ''close''
       \<and> b_next_day_close (bl ! i) = shift_m1 (column_values validate ''close'') ! i
       \<and> b_ret (bl ! i) = (if truthy most_common
                            then fsub (b_next_day_close (bl ! i)) (b_close (bl ! i))
                            else fsub (b_close (bl ! i)) (b_next_day_close (bl ! i)))"
proof -
  from assms obtain close labels most_common where
    c: "get_attr validate ''close'' = Inr close"
    and l: "get_attr train ''fwd_close_positive'' = Inr labels"
    and m: "mode0 (map snd labels) = Inr most_common"
    and bl: "bl = map (\<lambda>i.
            \<lparr>b_index = fst (rows validate ! i),
             b_close = map snd close ! i,
             b_next_day_close = shift_m1 (map snd close) ! i,
             b_predictions = most_common,
             b_go_long = most_common,
             b_ret = (if truthy most_common then fsub (shift_m1 (map snd close) ! i) (map snd close ! i)
                      else fsub (map snd close ! i) (shift_m1 (map snd close) ! i))\<rparr>)
            [0..<length (rows validate)]"
    unfolding class_baseline_def by (elim bind_exc_InrE) (auto simp: Let_def)
  have cv: "map snd close = column_values validate ''close''"
    and lv: "map snd labels = column_values train ''fwd_close_positive''"
    using c l by (auto simp: get_attr_Inr column_values_def split_def)
  show ?thesis
  proof (rule that [of most_common])
    show "mode0 (column_values train ''fwd_close_positive'') = Inr most_common"
      using m lv by simp
    show "length bl = length (rows validate)" using bl by simp
    fix i assume "i < length (rows validate)"
    then show "b_index (bl ! i) = fst (rows validate ! i) \<and> b_predictions (bl ! i) = most_common
       \<and> b_go_long (bl ! i) = most_common
       \<and> b_close (bl ! i) = cell_at (snd (rows validate ! i)) ''close''
       \<and> b_next_day_close (bl ! i) = shift_m1 (column_values validate ''close'') ! i
       \<and> b_ret (bl ! i) = (if truthy most_common
                            then fsub (b_next_day_close (bl ! i)) (b_close (bl ! i))
                            else fsub (b_close (bl ! i)) (b_next_day_close (bl ! i)))"
      using bl cv by (simp add: column_values_def split_def)
  qed
qed

lemma baselines_from_empty: "baselines_from sd (snd (new_dict empty_store))"
  by (simp add: baselines_from_def empty_store_def new_dict_def)

lemma baselines_from_dict_set:
  assumes "baselines_from sd st"
    and "\<And>bl. v = Baseline bl \<Longrightarrow> \<exists>k train validate test. (k, train, validate, test) \<in> set sd
           \<and> class_baseline train validate = Inr bl"
  shows "baselines_from sd (dict_set r key v st)"
  using assms unfolding baselines_from_def dict_set_def
  by (auto split: option.splits if_splits)

lemma class_models_loop_baselines:
  assumes "class_models_loop tvt models target ftu fts r st = Inr st'" and "baselines_from sd st"
    and "(k, tvt) \<in> set sd"
  shows "baselines_from sd st'"
  using assms(1,2)
proof (induction models arbitrary: st)
  case Nil
  then show ?case by simp
next
  case (Cons m models)
  from Cons.prems(1) obtain validate_res validate_accuracy baseline where
    run: "rolling_class_run tvt m target ftu fts = Inr (validate_res, validate_accuracy, baseline)"
    and rest: "class_models_loop tvt models target ftu fts r
       (dict_set r ''baseline'' (Baseline baseline)
       (dict_set r (model_name m @ ''_accuracy'') (Metric validate_accuracy)
       (dict_set r (model_name m) (Table validate_res) st))) = Inr st'"
    by (auto simp: bind_exc_eq_Inr)
  obtain train validate test where tvt: "tvt = (train, validate, test)" by (cases tvt) auto
  from run have "class_baseline train validate = Inr baseline"
    by (auto simp: rolling_class_run_def tvt bind_exc_eq_Inr)
  with assms(3) tvt have "\<exists>k train validate test. (k, train, validate, test) \<in> set sd
           \<and> class_baseline train validate = Inr baseline" by blast
  with Cons.prems(2) show ?case
    by (intro Cons.IH [OF rest] baselines_from_dict_set) simp_all
qed

lemma class_assets_loop_baselines:
  assumes "class_assets_loop split_data models target ftu fts r apr st = Inr (apr', st')"
    and "baselines_from sd st" and "set split_data \<subseteq> set sd"
  shows "baselines_from sd st'"
  using assms
proof (induction split_data arbitrary: apr st)
  case Nil
  then show ?case by simp
next
  case (Cons kv rest)
  obtain k tvt where kv: "kv = (k, tvt)" by (cases kv)
  from Cons.prems(1) obtain st1 where
    inner: "class_models_loop tvt models target ftu fts r st = Inr st1"
    and outer: "class_assets_loop rest models target ftu fts r (apr(k \<mapsto> r)) st1 = Inr (apr', st')"
    by (auto simp: kv bind_exc_eq_Inr)
  have "(k, tvt) \<in> set sd" using Cons.prems(3) kv by simp
  from class_models_loop_baselines [OF inner Cons.prems(2) this] Cons.prems(3)
  show ?case by (intro Cons.IH [OF outer]) simp_all
qed

lemma rolling_class_models_baselines:
  assumes "rolling_class_models split_data models target ftu fts = Inr (apr, st)"
  shows "baselines_from split_data st"
proof -
  from assms have "class_assets_loop split_data models target ftu fts (fst (new_dict empty_store))
      Map.empty (snd (new_dict empty_store)) = Inr (apr, st)"
    by (simp add: rolling_class_models_def split_def)
  then show ?thesis
    by (rule class_assets_loop_baselines) (simp_all add: baselines_from_empty)
qed

text \<open>
  Claim C9, as amended. Every baseline table that \<open>rolling_class_models\<close> stores
  belongs to one of the assets: it predicts, for every row of Validate, a label that is
  most frequent in the training set, it has as many rows as Validate, and its trade
  return is not null in any row but the last one where the closing prices are finite. In
  the last row the return is null, since that row has no next day's close.
\<close>

theorem majority_baseline_series:
  assumes "rolling_class_models split_data class_models target features_to_use features_to_scale
             = Inr (all_product_class_results, st)"
    and "objects st r = Some d" and "d key = Some (Baseline baseline)"
  shows "\<exists>k train validate test most_common.
           (k, train, validate, test) \<in> set split_data
         \<and> mode0 (column_values train ''fwd_close_positive'') = Inr most_common
         \<and> most_common \<in> set (column_values train ''fwd_close_positive'')
         \<and> (\<forall>v. \<not> isna v \<longrightarrow> count_of (column_values train ''fwd_close_positive'') v
                              \<le> count_of (column_values train ''fwd_close_positive'') most_common)
         \<and> length baseline = length (rows validate)
         \<and> (\<forall>i < length (rows validate).
              b_index (baseline ! i) = fst (rows validate ! i)
            \<and> b_predictions (baseline ! i) = most_common
            \<and> (Suc i < length (rows validate)
                 \<and> is_finite (cell_at (snd (rows validate ! i)) ''close'')
                 \<and> is_finite (cell_at (snd (rows validate ! Suc i)) ''close'')
               \<longrightarrow> \<not> isna (b_ret (baseline ! i))))
         \<and> (rows validate \<noteq> [] \<longrightarrow> isna (b_ret (last baseline)))"
proof -
  from rolling_class_models_baselines [OF assms(1)] assms(2,3)
  obtain k train validate test where
    mem: "(k, train, validate, test) \<in> set split_data"
    and bl: "class_baseline train validate = Inr baseline"
    unfolding baselines_from_def by blast
  from bl show ?thesis
  proof (rule class_baseline_rows)
    fix most_common
    assume m: "mode0 (column_values train ''fwd_close_positive'') = Inr most_common"
      and len: "length baseline = length (rows validate)"
      and row: "\<And>i. i < length (rows validate) \<Longrightarrow>
       b_index (baseline ! i) = fst (rows validate ! i) \<and> b_predictions (baseline ! i) = most_common
       \<and> b_go_long (baseline ! i) = most_common
       \<and> b_close (baseline ! i) = cell_at (snd (rows validate ! i)) ''close''
       \<and> b_next_day_close (baseline ! i) = shift_m1 (column_values validate ''close'') ! i
       \<and> b_ret (baseline ! i) = (if truthy most_common
                            then fsub (b_next_day_close (baseline ! i)) (b_close (baseline ! i))
                            else fsub (b_close (baseline ! i)) (b_next_day_close (baseline ! i)))"
    let ?cl = "column_values validate ''close''"
    have lcl: "length ?cl = length (rows validate)" by (simp add: column_values_def)
    have nonnull: "\<not> isna (b_ret (baseline ! i))"
      if "Suc i < length (rows validate)"
        "is_finite (cell_at (snd (rows validate ! i)) ''close'')"
        "is_finite (cell_at (snd (rows validate ! Suc i)) ''close'')" for i
    proof -
      have "shift_m1 ?cl ! i = cell_at (snd (rows validate ! Suc i)) ''close''"
        using that(1) lcl by (simp add: shift_m1_nth(1)) (simp add: column_values_def split_def)
      with row [of i] that show ?thesis by (simp add: fsub_finite)
    qed
    have lastnull: "isna (b_ret (last baseline))" if "rows validate \<noteq> []"
    proof -
      let ?n = "length (rows validate) - 1"
      have n: "?n < length (rows validate)" using that by simp
      have "last baseline = baseline ! ?n"
        using len that by (metis last_conv_nth length_0_conv)
      moreover have "?cl \<noteq> []" using lcl that by (metis length_0_conv)
      then have "shift_m1 ?cl ! ?n = NaN"
        using shift_m1_nth(2) [of ?cl] lcl by simp
      ultimately show ?thesis using row [OF n] by simp
    qed
    from mem m mode0_most_frequent [OF m] len row nonnull lastnull
    show ?thesis by blast
  qed
qed

lemmas ex_class_defs = ex_class_store_def ex_class_dict_def ex_class_table_def ex_baseline_def
  ex_classifier_def

lemma ex_rolling_class_models:
  "rolling_class_models [(''A'', (ex_train, ex_validate, ex_test))] [ex_classifier]
     ''fwd_close_positive'' [''x''] [''x''] = Inr ([''A'' \<mapsto> 0], ex_class_store)"
  by (simp add: ex_class_defs run_defs rolling_defs ex_inputs scale_defs frame_defs arith_defs)

lemma ex_class_store_baseline:
  "objects ex_class_store 0 = Some ex_class_dict"
  "ex_class_dict ''baseline'' = Some (Baseline ex_baseline)"
  by (simp_all add: ex_class_store_def ex_class_dict_def)

text \<open>
  Claim C9 as stated fails on the code: the baseline of the small asset has two rows, as
  Validate has, and the trade return of its last row is null.
\<close>

theorem majority_baseline_last_return_null:
  "rolling_class_models [(''A'', (ex_train, ex_validate, ex_test))] [ex_classifier]
     ''fwd_close_positive'' [''x''] [''x''] = Inr ([''A'' \<mapsto> 0], ex_class_store)
   \<and> objects ex_class_store 0 = Some ex_class_dict
   \<and> ex_class_dict ''baseline'' = Some (Baseline ex_baseline)
   \<and> length ex_baseline = length (rows ex_validate)
   \<and> map b_ret ex_baseline = [Num 5, NaN]
   \<and> isna (b_ret (ex_baseline ! 1))"
  using ex_rolling_class_models ex_class_store_baseline
  by (simp add: ex_baseline_def ex_inputs)

theorem majority_baseline_series_witness:
  "rolling_class_models [(''A'', (ex_train, ex_validate, ex_test))] [ex_classifier]
     ''fwd_close_positive'' [''x''] [''x''] = Inr ([''A'' \<mapsto> 0], ex_class_store)
   \<and> objects ex_class_store 0 = Some ex_class_dict
   \<and> ex_class_dict ''baseline'' = Some (Baseline ex_baseline)
   \<and> (\<exists>k train validate test most_common.
           (k, train, validate, test) \<in> set [(''A'', (ex_train, ex_validate, ex_test))]
         \<and> mode0 (column_values train ''fwd_close_positive'') = Inr most_common
         \<and> most_common \<in> set (column_values train ''fwd_close_positive'')
         \<and> (\<forall>v. \<not> isna v \<longrightarrow> count_of (column_values train ''fwd_close_positive'') v
                              \<le> count_of (column_values train ''fwd_close_positive'') most_common)
         \<and> length ex_baseline = length (rows validate)
         \<and> (\<forall>i < length (rows validate).
              b_index (ex_baseline ! i) = fst (rows validate ! i)
            \<and> b_predictions (ex_baseline ! i) = most_common
            \<and> (Suc i < length (rows validate)
                 \<and> is_finite (cell_at (snd (rows validate ! i)) ''close'')
                 \<and> is_finite (cell_at (snd (rows validate ! Suc i)) ''close'')
               \<longrightarrow> \<not> isna (b_ret (ex_baseline ! i))))
         \<and> (rows validate \<noteq> [] \<longrightarrow> isna (b_ret (last ex_baseline))))"
  using majority_baseline_series [OF ex_rolling_class_models ex_class_store_baseline]
    ex_rolling_class_models ex_class_store_baseline
  by blast

section \<open>The shared results dictionary\<close>

text \<open>All keys of the returned dictionary hold the one reference.\<close>

lemma class_assets_loop_refs:
  assumes "class_assets_loop sd ms target ftu fts r apr st = Inr (apr', st')"
  shows "apr' k1 = (if k1 \<in> fst ` set sd then Some r else apr k1)"
  using assms
proof (induction sd arbitrary: apr st)
  case Nil
  then show ?case by simp
next
  case (Cons kv rest)
  obtain k tvt where kv: "kv = (k, tvt)" by (cases kv)
  from Cons.prems obtain st1 where
    outer: "class_assets_loop rest ms target ftu fts r (apr(k \<mapsto> r)) st1 = Inr (apr', st')"
    by (auto simp: kv bind_exc_eq_Inr)
  from Cons.IH [OF outer] show ?case by (auto simp: kv)
qed

text \<open>The inner loop adds its writes to the dictionary behind the reference.\<close>

lemma with_dict_simps [simp]:
  "objects (with_dict st r d) r = Some d" "next_ref (with_dict st r d) = next_ref st"
  "with_dict (with_dict st r d) r d' = with_dict st r d'"
  by (simp_all add: with_dict_def)

lemma with_dict_same: "objects st r = Some d \<Longrightarrow> with_dict st r d = st"
  by (cases st) (auto simp: with_dict_def fun_eq_iff)

lemma dict_set_with_dict:
  "objects st r = Some D \<Longrightarrow> dict_set r key v st = with_dict st r (D(key \<mapsto> v))"
  by (cases st) (simp add: dict_set_def with_dict_def)

lemma three_writes:
  assumes "objects st r = Some D"
  shows "dict_set r ''baseline'' (Baseline baseline)
       (dict_set r (name @ ''_accuracy'') (Metric validate_accuracy)
       (dict_set r name (Table validate_res) st))
     = with_dict st r (D ++ class_entries name validate_res validate_accuracy baseline)"
proof -
  have "D ++ class_entries name validate_res validate_accuracy baseline
      = D(name \<mapsto> Table validate_res, name @ ''_accuracy'' \<mapsto> Metric validate_accuracy,
          ''baseline'' \<mapsto> Baseline baseline)"
    unfolding class_entries_def by (simp only: map_add_upd map_add_empty)
  then show ?thesis
    using assms by (simp only: dict_set_with_dict with_dict_simps)
qed

lemma class_models_loop_writes:
  assumes "objects st r = Some D"
  shows "class_models_loop tvt ms target ftu fts r st =
     bind_exc (class_writes tvt ms target ftu fts) (\<lambda>W. Inr (with_dict st r (D ++ W)))"
  using assms
proof (induction ms arbitrary: st D)
  case Nil
  then show ?case by (simp add: with_dict_same)
next
  case (Cons m ms)
  show ?case
  proof (cases "rolling_class_run tvt m target ftu fts")
    case (Inl e)
    then show ?thesis by simp
  next
    case (Inr res)
    obtain validate_res validate_accuracy baseline where
      res: "res = (validate_res, validate_accuracy, baseline)" by (cases res)
    let ?w = "class_entries (model_name m) validate_res validate_accuracy baseline"
    have o: "objects (with_dict st r (D ++ ?w)) r = Some (D ++ ?w)" by simp
    show ?thesis
      using Inr res Cons.IH [OF o]
      by (cases "class_writes tvt ms target ftu fts")
        (simp_all add: three_writes [OF Cons.prems] map_add_assoc)
  qed
qed

lemma class_entries_dom:
  "dom (class_entries name validate_res validate_accuracy baseline)
     = {name, name @ ''_accuracy'', ''baseline''}"
  by (auto simp: class_entries_def)

lemma class_writes_dom:
  "class_writes tvt ms target ftu fts = Inr W \<Longrightarrow> dom W = class_keys ms"
proof (induction ms arbitrary: W)
  case Nil
  then show ?case by (simp add: class_keys_def)
next
  case (Cons m ms)
  from Cons.prems obtain validate_res validate_accuracy baseline later where
    "class_writes tvt ms target ftu fts = Inr later"
    and W: "W = class_entries (model_name m) validate_res validate_accuracy baseline ++ later"
    by (auto simp: bind_exc_eq_Inr)
  from Cons.IH [OF this(1)] W show ?case
    by (simp add: class_keys_def class_entries_dom Un_commute)
qed

text \<open>
  After the outer loop the dictionary holds the writes for the last asset, and nothing
  else, if it held no other keys before.
\<close>

lemma class_assets_loop_last:
  assumes "class_assets_loop (sd @ [(k, tvt)]) ms target ftu fts r apr st = Inr (apr', st')"
    and "objects st r = Some D" and "dom D \<subseteq> class_keys ms"
  shows "\<exists>W. class_writes tvt ms target ftu fts = Inr W \<and> st' = with_dict st r W"
  using assms
proof (induction sd arbitrary: apr st D)
  case Nil
  from Nil.prems(1) obtain W where
    W: "class_writes tvt ms target ftu fts = Inr W"
    and st': "st' = with_dict st r (D ++ W)"
    by (auto simp: class_models_loop_writes [OF Nil.prems(2)] bind_exc_eq_Inr)
  have "dom D \<subseteq> dom W" using class_writes_dom [OF W] Nil.prems(3) by simp
  then have "D ++ W = W"
    by (intro ext) (auto simp: map_add_def split: option.splits)
  with st' have "st' = with_dict st r W" by simp
  with W show ?case by blast
next
  case (Cons kv rest)
  obtain k0 tvt0 where kv: "kv = (k0, tvt0)" by (cases kv)
  from Cons.prems(1) obtain W0 where
    W0: "class_writes tvt0 ms target ftu fts = Inr W0"
    and outer: "class_assets_loop (rest @ [(k, tvt)]) ms target ftu fts r (apr(k0 \<mapsto> r))
                 (with_dict st r (D ++ W0)) = Inr (apr', st')"
    by (auto simp: kv class_models_loop_writes [OF Cons.prems(2)] bind_exc_eq_Inr)
  have d: "dom (D ++ W0) \<subseteq> class_keys ms"
    using class_writes_dom [OF W0] Cons.prems(3) by auto
  from Cons.IH [OF outer _ d] show ?case by auto
qed

text \<open>
  Claim C10. In \<open>rolling_class_models\<close> the results dictionary is created once, before
  the loop over the assets, so the returned dictionary assigns every asset key the same
  reference. The entries do not accumulate: every asset writes under the same keys (model
  name, model name with \<open>_accuracy\<close>, \<open>baseline\<close>), so what the shared dictionary
  holds in the end is what the last asset has written, and the run returns the store that
  a run on the last asset alone returns. The results of the assets before the last are
  lost; \<open>rolling_reg_models\<close> creates its dictionary inside the loop and keeps them.
\<close>

theorem class_results_shared:
  assumes "rolling_class_models (split_data @ [(k, tvt)]) class_models target features_to_use
             features_to_scale = Inr (all_product_class_results, st)"
  shows "(\<forall>k1 \<in> fst ` set (split_data @ [(k, tvt)]). all_product_class_results k1 = Some 0)
       \<and> (\<exists>apr1. rolling_class_models [(k, tvt)] class_models target features_to_use
                    features_to_scale = Inr (apr1, st))"
proof -
  let ?st0 = "snd (new_dict empty_store)"
  have r0: "fst (new_dict empty_store) = 0" and o0: "objects ?st0 0 = Some Map.empty"
    by (simp_all add: new_dict_def empty_store_def)
  from assms have loop: "class_assets_loop (split_data @ [(k, tvt)]) class_models target
      features_to_use features_to_scale 0 Map.empty ?st0 = Inr (all_product_class_results, st)"
    by (simp add: rolling_class_models_def split_def r0)
  from class_assets_loop_last [OF loop o0] obtain W where
    W: "class_writes tvt class_models target features_to_use features_to_scale = Inr W"
    and st: "st = with_dict ?st0 0 W" by auto
  have "class_assets_loop [(k, tvt)] class_models target features_to_use features_to_scale 0
      Map.empty ?st0 = Inr ([k \<mapsto> 0], st)"
    using W st by (simp add: class_models_loop_writes [OF o0])
  then have "rolling_class_models [(k, tvt)] class_models target features_to_use
      features_to_scale = Inr ([k \<mapsto> 0], st)"
    by (simp add: rolling_class_models_def split_def r0)
  with class_assets_loop_refs [OF loop] show ?thesis by auto
qed


lemmas ex_class_defs_B = ex_class_store_B_def ex_class_dict_B_def ex_class_table_B_def
  ex_baseline_B_def ex_validate_B_def

lemma ex_rolling_class_models_AB:
  "rolling_class_models
     ([(''A'', (ex_train, ex_validate, ex_test))] @ [(''B'', (ex_train, ex_validate_B, ex_test))])
     [ex_classifier] ''fwd_close_positive'' [''x''] [''x'']
     = Inr ([''A'' \<mapsto> 0, ''B'' \<mapsto> 0], ex_class_store_B)"
  by (simp add: ex_class_defs_B ex_class_defs run_defs rolling_defs ex_inputs scale_defs
      frame_defs arith_defs)

text \<open>
  Claim C10 on the assets \<open>A\<close> and \<open>B\<close>: the one dictionary that both keys refer to
  holds the table and the baseline of \<open>B\<close>; the table and the baseline that were
  computed for \<open>A\<close>, the asset handled before, are not in it.
\<close>

theorem class_results_hold_last_asset_only:
  "rolling_class_models
     ([(''A'', (ex_train, ex_validate, ex_test))] @ [(''B'', (ex_train, ex_validate_B, ex_test))])
     [ex_classifier] ''fwd_close_positive'' [''x''] [''x'']
     = Inr ([''A'' \<mapsto> 0, ''B'' \<mapsto> 0], ex_class_store_B)
   \<and> rolling_class_models [(''A'', (ex_train, ex_validate, ex_test))] [ex_classifier]
       ''fwd_close_positive'' [''x''] [''x''] = Inr ([''A'' \<mapsto> 0], ex_class_store)
   \<and> objects ex_class_store 0 = Some ex_class_dict
   \<and> ex_class_dict ''Sign'' = Some (Table ex_class_table)
   \<and> ex_class_dict ''baseline'' = Some (Baseline ex_baseline)
   \<and> objects ex_class_store_B 0 = Some ex_class_dict_B
   \<and> ex_class_dict_B ''Sign'' = Some (Table ex_class_table_B)
   \<and> Table ex_class_table \<notin> ran ex_class_dict_B
   \<and> Baseline ex_baseline \<notin> ran ex_class_dict_B"
proof -
  have "Table ex_class_table \<notin> ran ex_class_dict_B"
    and "Baseline ex_baseline \<notin> ran ex_class_dict_B"
    by (auto simp: ran_def ex_class_dict_B_def ex_class_table_def ex_class_table_B_def
        ex_baseline_def ex_baseline_B_def split: if_splits)
  then show ?thesis
    using ex_rolling_class_models_AB ex_rolling_class_models
    by (simp add: ex_class_store_def ex_class_store_B_def ex_class_dict_def ex_class_dict_B_def)
qed

theorem class_results_shared_witness:
  "rolling_class_models
     ([(''A'', (ex_train, ex_validate, ex_test))] @ [(''B'', (ex_train, ex_validate_B, ex_test))])
     [ex_classifier] ''fwd_close_positive'' [''x''] [''x'']
     = Inr ([''A'' \<mapsto> 0, ''B'' \<mapsto> 0], ex_class_store_B)
   \<and> [''A'' \<mapsto> 0, ''B'' \<mapsto> (0::nat)] ''A'' = Some 0
   \<and> [''A'' \<mapsto> 0, ''B'' \<mapsto> (0::nat)] ''B'' = Some 0
   \<and> (\<exists>apr1. rolling_class_models [(''B'', (ex_train, ex_validate_B, ex_test))] [ex_classifier]
                ''fwd_close_positive'' [''x''] [''x''] = Inr (apr1, ex_class_store_B))"
proof -
  have "''A'' \<in> fst ` set ([(''A'', (ex_train, ex_validate, ex_test))]
                          @ [(''B'', (ex_train, ex_validate_B, ex_test))])"
    and "''B'' \<in> fst ` set ([(''A'', (ex_train, ex_validate, ex_test))]
                          @ [(''B'', (ex_train, ex_validate_B, ex_test))])"
    by simp_all
  with class_results_shared [OF ex_rolling_class_models_AB] ex_rolling_class_models_AB
  show ?thesis by blast
qed

section \<open>The aggregates of a rolling run\<close>

lemma map_exc_Inr:
  "map_exc f xs = Inr ys \<Longrightarrow> length ys = length xs \<and> (\<forall>i < length xs. f (xs ! i) = Inr (ys ! i))"
proof (induction xs arbitrary: ys)
  case Nil
  then show ?case by simp
next
  case (Cons x xs)
  from Cons.prems obtain y ys' where y: "f x = Inr y" and ys': "map_exc f xs = Inr ys'"
    and ys: "ys = y # ys'"
    by (auto simp: bind_exc_eq_Inr)
  from Cons.IH [OF ys'] y ys show ?case
    by (auto simp: nth_Cons split: nat.splits)
qed

text \<open>What a pass appends to the four lists.\<close>

lemma rolling_step_lists:
  assumes "rolling_step est target st (xrow, yrow) = Inr st'"
  shows "length (train_rolling_predictions st') = Suc (length (train_rolling_predictions st))"
    and "\<exists>a. train_rolling_actuals st' = train_rolling_actuals st @ [a]
           \<and> length a = length (rows (y_window st))"
    and "length (validate_rolling_predictions st') = Suc (length (validate_rolling_predictions st))"
    and "validate_rolling_actuals st' = validate_rolling_actuals st @ [cell_at (snd yrow) target]"
  using assms
  by (auto simp: rolling_step_def bind_exc_eq_Inr get_column_Inr)

lemma rolling_loop_lists:
  assumes "rolling_loop est target passes st0 = Inr st"
    and "rows (y_window st0) \<noteq> []"
    and "\<forall>a \<in> set (train_rolling_actuals st0). length a = length (rows (y_window st0))"
  shows "length (train_rolling_predictions st)
           = length (train_rolling_predictions st0) + length passes
       \<and> length (train_rolling_actuals st) = length (train_rolling_actuals st0) + length passes
       \<and> length (validate_rolling_predictions st)
           = length (validate_rolling_predictions st0) + length passes
       \<and> validate_rolling_actuals st
           = validate_rolling_actuals st0 @ map (\<lambda>p. cell_at (snd (snd p)) target) passes
       \<and> (\<forall>a \<in> set (train_rolling_actuals st). length a = length (rows (y_window st0)))
       \<and> length (rows (y_window st)) = length (rows (y_window st0))"
  using assms
proof (induction passes arbitrary: st0)
  case Nil
  then show ?case by simp
next
  case (Cons p passes)
  obtain xrow yrow where p: "p = (xrow, yrow)" by (cases p)
  from Cons.prems(1) obtain s1 where
    step: "rolling_step est target st0 (xrow, yrow) = Inr s1"
    and rest: "rolling_loop est target passes s1 = Inr st"
    by (auto simp: p bind_exc_eq_Inr)
  have yl: "length (rows (y_window s1)) = length (rows (y_window st0))"
    using rolling_step_windows(2) [OF step] Cons.prems(2)
    by (cases "rows (y_window st0)") simp_all
  then have ne1: "rows (y_window s1) \<noteq> []" using Cons.prems(2) by (metis length_0_conv)
  from rolling_step_lists(2) [OF step] Cons.prems(3) yl
  have inv1: "\<forall>a \<in> set (train_rolling_actuals s1). length a = length (rows (y_window s1))"
    by auto
  from Cons.IH [OF rest ne1 inv1] rolling_step_lists [OF step] yl
  show ?case by (auto simp: p)
qed

text \<open>The lists that a rolling run returns.\<close>

lemma get_rolling_predictions_lists:
  assumes "get_rolling_predictions train validate test est target ftu fts pfs
             = Inr (train_preds, train_acts, validate_preds, validate_acts)"
  shows "length train_preds = length (rows validate)"
    and "length train_acts = length (rows validate)"
    and "length validate_preds = length (rows validate)"
    and "validate_acts = map (\<lambda>r. cell_at (snd r) target) (rows validate)"
    and "\<forall>a \<in> set train_acts. length a = length (rows train)"
proof -
  from assms obtain st0 passes st where
    start: "rolling_start train validate test est target ftu fts pfs = Inr (st0, passes)"
    and loop: "rolling_loop est target passes st0 = Inr st"
    and res: "train_preds = train_rolling_predictions st" "train_acts = train_rolling_actuals st"
      "validate_preds = validate_rolling_predictions st"
      "validate_acts = validate_rolling_actuals st"
    by (auto simp: get_rolling_predictions_def bind_exc_eq_Inr)
  have empty: "train_rolling_predictions st0 = []" "train_rolling_actuals st0 = []"
    "validate_rolling_predictions st0 = []" "validate_rolling_actuals st0 = []"
    using start by (auto simp: rolling_start_def bind_exc_eq_Inr)
  have ly: "length (rows (y_window st0)) = length (rows train)"
    using rolling_start_index(2) [OF start] by (metis length_map)
  have acts: "map (\<lambda>p. cell_at (snd (snd p)) target) passes
      = map (\<lambda>r. cell_at (snd r) target) (rows validate)"
  proof -
    have "map (\<lambda>p. cell_at (snd (snd p)) target) passes
        = map (\<lambda>r. cell_at (snd r) target) (map snd passes)" by simp
    also have "\<dots> = map (\<lambda>r. cell_at (snd r) target) (rows validate)"
      unfolding rolling_start_index(4) [OF start]
      by (simp add: split_def cell_at_def)
    finally show ?thesis .
  qed
  from rolling_loop_lists [OF loop rolling_start_nonempty(2) [OF start]] empty
    rolling_start_length [OF start] ly acts res
  show "length train_preds = length (rows validate)"
    and "length train_acts = length (rows validate)"
    and "length validate_preds = length (rows validate)"
    and "validate_acts = map (\<lambda>r. cell_at (snd r) target) (rows validate)"
    and "\<forall>a \<in> set train_acts. length a = length (rows train)"
    by simp_all
qed

lemma trade_table_columns:
  assumes "trade_table validate acts preds = Inr tbl"
  obtains predictions where "first_elems preds = Inr predictions"
    "length predictions = length acts" "length acts = length (rows validate)"
    "map t_index tbl = map fst (rows validate)"
    "map t_predictions tbl = predictions" "map t_actual tbl = acts"
proof -
  from assms obtain predictions where
    f: "first_elems preds = Inr predictions"
    and rest: "(if length predictions \<noteq> length acts then Inl ValueError
     else if length (rows validate) \<noteq> length acts then Inl ValueError
     else bind_exc (get_attr validate ''close'') (\<lambda>close.
       let closes = map snd close; next_day_close = shift_m1 closes
       in Inr (map (\<lambda>i.
            case trade_fields (closes ! i) (next_day_close ! i) (predictions ! i) of
              (go_long, ret, pct_ret) \<Rightarrow>
                \<lparr>t_index = fst (rows validate ! i),
                 t_actual = acts ! i,
                 t_predictions = predictions ! i,
                 t_close = closes ! i,
                 t_next_day_close = next_day_close ! i,
                 t_go_long = go_long, t_ret = ret, t_pct_ret = pct_ret\<rparr>)
            [0..<length (rows validate)]))) = Inr tbl"
    unfolding trade_table_def by (rule bind_exc_InrE)
  from rest have l: "length predictions = length acts" "length (rows validate) = length acts"
    by (auto split: if_splits)
  have "map t_index tbl = map fst (rows validate)"
    and "map t_predictions tbl = predictions" and "map t_actual tbl = acts"
    using rest l by (auto simp: bind_exc_eq_Inr Let_def split_def intro!: nth_equalityI)
  with f l show ?thesis by (intro that) simp_all
qed

text \<open>
  Claim C7, as amended. A regression rolling run yields two aggregated error numbers
  beside the ordered result table: the mean of the in-sample RMSE of every refit, of which
  there is one for each row of Validate, each over a window as long as Train, and one RMSE
  over the whole sequence of out-of-sample predictions, one for each row of Validate in
  order. A classification rolling run yields one number, the accuracy over the sequence
  of out-of-sample predictions, and no in-sample number.
\<close>

theorem rolling_run_aggregates:
  "(rolling_reg_run (train, validate, test) model_under_test target features_to_use
      features_to_scale = Inr (validate_res, validate_rmse, train_rmse)
    \<longrightarrow> (\<exists>train_preds train_acts validate_preds validate_acts train_rmses predictions.
          get_rolling_predictions train validate test model_under_test target features_to_use
            features_to_scale True = Inr (train_preds, train_acts, validate_preds, validate_acts)
        \<and> length train_preds = length (rows validate)
        \<and> length train_acts = length (rows validate)
        \<and> (\<forall>a \<in> set train_acts. length a = length (rows train))
        \<and> length train_rmses = length (rows validate)
        \<and> (\<forall>i < length (rows validate).
              root_mean_squared_error (map snd (train_acts ! i)) (train_preds ! i)
                = Inr (train_rmses ! i))
        \<and> train_rmse = np_mean train_rmses
        \<and> first_elems validate_preds = Inr predictions
        \<and> length predictions = length (rows validate)
        \<and> validate_acts = map (\<lambda>r. cell_at (snd r) target) (rows validate)
        \<and> root_mean_squared_error validate_acts predictions = Inr validate_rmse
        \<and> map t_index validate_res = map fst (rows validate)
        \<and> map t_predictions validate_res = predictions
        \<and> map t_actual validate_res = validate_acts))
   \<and> (rolling_class_run (train, validate, test) model_under_test target features_to_use
        features_to_scale = Inr (validate_res, validate_accuracy, baseline)
    \<longrightarrow> (\<exists>train_preds train_acts validate_preds validate_acts predictions.
          get_rolling_predictions train validate test model_under_test target features_to_use
            features_to_scale False = Inr (train_preds, train_acts, validate_preds, validate_acts)
        \<and> first_elems validate_preds = Inr predictions
        \<and> length predictions = length (rows validate)
        \<and> validate_acts = map (\<lambda>r. cell_at (snd r) target) (rows validate)
        \<and> accuracy_score validate_acts predictions = Inr validate_accuracy
        \<and> map t_index validate_res = map fst (rows validate)
        \<and> map t_predictions validate_res = predictions
        \<and> map t_actual validate_res = validate_acts))"
proof (intro conjI impI)
  assume "rolling_reg_run (train, validate, test) model_under_test target features_to_use
      features_to_scale = Inr (validate_res, validate_rmse, train_rmse)"
  then obtain train_preds train_acts validate_preds validate_acts train_rmses predictions where
    g: "get_rolling_predictions train validate test model_under_test target features_to_use
            features_to_scale True = Inr (train_preds, train_acts, validate_preds, validate_acts)"
    and m: "map_exc (\<lambda>(a, p). root_mean_squared_error (map snd a) p)
                 (zip train_acts train_preds) = Inr train_rmses"
    and f: "first_elems validate_preds = Inr predictions"
    and v: "root_mean_squared_error validate_acts predictions = Inr validate_rmse"
    and t: "trade_table validate validate_acts validate_preds = Inr validate_res"
    and tr: "train_rmse = np_mean train_rmses"
    by (auto simp: rolling_reg_run_def bind_exc_eq_Inr)
  note l = get_rolling_predictions_lists [OF g]
  from map_exc_Inr [OF m] l(1,2) have
    r: "length train_rmses = length (rows validate)"
      "\<forall>i < length (rows validate).
              root_mean_squared_error (map snd (train_acts ! i)) (train_preds ! i)
                = Inr (train_rmses ! i)"
    by auto
  from t f have "length predictions = length (rows validate)
        \<and> map t_index validate_res = map fst (rows validate)
        \<and> map t_predictions validate_res = predictions
        \<and> map t_actual validate_res = validate_acts"
    by (elim trade_table_columns) simp
  with g l r tr f v
  show "\<exists>train_preds train_acts validate_preds validate_acts train_rmses predictions.
          get_rolling_predictions train validate test model_under_test target features_to_use
            features_to_scale True = Inr (train_preds, train_acts, validate_preds, validate_acts)
        \<and> length train_preds = length (rows validate)
        \<and> length train_acts = length (rows validate)
        \<and> (\<forall>a \<in> set train_acts. length a = length (rows train))
        \<and> length train_rmses = length (rows validate)
        \<and> (\<forall>i < length (rows validate).
              root_mean_squared_error (map snd (train_acts ! i)) (train_preds ! i)
                = Inr (train_rmses ! i))
        \<and> train_rmse = np_mean train_rmses
        \<and> first_elems validate_preds = Inr predictions
        \<and> length predictions = length (rows validate)
        \<and> validate_acts = map (\<lambda>r. cell_at (snd r) target) (rows validate)
        \<and> root_mean_squared_error validate_acts predictions = Inr validate_rmse
        \<and> map t_index validate_res = map fst (rows validate)
        \<and> map t_predictions validate_res = predictions
        \<and> map t_actual validate_res = validate_acts"
    by blast
next
  assume "rolling_class_run (train, validate, test) model_under_test target features_to_use
        features_to_scale = Inr (validate_res, validate_accuracy, baseline)"
  then obtain train_preds train_acts validate_preds validate_acts predictions where
    g: "get_rolling_predictions train validate test model_under_test target features_to_use
            features_to_scale False = Inr (train_preds, train_acts, validate_preds, validate_acts)"
    and f: "first_elems validate_preds = Inr predictions"
    and v: "accuracy_score validate_acts predictions = Inr validate_accuracy"
    and t: "trade_table validate validate_acts validate_preds = Inr validate_res"
    by (auto simp: rolling_class_run_def bind_exc_eq_Inr)
  note l = get_rolling_predictions_lists [OF g]
  from t f have "length predictions = length (rows validate)
        \<and> map t_index validate_res = map fst (rows validate)
        \<and> map t_predictions validate_res = predictions
        \<and> map t_actual validate_res = validate_acts"
    by (elim trade_table_columns) simp
  with g l f v
  show "\<exists>train_preds train_acts validate_preds validate_acts predictions.
          get_rolling_predictions train validate test model_under_test target features_to_use
            features_to_scale False = Inr (train_preds, train_acts, validate_preds, validate_acts)
        \<and> first_elems validate_preds = Inr predictions
        \<and> length predictions = length (rows validate)
        \<and> validate_acts = map (\<lambda>r. cell_at (snd r) target) (rows validate)
        \<and> accuracy_score validate_acts predictions = Inr validate_accuracy
        \<and> map t_index validate_res = map fst (rows validate)
        \<and> map t_predictions validate_res = predictions
        \<and> map t_actual validate_res = validate_acts"
    by blast
qed

lemma ex_get_rolling_predictions3:
  "get_rolling_predictions ex_train ex_validate3 ex_test3 ex_model ''fwd_log_ret'' ex_features
     ex_features True
   = Inr ([[Num (- 1), Num 1], [Num 1, Num (1 / 50)], [Num (1 / 50), Num (- (1 / 100))]],
          [[(1, Num (3 / 50)), (2, Num (1 / 20))], [(2, Num (1 / 20)), (3, Num (1 / 25))],
           [(3, Num (1 / 25)), (4, Num (- (1 / 20)))]],
          [[Num (1 / 50)], [Num (- (1 / 100))], [Num (1 / 25)]],
          [Num (1 / 25), Num (- (1 / 20)), Num (3 / 50)])"
  by (simp add: ex_validate3_def ex_test3_def run_defs rolling_defs ex_inputs scale_defs
      frame_defs arith_defs)

lemma ex_rolling_reg_run3:
  "rolling_reg_run (ex_train, ex_validate3, ex_test3) ex_model ''fwd_log_ret'' ex_features
     ex_features
   = Inr (ex_reg_table3, Num (sqrt (1 / 1250)),
          Num ((sqrt (20261 / 20000) + sqrt (9029 / 20000) + sqrt (1 / 1000)) / 3))"
  by (simp add: ex_reg_table3_def ex_validate3_def ex_test3_def run_defs rolling_defs ex_inputs
      scale_defs frame_defs arith_defs)

lemma ex_refit_errors:
  "root_mean_squared_error [Num (3 / 50), Num (1 / 20)] [Num (- 1), Num 1]
     = Inr (Num (sqrt (20261 / 20000)))"
  "root_mean_squared_error [Num (1 / 20), Num (1 / 25)] [Num 1, Num (1 / 50)]
     = Inr (Num (sqrt (9029 / 20000)))"
  "root_mean_squared_error [Num (1 / 25), Num (- (1 / 20))] [Num (1 / 50), Num (- (1 / 100))]
     = Inr (Num (sqrt (1 / 1000)))"
  by (simp_all add: root_mean_squared_error_def mean_squared_error_def arith_defs)

lemma ex_class_rolling_predictions:
  "get_rolling_predictions ex_train ex_validate ex_test ex_classifier ''fwd_close_positive''
     [''x''] [''x''] False
   = Inr ([[Bool False, Bool True], [Bool True, Bool True]],
          [[(1, Bool True), (2, Bool True)], [(2, Bool True), (3, Bool True)]],
          [[Bool True], [Bool False]], [Bool True, Bool False])"
  by (simp add: ex_class_defs run_defs rolling_defs ex_inputs scale_defs frame_defs arith_defs)

lemma ex_rolling_class_run:
  "rolling_class_run (ex_train, ex_validate, ex_test) ex_classifier ''fwd_close_positive''
     [''x''] [''x'']
   = Inr (ex_class_table, Num 1, ex_baseline)"
  by (simp add: ex_class_defs run_defs rolling_defs ex_inputs scale_defs frame_defs arith_defs)

lemma ex_refit_accuracies:
  "accuracy_score [Bool True, Bool True] [Bool False, Bool True] = Inr (Num (1 / 2))"
  "accuracy_score [Bool True, Bool True] [Bool True, Bool True] = Inr (Num 1)"
  "np_mean [Num (1 / 2), Num 1] = Num (3 / 4)"
  by (simp_all add: accuracy_score_def cell_eq_def arith_defs)

lemma ex_class_dict_metrics:
  "dom ex_class_dict = {''Sign'', ''Sign_accuracy'', ''baseline''}"
  "ex_class_dict ''Sign_accuracy'' = Some (Metric (Num 1))"
  "Metric (Num (3 / 4)) \<notin> ran ex_class_dict"
  by (auto simp: ex_class_dict_def ran_def split: if_splits)

text \<open>
  Claim C7 as stated fails on the code. With two rows in Train and three rows in
  Validate the regression run fits the model three times, not twice, each time on a window
  of two rows, and its in-sample number is the mean of the three RMSEs. The
  classification run on the small asset fits twice; the accuracies of its two fits in
  sample are 1/2 and 1, with the mean 3/4, but the dictionary of the run holds three
  entries, the table, the baseline and the accuracy 1 of the out-of-sample sequence: no
  in-sample accuracy is computed.
\<close>

theorem rolling_run_refits_per_validate_row:
  "length (rows ex_train) = 2 \<and> length (rows ex_validate3) = 3
   \<and> get_rolling_predictions ex_train ex_validate3 ex_test3 ex_model ''fwd_log_ret'' ex_features
       ex_features True
     = Inr ([[Num (- 1), Num 1], [Num 1, Num (1 / 50)], [Num (1 / 50), Num (- (1 / 100))]],
            [[(1, Num (3 / 50)), (2, Num (1 / 20))], [(2, Num (1 / 20)), (3, Num (1 / 25))],
             [(3, Num (1 / 25)), (4, Num (- (1 / 20)))]],
            [[Num (1 / 50)], [Num (- (1 / 100))], [Num (1 / 25)]],
            [Num (1 / 25), Num (- (1 / 20)), Num (3 / 50)])
   \<and> root_mean_squared_error [Num (3 / 50), Num (1 / 20)] [Num (- 1), Num 1]
     = Inr (Num (sqrt (20261 / 20000)))
   \<and> root_mean_squared_error [Num (1 / 20), Num (1 / 25)] [Num 1, Num (1 / 50)]
     = Inr (Num (sqrt (9029 / 20000)))
   \<and> root_mean_squared_error [Num (1 / 25), Num (- (1 / 20))] [Num (1 / 50), Num (- (1 / 100))]
     = Inr (Num (sqrt (1 / 1000)))
   \<and> rolling_reg_run (ex_train, ex_validate3, ex_test3) ex_model ''fwd_log_ret'' ex_features
       ex_features
     = Inr (ex_reg_table3, Num (sqrt (1 / 1250)),
            Num ((sqrt (20261 / 20000) + sqrt (9029 / 20000) + sqrt (1 / 1000)) / 3))
   \<and> get_rolling_predictions ex_train ex_validate ex_test ex_classifier ''fwd_close_positive''
       [''x''] [''x''] False
     = Inr ([[Bool False, Bool True], [Bool True, Bool True]],
            [[(1, Bool True), (2, Bool True)], [(2, Bool True), (3, Bool True)]],
            [[Bool True], [Bool False]], [Bool True, Bool False])
   \<and> accuracy_score [Bool True, Bool True] [Bool False, Bool True] = Inr (Num (1 / 2))
   \<and> accuracy_score [Bool True, Bool True] [Bool True, Bool True] = Inr (Num 1)
   \<and> np_mean [Num (1 / 2), Num 1] = Num (3 / 4)
   \<and> rolling_class_models [(''A'', (ex_train, ex_validate, ex_test))] [ex_classifier]
       ''fwd_close_positive'' [''x''] [''x''] = Inr ([''A'' \<mapsto> 0], ex_class_store)
   \<and> objects ex_class_store 0 = Some ex_class_dict
   \<and> dom ex_class_dict = {''Sign'', ''Sign_accuracy'', ''baseline''}
   \<and> ex_class_dict ''Sign_accuracy'' = Some (Metric (Num 1))
   \<and> Metric (Num (3 / 4)) \<notin> ran ex_class_dict"
  using ex_get_rolling_predictions3 ex_rolling_reg_run3 ex_refit_errors
    ex_class_rolling_predictions ex_refit_accuracies ex_rolling_class_models
    ex_class_dict_metrics
  by (simp add: ex_inputs ex_validate3_def ex_class_store_def)

theorem rolling_run_aggregates_witness:
  "rolling_reg_run (ex_train, ex_validate3, ex_test3) ex_model ''fwd_log_ret'' ex_features
     ex_features
     = Inr (ex_reg_table3, Num (sqrt (1 / 1250)),
            Num ((sqrt (20261 / 20000) + sqrt (9029 / 20000) + sqrt (1 / 1000)) / 3))
   \<and> length (rows ex_validate3) = 3
   \<and> (\<exists>train_preds train_acts validate_preds validate_acts train_rmses predictions.
          get_rolling_predictions ex_train ex_validate3 ex_test3 ex_model ''fwd_log_ret''
            ex_features ex_features True
            = Inr (train_preds, train_acts, validate_preds, validate_acts)
        \<and> length train_preds = length (rows ex_validate3)
        \<and> length train_rmses = length (rows ex_validate3)
        \<and> Num ((sqrt (20261 / 20000) + sqrt (9029 / 20000) + sqrt (1 / 1000)) / 3)
            = np_mean train_rmses
        \<and> first_elems validate_preds = Inr predictions
        \<and> length predictions = length (rows ex_validate3)
        \<and> root_mean_squared_error validate_acts predictions = Inr (Num (sqrt (1 / 1250)))
        \<and> map t_predictions ex_reg_table3 = predictions)
   \<and> rolling_class_run (ex_train, ex_validate, ex_test) ex_classifier ''fwd_close_positive''
       [''x''] [''x''] = Inr (ex_class_table, Num 1, ex_baseline)
   \<and> (\<exists>train_preds train_acts validate_preds validate_acts predictions.
          get_rolling_predictions ex_train ex_validate ex_test ex_classifier
            ''fwd_close_positive'' [''x''] [''x''] False
            = Inr (train_preds, train_acts, validate_preds, validate_acts)
        \<and> first_elems validate_preds = Inr predictions
        \<and> length predictions = length (rows ex_validate)
        \<and> accuracy_score validate_acts predictions = Inr (Num 1))"
proof -
  note reg = rolling_run_aggregates [of ex_train ex_validate3 ex_test3 ex_model "''fwd_log_ret''"
      ex_features ex_features ex_reg_table3 "Num (sqrt (1 / 1250))"
      "Num ((sqrt (20261 / 20000) + sqrt (9029 / 20000) + sqrt (1 / 1000)) / 3)",
      THEN conjunct1, rule_format, OF ex_rolling_reg_run3]
  note cls = rolling_run_aggregates [of ex_train ex_validate ex_test ex_classifier
      "''fwd_close_positive''" "[''x'']" "[''x'']" ex_class_table _ _ "Num 1" ex_baseline,
      THEN conjunct2, rule_format, OF ex_rolling_class_run]
  have len: "length (rows ex_validate3) = 3" by (simp add: ex_validate3_def)
  from reg cls ex_rolling_reg_run3 ex_rolling_class_run len show ?thesis by blast
qed

section \<open>The leaderboard of the conventional split\<close>

text \<open>
  Cells that are null stay null when a frame is brought to other columns, and sorting
  keeps the rows.
\<close>

lemma cell_at_map_cols_if:
  "cell_at (map (\<lambda>c. (c, f c)) cs) c = (if c \<in> set cs then f c else NaN)"
  by (induction cs) (auto simp: cell_at_def)

lemma reindex_columns_null:
  "isna (cell_at m c) \<Longrightarrow> isna (cell_at (snd (reindex_columns cs (i, m))) c)"
  by (simp add: reindex_columns_def cell_at_map_cols_if)

lemma fst_reindex_columns [simp]: "fst (reindex_columns cs r) = fst r"
  by (simp add: reindex_columns_def)

lemma rows_concat_rows:
  "rows (concat_rows a b) = map (reindex_columns (columns (concat_rows a b))) (rows a @ rows b)"
  by (simp add: concat_rows_def Let_def)

lemma concat_rows_all:
  fixes a b :: "'i table"
  assumes "\<And>i m. (i, m) \<in> set (rows a) \<Longrightarrow> P m"
    and "\<And>i m. (i, m) \<in> set (rows b) \<Longrightarrow> P m"
    and "\<And>cs (i :: 'i) m. P m \<Longrightarrow> P (snd (reindex_columns cs (i, m)))"
    and "(i, m) \<in> set (rows (concat_rows a b))"
  shows "P m"
proof -
  from assms(4) obtain r where r: "r \<in> set (rows a) \<union> set (rows b)"
    and eq: "(i, m) = reindex_columns (columns (concat_rows a b)) r"
    by (auto simp: rows_concat_rows)
  obtain j n where jn: "r = (j, n)" by (cases r)
  with r assms(1,2) have "P n" by auto
  then have "P (snd (reindex_columns (columns (concat_rows a b)) (j, n)))" by (rule assms(3))
  with eq jn show ?thesis by (metis snd_conv)
qed

lemma concat_rows_ex:
  fixes a b :: "'i table"
  assumes "(i, m) \<in> set (rows a) \<union> set (rows b)" and "P m"
    and "\<And>cs (i :: 'i) m. P m \<Longrightarrow> P (snd (reindex_columns cs (i, m)))"
  shows "\<exists>m'. (i, m') \<in> set (rows (concat_rows a b)) \<and> P m'"
proof -
  let ?r = "reindex_columns (columns (concat_rows a b)) (i, m)"
  from assms(1) have "?r \<in> set (rows (concat_rows a b))"
    by (auto simp: rows_concat_rows)
  moreover have "fst ?r = i" by simp
  moreover from assms(2) have "P (snd ?r)" by (rule assms(3))
  ultimately show ?thesis by (metis prod.collapse)
qed

lemma set_insert_desc: "set (insert_desc cs x ys) = insert x (set ys)"
  by (induction ys) auto

lemma set_sort_desc: "set (sort_desc cs xs) = set xs"
  by (induction xs) (simp_all add: sort_desc_def set_insert_desc)

lemma sort_values_desc_Inr:
  "sort_values_desc df cs = Inr t \<Longrightarrow> set (rows t) = set (rows df) \<and> columns t = columns df"
  by (auto simp: sort_values_desc_def set_sort_desc split: if_splits)

lemma avg_trade_frame_cells:
  assumes "avg_trade_frame names v t a p mv mt = Inr f" and "(i, m) \<in> set (rows f)"
    and "c \<notin> {''avg_trade'', ''pct_avg_trade'', v, t}"
  shows "cell_at m c = NaN"
  using assms by (auto simp: avg_trade_frame_def cell_at_def split: if_splits)

lemma sorted_frame_rows:
  assumes "avg_trade_frame names v t a p mv mt = Inr atm"
    and "sort_values_desc (concat_rows atm \<lparr>columns = bc, rows = [(bi, bm)]\<rparr>) cs = Inr res"
    and "c \<notin> {''avg_trade'', ''pct_avg_trade'', v, t}" and "isna (cell_at bm c)"
    and "(i, m) \<in> set (rows res)"
  shows "isna (cell_at m c)"
proof -
  from assms(2,5)
  have "(i, m) \<in> set (rows (concat_rows atm \<lparr>columns = bc, rows = [(bi, bm)]\<rparr>))"
    by (simp add: sort_values_desc_Inr)
  then show ?thesis
  proof (rule concat_rows_all [rotated 3])
    fix j n assume "(j, n) \<in> set (rows atm)"
    then have "cell_at n c = NaN" by (rule avg_trade_frame_cells [OF assms(1) _ assms(3)])
    then show "isna (cell_at n c)" by simp
  next
    fix j n assume "(j, n) \<in> set (rows \<lparr>columns = bc, rows = [(bi, bm)]\<rparr>)"
    with assms(4) show "isna (cell_at n c)" by simp
  next
    fix cs' and j :: string and n
    assume "isna (cell_at n c)"
    then show "isna (cell_at (snd (reindex_columns cs' (j, n))) c)" by (rule reindex_columns_null)
  qed
qed

lemma sorted_frame_baseline:
  fixes atm :: "string table"
  assumes "sort_values_desc (concat_rows atm \<lparr>columns = bc, rows = [(bi, bm)]\<rparr>) cs = Inr res"
    and "P bm" and "\<And>cs (i :: string) m. P m \<Longrightarrow> P (snd (reindex_columns cs (i, m)))"
  shows "\<exists>m. (bi, m) \<in> set (rows res) \<and> P m"
proof -
  have "(bi, bm) \<in> set (rows atm) \<union> set (rows \<lparr>columns = bc, rows = [(bi, bm)]\<rparr>)" by simp
  from concat_rows_ex [of bi bm atm _ P, OF this assms(2,3)] assms(1)
  show ?thesis by (simp add: sort_values_desc_Inr)
qed

lemma both_null_reindex: "both_null m \<Longrightarrow> both_null (snd (reindex_columns cs (i, m)))"
  by (simp add: both_null_def reindex_columns_null)

lemma one_null_reindex: "one_null m \<Longrightarrow> one_null (snd (reindex_columns cs (i, m)))"
  by (auto simp: one_null_def intro: reindex_columns_null)

lemma calculate_regression_results_rows:
  assumes "calculate_regression_results models rt rv validate yv = Inr (t, v)"
  shows "(i, m) \<in> set (rows t) \<Longrightarrow> isna (cell_at m ''train_accuracy'')"
    and "\<exists>m. (''baseline_reg'', m) \<in> set (rows t) \<and> both_null m"
proof -
  from assms obtain a p mv mt atm x y where
    atm: "avg_trade_frame (map model_name models) ''validate_rmse'' ''train_rmse'' a p mv mt
            = Inr atm"
    and t: "sort_values_desc
              (concat_rows atm
                 \<lparr>columns = [''avg_trade'', ''pct_avg_trade'', ''validate_rmse'', ''train_rmse''],
                  rows = [(''baseline_reg'',
                           [(''avg_trade'', x), (''pct_avg_trade'', y),
                            (''validate_rmse'', NaN), (''train_rmse'', NaN)])]\<rparr>)
              [''pct_avg_trade''] = Inr t"
    by (auto simp: calculate_regression_results_def bind_exc_eq_Inr split: prod.splits)
  show "(i, m) \<in> set (rows t) \<Longrightarrow> isna (cell_at m ''train_accuracy'')"
    by (rule sorted_frame_rows [OF atm t]) (simp_all add: cell_at_def)
  show "\<exists>m. (''baseline_reg'', m) \<in> set (rows t) \<and> both_null m"
    by (rule sorted_frame_baseline [where P = both_null, OF t _ both_null_reindex])
      (simp add: both_null_def cell_at_def)
qed

lemma calculate_classification_results_rows:
  assumes "calculate_classification_results models atr avl validate yv = Inr (t, v)"
    and "(i, m) \<in> set (rows t)"
  shows "isna (cell_at m ''train_rmse'')"
proof -
  from assms(1) obtain a p mv mt atm x y bv bt where
    atm: "avg_trade_frame (map model_name models) ''validate_accuracy'' ''train_accuracy'' a p mv mt
            = Inr atm"
    and t: "sort_values_desc
              (concat_rows atm
                 \<lparr>columns = [''avg_trade'', ''pct_avg_trade'', ''validate_accuracy'',
                             ''train_accuracy''],
                  rows = [(''baseline_class'',
                           [(''avg_trade'', x), (''pct_avg_trade'', y),
                            (''validate_accuracy'', bv), (''train_accuracy'', bt)])]\<rparr>)
              [''pct_avg_trade''] = Inr t"
    by (auto simp: calculate_classification_results_def bind_exc_eq_Inr split: prod.splits)
  from assms(2) show ?thesis
    by (rule sorted_frame_rows [OF atm t, rotated 2]) (simp_all add: cell_at_def)
qed

lemma conventional_asset_rows:
  assumes "conventional_asset reg_models class_models fu fs tvt = Inr (avg, reg_v, class_v)"
  shows "(i, m) \<in> set (rows avg) \<Longrightarrow> one_null m"
    and "\<exists>m. (''baseline_reg'', m) \<in> set (rows avg) \<and> both_null m"
proof -
  from assms obtain rt rv validate yv reg_t atr avl yvc class_t where
    reg: "calculate_regression_results reg_models rt rv validate yv = Inr (reg_t, reg_v)"
    and cls: "calculate_classification_results class_models atr avl validate yvc
                = Inr (class_t, class_v)"
    and avg: "sort_values_desc (concat_rows reg_t class_t) [''pct_avg_trade''] = Inr avg"
    by (auto simp: conventional_asset_def bind_exc_eq_Inr split: prod.splits)
  from avg have rows: "set (rows avg) = set (rows (concat_rows reg_t class_t))"
    by (simp add: sort_values_desc_Inr)
  show "one_null m" if "(i, m) \<in> set (rows avg)"
  proof -
    from that rows have "(i, m) \<in> set (rows (concat_rows reg_t class_t))" by simp
    then show ?thesis
    proof (rule concat_rows_all [rotated 3])
      fix j n assume "(j, n) \<in> set (rows reg_t)"
      then show "one_null n"
        using calculate_regression_results_rows(1) [OF reg] by (simp add: one_null_def)
    next
      fix j n assume "(j, n) \<in> set (rows class_t)"
      then show "one_null n"
        using calculate_classification_results_rows [OF cls] by (simp add: one_null_def)
    next
      fix cs' and j :: string and n
      assume "one_null n"
      then show "one_null (snd (reindex_columns cs' (j, n)))" by (rule one_null_reindex)
    qed
  qed
  from calculate_regression_results_rows(2) [OF reg]
  obtain bm where bm: "(''baseline_reg'', bm) \<in> set (rows reg_t)" "both_null bm" by blast
  then have "(''baseline_reg'', bm) \<in> set (rows reg_t) \<union> set (rows class_t)" by simp
  from concat_rows_ex [of _ _ _ _ both_null, OF this bm(2) both_null_reindex] rows
  show "\<exists>m. (''baseline_reg'', m) \<in> set (rows avg) \<and> both_null m" by simp
qed

lemma map_exc_set:
  assumes "map_exc f xs = Inr ys"
  shows "y \<in> set ys \<Longrightarrow> \<exists>x \<in> set xs. f x = Inr y"
    and "x \<in> set xs \<Longrightarrow> \<exists>y \<in> set ys. f x = Inr y"
proof -
  from map_exc_Inr [OF assms]
  have len: "length ys = length xs" and nth: "\<And>i. i < length xs \<Longrightarrow> f (xs ! i) = Inr (ys ! i)"
    by simp_all
  show "\<exists>x \<in> set xs. f x = Inr y" if "y \<in> set ys"
  proof -
    from that obtain i where "i < length ys" "ys ! i = y" by (auto simp: in_set_conv_nth)
    with len nth [of i] show ?thesis by (metis nth_mem)
  qed
  show "\<exists>y \<in> set ys. f x = Inr y" if "x \<in> set xs"
  proof -
    from that obtain i where "i < length xs" "xs ! i = x" by (auto simp: in_set_conv_nth)
    with len nth [of i] show ?thesis by (metis nth_mem)
  qed
qed

lemma rows_rename_index:
  "(j, m) \<in> set (rows (rename_index k t)) \<longleftrightarrow> (\<exists>i. j = i @ ''_'' @ k \<and> (i, m) \<in> set (rows t))"
  by (auto simp: rename_index_def image_iff) force

lemma leaderboard_fold_all:
  fixes per_asset :: "(string \<times> string table \<times> 'a \<times> 'b) list"
  assumes "\<And>k avg rv cv i m. (k, avg, rv, cv) \<in> set per_asset \<Longrightarrow> (i, m) \<in> set (rows avg)
             \<Longrightarrow> one_null m"
    and "\<And>i m. (i, m) \<in> set (rows acc) \<Longrightarrow> one_null m"
    and "(i, m) \<in> set (rows (foldl (\<lambda>acc x.
             concat_rows acc (rename_index (fst x) (fst (snd x)))) acc per_asset))"
  shows "one_null m"
  using assms
proof (induction per_asset arbitrary: acc)
  case Nil
  then show ?case by simp
next
  case (Cons x xs)
  obtain k avg rv cv where x: "x = (k, avg, rv, cv)" by (cases x)
  show ?case
  proof (rule Cons.IH [where acc = "concat_rows acc (rename_index k avg)"])
    fix k' avg' rv' cv' j n
    assume "(k', avg', rv', cv') \<in> set xs" "(j, n) \<in> set (rows avg')"
    then show "one_null n" using Cons.prems(1) by (meson list.set_intros(2))
  next
    fix j n
    assume "(j, n) \<in> set (rows (concat_rows acc (rename_index k avg)))"
    then show "one_null n"
    proof (rule concat_rows_all [rotated 3])
      fix j' n' assume "(j', n') \<in> set (rows acc)"
      then show "one_null n'" by (rule Cons.prems(2))
    next
      fix j' n' assume "(j', n') \<in> set (rows (rename_index k avg))"
      then obtain i' where "(i', n') \<in> set (rows avg)" by (auto simp: rows_rename_index)
      with x show "one_null n'" using Cons.prems(1) by (meson list.set_intros(1))
    next
      fix cs' and j' :: string and n'
      assume "one_null n'"
      then show "one_null (snd (reindex_columns cs' (j', n')))" by (rule one_null_reindex)
    qed
  next
    from Cons.prems(3) x
    show "(i, m) \<in> set (rows (foldl (\<lambda>acc x.
             concat_rows acc (rename_index (fst x) (fst (snd x)))) (concat_rows acc (rename_index k avg)) xs))"
      by simp
  qed
qed

lemma leaderboard_fold_keeps:
  fixes per_asset :: "(string \<times> string table \<times> 'a \<times> 'b) list"
  assumes "(j, m) \<in> set (rows acc)" and "both_null m"
  shows "\<exists>m'. (j, m') \<in> set (rows (foldl (\<lambda>acc x.
             concat_rows acc (rename_index (fst x) (fst (snd x)))) acc per_asset)) \<and> both_null m'"
  using assms
proof (induction per_asset arbitrary: acc m)
  case Nil
  then show ?case by auto
next
  case (Cons x xs)
  obtain k avg rv cv where x: "x = (k, avg, rv, cv)" by (cases x)
  from Cons.prems(1) have "(j, m) \<in> set (rows acc) \<union> set (rows (rename_index k avg))" by simp
  from concat_rows_ex [of _ _ _ _ both_null, OF this Cons.prems(2) both_null_reindex]
  obtain m1 where "(j, m1) \<in> set (rows (concat_rows acc (rename_index k avg)))" "both_null m1"
    by blast
  from Cons.IH [OF this] x show ?case by simp
qed

lemma leaderboard_fold_ex:
  fixes per_asset :: "(string \<times> string table \<times> 'a \<times> 'b) list"
  assumes "(k, avg, rv, cv) \<in> set per_asset" and "(i, m) \<in> set (rows avg)" and "both_null m"
  shows "\<exists>m'. (i @ ''_'' @ k, m') \<in> set (rows (foldl (\<lambda>acc x.
             concat_rows acc (rename_index (fst x) (fst (snd x)))) acc per_asset)) \<and> both_null m'"
  using assms(1)
proof (induction per_asset arbitrary: acc)
  case Nil
  then show ?case by simp
next
  case (Cons x xs)
  show ?case
  proof (cases "x = (k, avg, rv, cv)")
    case True
    from assms(2) have "(i @ ''_'' @ k, m) \<in> set (rows acc) \<union> set (rows (rename_index k avg))"
      by (auto simp: rows_rename_index)
    from concat_rows_ex [of _ _ _ _ both_null, OF this assms(3) both_null_reindex]
    obtain m1 where "(i @ ''_'' @ k, m1) \<in> set (rows (concat_rows acc (rename_index k avg)))"
      "both_null m1" by blast
    from leaderboard_fold_keeps [OF this, of xs] True show ?thesis by simp
  next
    case False
    with Cons.prems have "(k, avg, rv, cv) \<in> set xs" by simp
    obtain k' avg' rv' cv' where x: "x = (k', avg', rv', cv')" by (cases x)
    from Cons.IH [OF \<open>(k, avg, rv, cv) \<in> set xs\<close>, of "concat_rows acc (rename_index k' avg')"] x
    show ?thesis by simp
  qed
qed

lemma dropoff_of_one_null:
  "one_null m \<Longrightarrow> dropoff_of m =
     (if isna (cell_at m ''train_rmse'')
      then fdiv (fsub (cell_at m ''validate_accuracy'') (cell_at m ''train_accuracy''))
             (cell_at m ''train_accuracy'')
      else fdiv (fsub (cell_at m ''validate_rmse'') (cell_at m ''train_rmse''))
             (cell_at m ''train_rmse''))"
  by (auto simp: dropoff_of_def one_null_def)

lemma fdiv_NaN_right: "fdiv a NaN = NaN"
  by (cases "as_float a") (simp_all add: fdiv_def)

lemma dropoff_of_both_null: "both_null m \<Longrightarrow> dropoff_of m = NaN"
  by (cases "cell_at m ''train_rmse''"; cases "cell_at m ''train_accuracy''")
     (simp_all add: dropoff_of_def both_null_def fdiv_NaN_right)

lemma add_dropoff_rows:
  assumes "add_dropoff df = Inr lb"
  shows "(i, m') \<in> set (rows lb) \<longleftrightarrow>
           (\<exists>m. (i, m) \<in> set (rows df) \<and> m' = row_set m ''dropoff'' (dropoff_of m))"
  using assms by (auto simp: add_dropoff_def image_iff split: if_splits) force+

text \<open>
  Claim C6, as amended. In every row of the leaderboard that \<open>conventional_split\<close>
  returns, at least one of \<open>train_rmse\<close> and \<open>train_accuracy\<close> is null, so that the
  value 0 of \<open>np.select\<close> for no condition never appears; \<open>dropoff\<close> is
  \<open>(validate_accuracy - train_accuracy) / train_accuracy\<close> where \<open>train_rmse\<close> is null
  and \<open>(validate_rmse - train_rmse) / train_rmse\<close> where it is not. For every asset the
  row \<open>baseline_reg\<close> has both metrics null, and a null \<open>dropoff\<close>.
\<close>

theorem leaderboard_dropoff:
  assumes "conventional_split split_data reg_models class_models features_to_use features_to_scale
             = Inr (reg_v, class_v, lb)"
  shows "(\<forall>(i, m) \<in> set (rows lb).
            (isna (cell_at m ''train_rmse'') \<or> isna (cell_at m ''train_accuracy''))
            \<and> cell_at m ''dropoff'' =
                (if isna (cell_at m ''train_rmse'')
                 then fdiv (fsub (cell_at m ''validate_accuracy'') (cell_at m ''train_accuracy''))
                        (cell_at m ''train_accuracy'')
                 else fdiv (fsub (cell_at m ''validate_rmse'') (cell_at m ''train_rmse''))
                        (cell_at m ''train_rmse'')))
       \<and> (\<forall>k \<in> fst ` set split_data.
            \<exists>m. (''baseline_reg_'' @ k, m) \<in> set (rows lb)
              \<and> isna (cell_at m ''train_rmse'') \<and> isna (cell_at m ''train_accuracy'')
              \<and> isna (cell_at m ''dropoff''))"
proof -
  let ?f = "\<lambda>x. bind_exc (conventional_asset reg_models class_models features_to_use
                              features_to_scale (snd x)) (\<lambda>r. Inr (fst x, r))"
  let ?F = "\<lambda>acc x. concat_rows acc (rename_index (fst x) (fst (snd x)))"
  from assms obtain per_asset where
    pa: "map_exc ?f split_data = Inr per_asset"
    and lb: "add_dropoff (foldl ?F \<lparr>columns = [], rows = []\<rparr> per_asset) = Inr lb"
    by (auto simp: conventional_split_def Let_def bind_exc_eq_Inr split_def)
  let ?df = "foldl ?F \<lparr>columns = [], rows = []\<rparr> per_asset"
  have elem: "\<exists>tvt. conventional_asset reg_models class_models features_to_use features_to_scale tvt
                = Inr (avg, rv, cv)"
    if "(k, avg, rv, cv) \<in> set per_asset" for k avg rv cv
    using map_exc_set(1) [OF pa that] by (fastforce simp: bind_exc_eq_Inr)
  have key: "\<exists>avg rv cv. (k, avg, rv, cv) \<in> set per_asset
               \<and> (\<exists>tvt. conventional_asset reg_models class_models features_to_use
                           features_to_scale tvt = Inr (avg, rv, cv))"
    if "k \<in> fst ` set split_data" for k
  proof -
    from that obtain tvt where "(k, tvt) \<in> set split_data" by auto
    from map_exc_set(2) [OF pa this] show ?thesis by (fastforce simp: bind_exc_eq_Inr)
  qed
  have all: "one_null m" if "(i, m) \<in> set (rows ?df)" for i m
    using _ _ that
  proof (rule leaderboard_fold_all)
    fix k avg rv cv j n
    assume "(k, avg, rv, cv) \<in> set per_asset" "(j, n) \<in> set (rows avg)"
    with elem show "one_null n" using conventional_asset_rows(1) by blast
  next
    fix j n assume "(j, n) \<in> set (rows \<lparr>columns = [], rows = []\<rparr>)"
    then show "one_null n" by simp
  qed
  have first: "(isna (cell_at m' ''train_rmse'') \<or> isna (cell_at m' ''train_accuracy''))
      \<and> cell_at m' ''dropoff'' =
          (if isna (cell_at m' ''train_rmse'')
           then fdiv (fsub (cell_at m' ''validate_accuracy'') (cell_at m' ''train_accuracy''))
                  (cell_at m' ''train_accuracy'')
           else fdiv (fsub (cell_at m' ''validate_rmse'') (cell_at m' ''train_rmse''))
                  (cell_at m' ''train_rmse''))"
    if "(i, m') \<in> set (rows lb)" for i m'
  proof -
    from that obtain m where m: "(i, m) \<in> set (rows ?df)"
      and m': "m' = row_set m ''dropoff'' (dropoff_of m)"
      by (auto simp: add_dropoff_rows [OF lb])
    from all [OF m] have "one_null m" .
    then show ?thesis
      by (simp add: m' cell_at_row_set dropoff_of_one_null) (auto simp: one_null_def)
  qed
  have second: "\<exists>m. (''baseline_reg_'' @ k, m) \<in> set (rows lb)
              \<and> isna (cell_at m ''train_rmse'') \<and> isna (cell_at m ''train_accuracy'')
              \<and> isna (cell_at m ''dropoff'')"
    if "k \<in> fst ` set split_data" for k
  proof -
    from key [OF that] obtain avg rv cv tvt where
      in_pa: "(k, avg, rv, cv) \<in> set per_asset"
      and asset: "conventional_asset reg_models class_models features_to_use features_to_scale tvt
                    = Inr (avg, rv, cv)"
      by blast
    from conventional_asset_rows(2) [OF asset]
    obtain bm where "(''baseline_reg'', bm) \<in> set (rows avg)" "both_null bm" by blast
    from leaderboard_fold_ex [OF in_pa this, of "\<lparr>columns = [], rows = []\<rparr>"]
    obtain m where m: "(''baseline_reg_'' @ k, m) \<in> set (rows ?df)" and "both_null m" by auto
    let ?m' = "row_set m ''dropoff'' (dropoff_of m)"
    from m have "(''baseline_reg_'' @ k, ?m') \<in> set (rows lb)"
      by (auto simp: add_dropoff_rows [OF lb])
    moreover from \<open>both_null m\<close> have "isna (cell_at ?m' ''train_rmse'')"
      "isna (cell_at ?m' ''train_accuracy'')" "isna (cell_at ?m' ''dropoff'')"
      by (simp_all add: cell_at_row_set dropoff_of_both_null) (simp_all add: both_null_def)
    ultimately show ?thesis by blast
  qed
  from first second show ?thesis by blast
qed

lemmas conv_defs = conventional_asset_def predict_regression_def predict_regression_step_def
  predict_classification_def predict_classification_step_def calculate_regression_results_def
  calculate_classification_results_def calculate_step_def initial_validate_results_def
  add_daily_returns_def avg_trade_frame_def reindex_columns_def concat_rows_def desc_before_def
  sort_desc_def sort_values_desc_def dict_get_def conventional_split_def rename_index_def
  add_dropoff_def dropoff_of_def select_table_columns_def

lemma ex_conventional_split:
  "\<exists>reg_v class_v. conventional_split ex_split_data [ex_model] [ex_classifier] ex_features
      ex_features
     = Inr (reg_v, class_v, ex_leaderboard)"
  by (simp add: ex_split_data_def ex_leaderboard_def conv_defs ex_class_defs ex_class_defs_B
      run_defs rolling_defs ex_inputs scale_defs frame_defs arith_defs)

text \<open>
  Claim C6 as stated fails on the code: in the leaderboard of the two assets the row
  \<open>baseline_reg_A\<close> has neither \<open>train_rmse\<close> nor \<open>train_accuracy\<close>, and its
  \<open>dropoff\<close> is null.
\<close>

theorem leaderboard_baseline_row_all_null:
  "(\<exists>reg_v class_v. conventional_split ex_split_data [ex_model] [ex_classifier] ex_features
      ex_features
      = Inr (reg_v, class_v, ex_leaderboard))
   \<and> fst (rows ex_leaderboard ! 2) = ''baseline_reg_A''
   \<and> isna (cell_at (snd (rows ex_leaderboard ! 2)) ''train_rmse'')
   \<and> isna (cell_at (snd (rows ex_leaderboard ! 2)) ''train_accuracy'')
   \<and> isna (cell_at (snd (rows ex_leaderboard ! 2)) ''dropoff'')"
  using ex_conventional_split by (simp add: ex_leaderboard_def cell_at_def)

theorem leaderboard_dropoff_witness:
  "(\<exists>reg_v class_v. conventional_split ex_split_data [ex_model] [ex_classifier] ex_features
      ex_features
      = Inr (reg_v, class_v, ex_leaderboard))
   \<and> rows ex_leaderboard ! 0 \<in> set (rows ex_leaderboard)
   \<and> fst (rows ex_leaderboard ! 0) = ''First_A''
   \<and> \<not> isna (cell_at (snd (rows ex_leaderboard ! 0)) ''train_rmse'')
   \<and> isna (cell_at (snd (rows ex_leaderboard ! 0)) ''train_accuracy'')
   \<and> cell_at (snd (rows ex_leaderboard ! 0)) ''dropoff''
       = fdiv (fsub (cell_at (snd (rows ex_leaderboard ! 0)) ''validate_rmse'')
                 (cell_at (snd (rows ex_leaderboard ! 0)) ''train_rmse''))
           (cell_at (snd (rows ex_leaderboard ! 0)) ''train_rmse'')
   \<and> rows ex_leaderboard ! 1 \<in> set (rows ex_leaderboard)
   \<and> fst (rows ex_leaderboard ! 1) = ''Sign_A''
   \<and> isna (cell_at (snd (rows ex_leaderboard ! 1)) ''train_rmse'')
   \<and> \<not> isna (cell_at (snd (rows ex_leaderboard ! 1)) ''train_accuracy'')
   \<and> cell_at (snd (rows ex_leaderboard ! 1)) ''dropoff''
       = fdiv (fsub (cell_at (snd (rows ex_leaderboard ! 1)) ''validate_accuracy'')
                 (cell_at (snd (rows ex_leaderboard ! 1)) ''train_accuracy''))
           (cell_at (snd (rows ex_leaderboard ! 1)) ''train_accuracy'')
   \<and> ''B'' \<in> fst ` set ex_split_data
   \<and> (\<exists>m. (''baseline_reg_'' @ ''B'', m) \<in> set (rows ex_leaderboard)
          \<and> isna (cell_at m ''train_rmse'') \<and> isna (cell_at m ''train_accuracy'')
          \<and> isna (cell_at m ''dropoff''))"
proof -
  from ex_conventional_split obtain reg_v class_v where
    run: "conventional_split ex_split_data [ex_model] [ex_classifier] ex_features
      ex_features
            = Inr (reg_v, class_v, ex_leaderboard)"
    by blast
  note dropoff = leaderboard_dropoff [OF run]
  have mem: "rows ex_leaderboard ! 0 \<in> set (rows ex_leaderboard)"
    "rows ex_leaderboard ! 1 \<in> set (rows ex_leaderboard)"
    by (simp_all add: ex_leaderboard_def)
  have B: "''B'' \<in> fst ` set ex_split_data" by (simp add: ex_split_data_def)
  have populated: "\<not> isna (cell_at (snd (rows ex_leaderboard ! 0)) ''train_rmse'')"
    "isna (cell_at (snd (rows ex_leaderboard ! 0)) ''train_accuracy'')"
    "isna (cell_at (snd (rows ex_leaderboard ! 1)) ''train_rmse'')"
    "\<not> isna (cell_at (snd (rows ex_leaderboard ! 1)) ''train_accuracy'')"
    "fst (rows ex_leaderboard ! 0) = ''First_A''" "fst (rows ex_leaderboard ! 1) = ''Sign_A''"
    by (simp_all add: ex_leaderboard_def cell_at_def)
  from dropoff have rows_ok: "\<forall>r \<in> set (rows ex_leaderboard).
      cell_at (snd r) ''dropoff'' =
        (if isna (cell_at (snd r) ''train_rmse'')
         then fdiv (fsub (cell_at (snd r) ''validate_accuracy'') (cell_at (snd r) ''train_accuracy''))
                (cell_at (snd r) ''train_accuracy'')
         else fdiv (fsub (cell_at (snd r) ''validate_rmse'') (cell_at (snd r) ''train_rmse''))
                (cell_at (snd r) ''train_rmse''))"
    by (simp add: split_def)
  from dropoff B have base: "\<exists>m. (''baseline_reg_'' @ ''B'', m) \<in> set (rows ex_leaderboard)
          \<and> isna (cell_at m ''train_rmse'') \<and> isna (cell_at m ''train_accuracy'')
          \<and> isna (cell_at m ''dropoff'')"
    by blast
  from rows_ok mem populated have
    "cell_at (snd (rows ex_leaderboard ! 0)) ''dropoff''
       = fdiv (fsub (cell_at (snd (rows ex_leaderboard ! 0)) ''validate_rmse'')
                 (cell_at (snd (rows ex_leaderboard ! 0)) ''train_rmse''))
           (cell_at (snd (rows ex_leaderboard ! 0)) ''train_rmse'')"
    "cell_at (snd (rows ex_leaderboard ! 1)) ''dropoff''
       = fdiv (fsub (cell_at (snd (rows ex_leaderboard ! 1)) ''validate_accuracy'')
                 (cell_at (snd (rows ex_leaderboard ! 1)) ''train_accuracy''))
           (cell_at (snd (rows ex_leaderboard ! 1)) ''train_accuracy'')"
    by simp_all
  with run mem populated B base show ?thesis by blast
qed

lemma ex_leaderboard_unranked:
  "\<not> ranked_by [''pct_avg_trade'', ''dropoff''] (rows ex_leaderboard)"
proof
  assume "ranked_by [''pct_avg_trade'', ''dropoff''] (rows ex_leaderboard)"
  then have "\<not> before_by [''pct_avg_trade'', ''dropoff''] (snd (rows ex_leaderboard ! 4))
               (snd (rows ex_leaderboard ! 3))"
    unfolding ranked_by_def by (rule sorted_wrt_nth_less) (simp_all add: ex_leaderboard_def)
  then show False
    by (simp add: ex_leaderboard_def desc_before_def cell_at_def)
qed

text \<open>
  Claim C8. The leaderboard is not returned sorted by \<open>pct_avg_trade\<close> and
  \<open>dropoff\<close>: the sorted copy is dropped, and the frame that is returned holds the
  tables of the assets one after the other. For the two assets the row
  \<open>baseline_class_A\<close> with 1/840 stands before the row \<open>First_B\<close> with 1/20.
\<close>

theorem conventional_split_returns_unsorted:
  "(\<exists>reg_v class_v. conventional_split ex_split_data [ex_model] [ex_classifier] ex_features
      ex_features
      = Inr (reg_v, class_v, ex_leaderboard))
   \<and> fst (rows ex_leaderboard ! 3) = ''baseline_class_A''
   \<and> cell_at (snd (rows ex_leaderboard ! 3)) ''pct_avg_trade'' = Num (1 / 840)
   \<and> fst (rows ex_leaderboard ! 4) = ''First_B''
   \<and> cell_at (snd (rows ex_leaderboard ! 4)) ''pct_avg_trade'' = Num (1 / 20)
   \<and> \<not> ranked_by [''pct_avg_trade'', ''dropoff''] (rows ex_leaderboard)"
  using ex_conventional_split ex_leaderboard_unranked
  by (simp add: ex_leaderboard_def cell_at_def)

end
